theory Spec2Isabelle
  imports Complex_Main
begin

section \<open>Strings\<close>

text \<open>
  A Python \<open>str\<close> is modelled as a \<open>string\<close> whose characters are the code points
  0..255. On that range \<open>str.lower\<close> works character by character and the
  whitespace and line-boundary classes are the finite sets below.
\<close>

definition is_space :: "char \<Rightarrow> bool" where
  \<comment> \<open>\<open>str.isspace\<close> on one code point: the class removed by \<open>strip()\<close> and used by \<open>split()\<close>\<close>
  "is_space c = ((of_char c :: nat) \<in> {9, 10, 11, 12, 13, 28, 29, 30, 31, 32, 133, 160})"

definition lower_char :: "char \<Rightarrow> char" where
  "lower_char c =
     (let n = (of_char c :: nat)
      in if (65 \<le> n \<and> n \<le> 90) \<or> (192 \<le> n \<and> n \<le> 222 \<and> n \<noteq> 215)
         then char_of (n + 32) else c)"

definition lower :: "string \<Rightarrow> string" where
  \<comment> \<open>\<open>s.lower()\<close>\<close>
  "lower s = map lower_char s"

definition strip :: "string \<Rightarrow> string" where
  \<comment> \<open>\<open>s.strip()\<close>\<close>
  "strip s = rev (dropWhile is_space (rev (dropWhile is_space s)))"

fun split_char :: "char \<Rightarrow> string \<Rightarrow> string \<Rightarrow> string list" where
  \<comment> \<open>\<open>s.split(sep)\<close> for a one-character separator; the second argument is the field read so far\<close>
  "split_char sep acc [] = [acc]"
| "split_char sep acc (c # cs) =
     (if c = sep then acc # split_char sep [] cs else split_char sep (acc @ [c]) cs)"

fun split_ws :: "string \<Rightarrow> string \<Rightarrow> string list" where
  \<comment> \<open>\<open>s.split()\<close>: the maximal runs of non-whitespace characters\<close>
  "split_ws acc [] = (if acc = [] then [] else [acc])"
| "split_ws acc (c # cs) =
     (if is_space c then (if acc = [] then split_ws [] cs else acc # split_ws [] cs)
      else split_ws (acc @ [c]) cs)"

definition is_linebreak :: "char \<Rightarrow> bool" where
  \<comment> \<open>the one-character line boundaries of \<open>str.splitlines\<close>\<close>
  "is_linebreak c = ((of_char c :: nat) \<in> {10, 11, 12, 13, 28, 29, 30, 133})"

fun splitlines_from :: "string \<Rightarrow> string \<Rightarrow> string list" where
  "splitlines_from acc [] = (if acc = [] then [] else [acc])"
| "splitlines_from acc (c # cs) =
     (if c = CHR 0x0D \<and> cs \<noteq> [] \<and> hd cs = CHR 0x0A then acc # splitlines_from [] (tl cs)
      else if is_linebreak c then acc # splitlines_from [] cs
      else splitlines_from (acc @ [c]) cs)"

definition splitlines :: "string \<Rightarrow> string list" where
  \<comment> \<open>\<open>s.splitlines()\<close>\<close>
  "splitlines s = splitlines_from [] s"

section \<open>taxonomy.py: TaxonomyLoader\<close>

text \<open>The dictionary stored for a reference row: \<open>{"latin", "common", "line_parts"}\<close>.\<close>

record entry =
  row_latin :: string
  row_common :: string
  line_parts :: "string list"

record taxonomy =
  latin_to_row :: "string \<rightharpoonup> entry"
  common_to_row :: "string \<rightharpoonup> entry"
  valid_latin_names :: "string set"

definition empty_taxonomy :: taxonomy where
  \<comment> \<open>the state set up by \<open>__init__\<close> before \<open>load\<close> runs\<close>
  "empty_taxonomy = \<lparr>latin_to_row = Map.empty, common_to_row = Map.empty, valid_latin_names = {}\<rparr>"

definition latin_name_of :: "string list \<Rightarrow> string option" where
  \<comment> \<open>lines 37-49 of \<open>load\<close>, on a row of at least seven fields; \<open>None\<close> is the \<open>continue\<close>\<close>
  "latin_name_of parts =
     (if parts ! 5 \<noteq> [] then Some (lower (parts ! 4 @ '' '' @ parts ! 5))
      else if parts ! 4 \<noteq> [] then Some (lower (parts ! 4))
      else if parts ! 3 \<noteq> [] then Some (lower (parts ! 3))
      else if parts ! 2 \<noteq> [] then Some (lower (parts ! 2))
      else if parts ! 1 \<noteq> [] then Some (lower (parts ! 1))
      else None)"

definition parse_line :: "string \<Rightarrow> entry option" where
  \<comment> \<open>the part of the loop body of \<open>load\<close> that builds \<open>entry\<close>; \<open>None\<close> where the body continues\<close>
  "parse_line raw =
     (let line = strip raw in
      if line = [] then None
      else let parts = split_char CHR '';'' [] line in
        if length parts < 7 then None
        else (case latin_name_of parts of
                None \<Rightarrow> None
              | Some latin_name \<Rightarrow>
                  Some \<lparr>row_latin = latin_name, row_common = parts ! 6, line_parts = parts\<rparr>))"

definition store_entry :: "entry \<Rightarrow> taxonomy \<Rightarrow> taxonomy" where
  \<comment> \<open>lines 59-63 of \<open>load\<close>\<close>
  "store_entry e t =
     (let t1 = t\<lparr>latin_to_row := (latin_to_row t)(row_latin e \<mapsto> e),
                 valid_latin_names := insert (row_latin e) (valid_latin_names t)\<rparr>
      in if row_common e \<noteq> []
         then t1\<lparr>common_to_row := (common_to_row t1)(lower (row_common e) \<mapsto> e)\<rparr>
         else t1)"

fun load_lines :: "string list \<Rightarrow> taxonomy \<Rightarrow> taxonomy" where
  \<comment> \<open>the loop \<open>for line in f\<close>\<close>
  "load_lines [] t = t"
| "load_lines (raw # rest) t =
     (case parse_line raw of
        None \<Rightarrow> load_lines rest t
      | Some e \<Rightarrow> load_lines rest (store_entry e t))"

definition load :: "string list option \<Rightarrow> taxonomy" where
  \<comment> \<open>\<open>TaxonomyLoader(path)\<close>: \<open>None\<close> is a path that does not exist, \<open>Some ls\<close> the lines of the file\<close>
  "load file = (case file of None \<Rightarrow> empty_taxonomy | Some ls \<Rightarrow> load_lines ls empty_taxonomy)"

definition get_by_latin :: "taxonomy \<Rightarrow> string \<Rightarrow> entry option" where
  "get_by_latin t latin_name = latin_to_row t (strip (lower latin_name))"

definition get_by_common :: "taxonomy \<Rightarrow> string \<Rightarrow> entry option" where
  "get_by_common t common_name = common_to_row t (strip (lower common_name))"

definition lookup_rank :: "taxonomy \<Rightarrow> string option \<Rightarrow> entry option" where
  \<comment> \<open>\<open>if tax_x: entry = self.get_by_latin(tax_x)\<close>\<close>
  "lookup_rank t v = (case v of None \<Rightarrow> None | Some s \<Rightarrow> if s \<noteq> [] then get_by_latin t s else None)"

definition lookup_species :: "taxonomy \<Rightarrow> string option \<Rightarrow> string option \<Rightarrow> entry option" where
  \<comment> \<open>\<open>if tax_genus and tax_species: entry = self.get_by_latin(f"{tax_genus} {tax_species}")\<close>\<close>
  "lookup_species t g s =
     (case g of
        None \<Rightarrow> None
      | Some gs \<Rightarrow>
          (case s of
             None \<Rightarrow> None
           | Some ss \<Rightarrow> if gs \<noteq> [] \<and> ss \<noteq> [] then get_by_latin t (gs @ '' '' @ ss) else None))"

definition walk_ranks ::
  "taxonomy \<Rightarrow> string option \<Rightarrow> string option \<Rightarrow> string option \<Rightarrow> string option \<Rightarrow> string option
     \<Rightarrow> entry option \<times> string option" where
  \<comment> \<open>lines 84-115 of \<open>get_by_hierarchy\<close>, on the normalised arguments\<close>
  "walk_ranks t tax_class tax_order tax_family tax_genus tax_species =
     (case lookup_species t tax_genus tax_species of
        Some e \<Rightarrow> (Some e, Some ''species'')
      | None \<Rightarrow>
     (case lookup_rank t tax_genus of
        Some e \<Rightarrow> (Some e, Some ''genus'')
      | None \<Rightarrow>
     (case lookup_rank t tax_family of
        Some e \<Rightarrow> (Some e, Some ''family'')
      | None \<Rightarrow>
     (case lookup_rank t tax_order of
        Some e \<Rightarrow> (Some e, Some ''order'')
      | None \<Rightarrow>
     (case lookup_rank t tax_class of
        Some e \<Rightarrow> (Some e, Some ''class'')
      | None \<Rightarrow> (None, None))))))"

section \<open>Values decoded from JSON, and exceptions\<close>

text \<open>
  What \<open>json.loads\<close> returns: \<open>None\<close>, a bool, a number, a string, a list, or a dictionary
  (its items in insertion order, keys distinct). Of a number the program only ever
  tests whether it is zero.
\<close>

datatype json =
  JNull | JBool bool | JNum real | JStr string | JArr "json list" | JObj "(string \<times> json) list"

text \<open>The exceptions (all of them subclasses of \<open>Exception\<close>) that the program can meet.\<close>

datatype py_error = TypeError | AttributeError | IndexError | JSONDecodeError | OtherError string

definition bind_err :: "py_error + 'a \<Rightarrow> ('a \<Rightarrow> py_error + 'b) \<Rightarrow> py_error + 'b" where
  \<comment> \<open>sequencing: an exception raised by the first step skips the second\<close>
  "bind_err x f = (case x of Inl e \<Rightarrow> Inl e | Inr v \<Rightarrow> f v)"

fun truthy :: "json \<Rightarrow> bool" where
  "truthy JNull = False"
| "truthy (JBool b) = b"
| "truthy (JNum x) = (x \<noteq> 0)"
| "truthy (JStr s) = (s \<noteq> [])"
| "truthy (JArr xs) = (xs \<noteq> [])"
| "truthy (JObj kvs) = (kvs \<noteq> [])"

definition dict_get :: "json \<Rightarrow> string \<Rightarrow> json \<Rightarrow> py_error + json" where
  \<comment> \<open>\<open>v.get(k, dflt)\<close>; only a dictionary has the method\<close>
  "dict_get v k dflt =
     (case v of
        JObj kvs \<Rightarrow> Inr (case map_of kvs k of None \<Rightarrow> dflt | Some x \<Rightarrow> x)
      | _ \<Rightarrow> Inl AttributeError)"

definition iter_json :: "json \<Rightarrow> py_error + json list" where
  \<comment> \<open>the elements visited by \<open>for x in v\<close>\<close>
  "iter_json v =
     (case v of
        JArr xs \<Rightarrow> Inr xs
      | JObj kvs \<Rightarrow> Inr (map (\<lambda>kv. JStr (fst kv)) kvs)
      | JStr s \<Rightarrow> Inr (map (\<lambda>c. JStr [c]) s)
      | _ \<Rightarrow> Inl TypeError)"

definition norm_rank :: "json \<Rightarrow> py_error + string option" where
  \<comment> \<open>\<open>if tax_x: tax_x = tax_x.lower().strip()\<close>; a value that is false is read as absent\<close>
  "norm_rank v =
     (if truthy v
      then (case v of JStr s \<Rightarrow> Inr (Some (strip (lower s))) | _ \<Rightarrow> Inl AttributeError)
      else Inr None)"

definition get_by_hierarchy ::
  "taxonomy \<Rightarrow> json \<Rightarrow> json \<Rightarrow> json \<Rightarrow> json \<Rightarrow> json \<Rightarrow> py_error + (entry option \<times> string option)" where
  "get_by_hierarchy t tax_class tax_order tax_family tax_genus tax_species =
     bind_err (norm_rank tax_class) (\<lambda>c.
     bind_err (norm_rank tax_order) (\<lambda>ord.
     bind_err (norm_rank tax_family) (\<lambda>f.
     bind_err (norm_rank tax_genus) (\<lambda>g.
     bind_err (norm_rank tax_species) (\<lambda>s.
       Inr (walk_ranks t c ord f g s))))))"

section \<open>matcher.py: Matcher\<close>

text \<open>
  The result dictionary of one input line. The key \<open>match_level\<close> is absent until the
  second pass sets it; \<open>result.get('match_level')\<close> then reads \<open>None\<close>.
\<close>

record line_result =
  latin :: string
  common :: string
  original_latin :: string
  original_common :: string
  raw_input :: string
  match_level :: "string option"

definition is_likely_latin :: "string \<Rightarrow> bool" where
  "is_likely_latin text = (length (split_ws [] text) \<le> 2)"

definition match_single_line_exact :: "taxonomy \<Rightarrow> string \<Rightarrow> line_result" where
  "match_single_line_exact t line =
     (let parts = map strip (split_char CHR '','' [] line) in
      if length parts = 1 then
        (let token = parts ! 0 in
         case get_by_latin t token of
           Some row \<Rightarrow>
             \<lparr>latin = row_latin row, common = row_common row, original_latin = token,
              original_common = [], raw_input = line, match_level = None\<rparr>
         | None \<Rightarrow>
             (case get_by_common t token of
                Some row \<Rightarrow>
                  \<lparr>latin = row_latin row, common = row_common row, original_latin = [],
                   original_common = token, raw_input = line, match_level = None\<rparr>
              | None \<Rightarrow>
                  \<lparr>latin = [], common = [], original_latin = [],
                   original_common = token, raw_input = line, match_level = None\<rparr>))
      else if length parts \<ge> 2 then
        (let p0 = parts ! 0; p1 = parts ! 1;
             row0_l = get_by_latin t p0; row0_c = get_by_common t p0;
             row1_l = get_by_latin t p1; row1_c = get_by_common t p1
         in if row0_l \<noteq> None \<and> row1_l = None then
              \<lparr>latin = row_latin (the row0_l), common = row_common (the row0_l),
               original_latin = p0, original_common = p1, raw_input = line, match_level = None\<rparr>
            else if row1_l \<noteq> None \<and> row0_l = None then
              \<lparr>latin = row_latin (the row1_l), common = row_common (the row1_l),
               original_latin = p1, original_common = p0, raw_input = line, match_level = None\<rparr>
            else if row0_c \<noteq> None then
              \<lparr>latin = row_latin (the row0_c), common = row_common (the row0_c),
               original_latin = (if \<not> is_likely_latin p1 then [] else p1),
               original_common = p0, raw_input = line, match_level = None\<rparr>
            else if row1_c \<noteq> None then
              \<lparr>latin = row_latin (the row1_c), common = row_common (the row1_c),
               original_latin = (if is_likely_latin p0 then p0 else []),
               original_common = p1, raw_input = line, match_level = None\<rparr>
            else
              \<lparr>latin = [], common = [], original_latin = p1, original_common = p0,
               raw_input = line, match_level = None\<rparr>)
      else
        \<lparr>latin = [], common = [], original_latin = [], original_common = [],
         raw_input = line, match_level = None\<rparr>)"

subsection \<open>The second pass: \<open>batch_process_with_gemini\<close>\<close>

text \<open>
  The external parts. A model is the function from a prompt to
  \<open>generate_content(prompt).text\<close>, or to the exception raised on the way;
  \<open>genai_model\<close> is the constructor called with a caller's key, \<open>json_loads\<close> is \<open>json.loads\<close>.
\<close>

type_synonym llm = "string \<Rightarrow> py_error + string"

record external =
  genai_model :: "string \<Rightarrow> py_error + llm"
  json_loads :: "string \<Rightarrow> py_error + json"

record matcher =
  taxonomy_of :: taxonomy
  model :: "llm option"

fun str_join :: "string \<Rightarrow> string list \<Rightarrow> string" where
  \<comment> \<open>\<open>sep.join(xs)\<close>\<close>
  "str_join sep [] = []"
| "str_join sep [x] = x"
| "str_join sep (x # y # ys) = x @ sep @ str_join sep (y # ys)"

definition build_prompt :: "string option \<Rightarrow> (nat \<times> string \<times> line_result) list \<Rightarrow> string" where
  "build_prompt location unknown_items =
     str_join [CHR 0x0A]
       ([''Map the following biological terms to their standard scientific (Latin) name and Common name.'']
        @ (case location of
             None \<Rightarrow> []
           | Some loc \<Rightarrow>
               if loc \<noteq> [] then [''Context: The species are observed in '' @ loc @ ''.''] else [])
        @ [''For each term, provide multiple candidate identifications in order of likelihood, as different taxonomies may use different names.'',
           ''For each candidate, include the full taxonomic hierarchy (class, order, family, genus, species).'',
           ''Return the result as a JSON list of objects with keys:'',
           ''  - 'input_text': the original input'',
           ''  - 'candidates': array of candidate objects, each with:'',
           ''      - 'class': taxonomic class'',
           ''      - 'order': taxonomic order'',
           ''      - 'family': taxonomic family'',
           ''      - 'genus': taxonomic genus'',
           ''      - 'species': species epithet (not the full binomial, just the species part)'',
           ''  - 'suggested_common': the most common English name'',
           ''If you cannot identify a term, set candidates to an empty array.'',
           ''Items:'']
        @ map (\<lambda>item. ''- '' @ fst (snd item)) unknown_items)"

fun contains :: "string \<Rightarrow> string \<Rightarrow> bool" where
  \<comment> \<open>\<open>sub in s\<close> on strings\<close>
  "contains sub [] = (sub = [])"
| "contains sub (c # cs) = (take (length sub) (c # cs) = sub \<or> contains sub cs)"

fun split_str :: "string \<Rightarrow> nat \<Rightarrow> string \<Rightarrow> string \<Rightarrow> string list" where
  \<comment> \<open>\<open>s.split(sep)\<close> for a non-empty separator, scanning from the left; the number counts the
      characters of a separator just found that are still to be passed over\<close>
  "split_str sep skip acc [] = [acc]"
| "split_str sep skip acc (c # cs) =
     (if skip > 0 then split_str sep (skip - 1) acc cs
      else if take (length sep) (c # cs) = sep then acc # split_str sep (length sep - 1) [] cs
      else split_str sep 0 (acc @ [c]) cs)"

definition strip_fence :: "string \<Rightarrow> string" where
  \<comment> \<open>lines 238-241\<close>
  "strip_fence content =
     (if contains ''```json'' content
      then hd (split_str ''```'' 0 [] (split_str ''```json'' 0 [] content ! 1))
      else if contains ''```'' content
      then hd (split_str ''```'' 0 [] (split_str ''```'' 0 [] content ! 1))
      else content)"

definition space_in :: "json \<Rightarrow> py_error + bool" where
  \<comment> \<open>\<open>' ' in name\<close>\<close>
  "space_in name =
     (case name of
        JStr s \<Rightarrow> Inr (CHR '' '' \<in> set s)
      | JArr xs \<Rightarrow> Inr (JStr '' '' \<in> set xs)
      | JObj kvs \<Rightarrow> Inr ('' '' \<in> set (map fst kvs))
      | _ \<Rightarrow> Inl TypeError)"

definition legacy_candidate :: "json \<Rightarrow> py_error + json" where
  \<comment> \<open>the dictionary built from one name of \<open>candidate_latin_names\<close> (lines 256-257)\<close>
  "legacy_candidate name =
     bind_err (space_in name) (\<lambda>sp.
       if sp then
         (case name of
            JStr s \<Rightarrow>
              (case split_ws [] s of
                 [] \<Rightarrow> Inl IndexError
               | w # ws \<Rightarrow>
                   Inr (JObj [(''genus'', JStr w),
                              (''species'', (case ws of [] \<Rightarrow> JNull | w2 # _ \<Rightarrow> JStr w2))]))
          | _ \<Rightarrow> Inl AttributeError)
       else Inr (JObj [(''genus'', name), (''species'', JNull)]))"

fun map_err :: "('a \<Rightarrow> py_error + 'b) \<Rightarrow> 'a list \<Rightarrow> py_error + 'b list" where
  \<comment> \<open>a list comprehension whose element expression may raise\<close>
  "map_err f [] = Inr []"
| "map_err f (x # xs) =
     bind_err (f x) (\<lambda>y. bind_err (map_err f xs) (\<lambda>ys. Inr (y # ys)))"

definition item_candidates :: "json \<Rightarrow> py_error + json" where
  \<comment> \<open>lines 252-258: the value of \<open>candidates\<close> for an item that is a dictionary\<close>
  "item_candidates item =
     bind_err (dict_get item ''candidates'' (JArr [])) (\<lambda>candidates.
     bind_err (dict_get item ''candidate_latin_names'' JNull) (\<lambda>names.
       if \<not> truthy candidates \<and> truthy names
       then bind_err (iter_json names) (\<lambda>ns.
            bind_err (map_err legacy_candidate ns) (\<lambda>cs. Inr (JArr cs)))
       else Inr candidates))"

definition candidate_lookup :: "taxonomy \<Rightarrow> json \<Rightarrow> py_error + (entry option \<times> string option)" where
  \<comment> \<open>lines 271-277\<close>
  "candidate_lookup t candidate =
     bind_err (dict_get candidate ''class'' JNull) (\<lambda>c.
     bind_err (dict_get candidate ''order'' JNull) (\<lambda>ord.
     bind_err (dict_get candidate ''family'' JNull) (\<lambda>f.
     bind_err (dict_get candidate ''genus'' JNull) (\<lambda>g.
     bind_err (dict_get candidate ''species'' JNull) (\<lambda>s.
       get_by_hierarchy t c ord f g s)))))"

fun try_candidates :: "taxonomy \<Rightarrow> json list \<Rightarrow> py_error + (entry option \<times> string option)" where
  \<comment> \<open>the loop \<open>for candidate in candidates\<close>; the result is \<open>(matched_entry, matched_level)\<close>\<close>
  "try_candidates t [] = Inr (None, None)"
| "try_candidates t (candidate # rest) =
     (if \<not> truthy candidate then try_candidates t rest
      else bind_err (candidate_lookup t candidate) (\<lambda>found.
             case fst found of
               Some e \<Rightarrow> Inr found
             | None \<Rightarrow> try_candidates t rest))"

definition common_fallback ::
  "taxonomy \<Rightarrow> json \<Rightarrow> entry option \<times> string option \<Rightarrow> py_error + (entry option \<times> string option)" where
  \<comment> \<open>lines 285-290\<close>
  "common_fallback t item matched =
     (case fst matched of
        Some e \<Rightarrow> Inr matched
      | None \<Rightarrow>
          bind_err (dict_get item ''suggested_common'' JNull) (\<lambda>s_common_gemini.
            if truthy s_common_gemini then
              (case s_common_gemini of
                 JStr s \<Rightarrow>
                   (case get_by_common t s of
                      Some e \<Rightarrow> Inr (Some e, Some ''common_name_fallback'')
                    | None \<Rightarrow> Inr (None, snd matched))
               | _ \<Rightarrow> Inl AttributeError)
            else Inr matched))"

fun update_results :: "json \<Rightarrow> entry option \<times> string option \<Rightarrow> line_result list \<Rightarrow> line_result list" where
  \<comment> \<open>lines 294-300: the loop \<open>for res in results_list\<close>, left at the first unresolved result
      whose text is \<open>inp\<close>\<close>
  "update_results inp matched [] = []"
| "update_results inp matched (res # rest) =
     (if JStr (raw_input res) = inp \<and> latin res = [] then
        (case fst matched of
           Some e \<Rightarrow>
             res\<lparr>latin := row_latin e, common := row_common e, match_level := snd matched\<rparr> # rest
         | None \<Rightarrow> res # rest)
      else res # update_results inp matched rest)"

definition process_item :: "taxonomy \<Rightarrow> json \<Rightarrow> line_result list \<Rightarrow> py_error + line_result list" where
  \<comment> \<open>the body of \<open>for item in data\<close>; every exception is raised before the results are touched\<close>
  "process_item t item results_list =
     bind_err (dict_get item ''input_text'' JNull) (\<lambda>inp.
     bind_err (item_candidates item) (\<lambda>candidates.
       if \<not> truthy inp then Inr results_list
       else
         bind_err (iter_json candidates) (\<lambda>cs.
         bind_err (try_candidates t cs) (\<lambda>found.
         bind_err (common_fallback t item found) (\<lambda>matched.
           Inr (update_results inp matched results_list))))))"

fun process_items :: "taxonomy \<Rightarrow> json list \<Rightarrow> line_result list \<Rightarrow> py_error option \<times> line_result list" where
  \<comment> \<open>the loop \<open>for item in data\<close>: the exception that ended it, if any, and the results as
      they stand then (the updates of the items before are kept)\<close>
  "process_items t [] results_list = (None, results_list)"
| "process_items t (item # rest) results_list =
     (case process_item t item results_list of
        Inl e \<Rightarrow> (Some e, results_list)
      | Inr results_list' \<Rightarrow> process_items t rest results_list')"

definition try_block ::
  "external \<Rightarrow> taxonomy \<Rightarrow> llm \<Rightarrow> string \<Rightarrow> line_result list \<Rightarrow> py_error option \<times> line_result list" where
  \<comment> \<open>the body of the \<open>try\<close> (lines 234-300)\<close>
  "try_block ext t model_to_use prompt results_list =
     (case model_to_use prompt of
        Inl e \<Rightarrow> (Some e, results_list)
      | Inr content \<Rightarrow>
          (case json_loads ext (strip_fence content) of
             Inl e \<Rightarrow> (Some e, results_list)
           | Inr data \<Rightarrow>
               (case iter_json data of
                  Inl e \<Rightarrow> (Some e, results_list)
                | Inr items \<Rightarrow> process_items t items results_list)))"

definition choose_model :: "external \<Rightarrow> matcher \<Rightarrow> string option \<Rightarrow> llm option" where
  \<comment> \<open>lines 184-205: \<open>model_to_use\<close>, or \<open>None\<close> where the method returns early\<close>
  "choose_model ext m user_api_key =
     (case user_api_key of
        None \<Rightarrow> model m
      | Some key \<Rightarrow>
          if key \<noteq> [] then
            (case genai_model ext key of
               Inr temp_genai \<Rightarrow> Some temp_genai
             | Inl e \<Rightarrow> model m)
          else model m)"

definition batch_process_with_gemini ::
  "external \<Rightarrow> matcher \<Rightarrow> (nat \<times> string \<times> line_result) list \<Rightarrow> line_result list
     \<Rightarrow> string option \<Rightarrow> string option \<Rightarrow> line_result list" where
  \<comment> \<open>the results list as the method leaves it; \<open>except Exception\<close> only prints\<close>
  "batch_process_with_gemini ext m unknown_items results_list location user_api_key =
     (case choose_model ext m user_api_key of
        None \<Rightarrow> results_list
      | Some model_to_use \<Rightarrow>
          snd (try_block ext (taxonomy_of m) model_to_use
                 (build_prompt location unknown_items) results_list))"

subsection \<open>The third pass: \<open>resolve_ambiguous_matches\<close>\<close>

definition higher_level :: "line_result \<Rightarrow> bool" where
  \<comment> \<open>the test of line 322\<close>
  "higher_level result =
     (case match_level result of
        None \<Rightarrow> False
      | Some lvl \<Rightarrow>
          lvl \<noteq> [] \<and> lvl \<in> set [''genus'', ''family'', ''order'', ''class''] \<and> latin result \<noteq> [])"

fun append_index :: "string \<Rightarrow> nat \<Rightarrow> (string \<times> nat list) list \<Rightarrow> (string \<times> nat list) list" where
  \<comment> \<open>lines 323-325 on a dictionary kept as its items in insertion order\<close>
  "append_index k i [] = [(k, [i])]"
| "append_index k i ((k', is) # rest) =
     (if k' = k then (k', is @ [i]) # rest else (k', is) # append_index k i rest)"

fun collect_matches ::
  "(nat \<times> line_result) list \<Rightarrow> (string \<times> nat list) list \<Rightarrow> (string \<times> nat list) list" where
  \<comment> \<open>the loop of lines 317-325 over \<open>enumerate(results)\<close>\<close>
  "collect_matches [] higher_level_matches = higher_level_matches"
| "collect_matches ((i, result) # rest) higher_level_matches =
     collect_matches rest
       (if higher_level result then append_index (latin result) i higher_level_matches
        else higher_level_matches)"

definition mark_ambiguous :: "line_result \<Rightarrow> line_result" where
  \<comment> \<open>lines 332-334\<close>
  "mark_ambiguous result = result\<lparr>latin := [], common := [], match_level := Some ''ambiguous''\<rparr>"

fun clear_indices :: "nat list \<Rightarrow> line_result list \<Rightarrow> line_result list" where
  \<comment> \<open>the loop \<open>for idx in indices\<close>\<close>
  "clear_indices [] results = results"
| "clear_indices (idx # rest) results =
     clear_indices rest (results[idx := mark_ambiguous (results ! idx)])"

fun clear_groups :: "(string \<times> nat list) list \<Rightarrow> line_result list \<Rightarrow> line_result list" where
  \<comment> \<open>the loop of lines 328-334\<close>
  "clear_groups [] results = results"
| "clear_groups ((latin_name, indices) # rest) results =
     clear_groups rest (if length indices > 1 then clear_indices indices results else results)"

definition resolve_ambiguous_matches :: "line_result list \<Rightarrow> line_result list" where
  "resolve_ambiguous_matches results =
     clear_groups (collect_matches (enumerate 0 results) []) results"

subsection \<open>\<open>process_input\<close>\<close>

fun first_pass ::
  "taxonomy \<Rightarrow> (nat \<times> string) list \<Rightarrow> line_result list \<times> (nat \<times> string \<times> line_result) list" where
  \<comment> \<open>the loop of lines 46-58: \<open>(results, unknown_lines)\<close>\<close>
  "first_pass t [] = ([], [])"
| "first_pass t ((i, raw) # rest) =
     (let line = strip raw in
      if line = [] then first_pass t rest
      else
        (let result = match_single_line_exact t line;
             (results, unknown_lines) = first_pass t rest
         in if latin result \<noteq> [] then (result # results, unknown_lines)
            else (result # results, (i, line, result) # unknown_lines)))"

definition process_input ::
  "external \<Rightarrow> matcher \<Rightarrow> string \<Rightarrow> string option \<Rightarrow> string option \<Rightarrow> line_result list" where
  "process_input ext m input_text location user_api_key =
     (let (results, unknown_lines) = first_pass (taxonomy_of m) (enumerate 0 (splitlines input_text));
          results2 =
            (if unknown_lines \<noteq> []
                \<and> (model m \<noteq> None \<or> (case user_api_key of None \<Rightarrow> False | Some k \<Rightarrow> k \<noteq> []))
             then batch_process_with_gemini ext m unknown_lines results location user_api_key
             else results)
      in resolve_ambiguous_matches results2)"

subsection \<open>Exceptions that leave a method\<close>

text \<open>
  The same two methods with the way they end made explicit: \<open>Inl e\<close> when the exception
  \<open>e\<close> leaves the method, \<open>Inr\<close> of the results list when it returns.
\<close>

definition batch_process_outcome ::
  "external \<Rightarrow> matcher \<Rightarrow> (nat \<times> string \<times> line_result) list \<Rightarrow> line_result list
     \<Rightarrow> string option \<Rightarrow> string option \<Rightarrow> py_error + line_result list" where
  \<comment> \<open>\<open>batch_process_with_gemini\<close>: the early returns, and the \<open>try\<close> with its handler
      \<open>except Exception as e: print(...)\<close>, which raises nothing\<close>
  "batch_process_outcome ext m unknown_items results_list location user_api_key =
     (case choose_model ext m user_api_key of
        None \<Rightarrow> Inr results_list
      | Some model_to_use \<Rightarrow>
          (case try_block ext (taxonomy_of m) model_to_use
                  (build_prompt location unknown_items) results_list of
             (None, results_list') \<Rightarrow> Inr results_list'
           | (Some e, results_list') \<Rightarrow> Inr results_list'))"

definition process_input_outcome ::
  "external \<Rightarrow> matcher \<Rightarrow> string \<Rightarrow> string option \<Rightarrow> string option
     \<Rightarrow> py_error + line_result list" where
  \<comment> \<open>\<open>process_input\<close>: an exception of the second pass would leave it too\<close>
  "process_input_outcome ext m input_text location user_api_key =
     (let (results, unknown_lines) = first_pass (taxonomy_of m) (enumerate 0 (splitlines input_text))
      in bind_err
           (if unknown_lines \<noteq> []
               \<and> (model m \<noteq> None \<or> (case user_api_key of None \<Rightarrow> False | Some k \<Rightarrow> k \<noteq> []))
            then batch_process_outcome ext m unknown_lines results location user_api_key
            else Inr results)
           (\<lambda>results2. Inr (resolve_ambiguous_matches results2)))"

section \<open>Relations between the results before and after a pass\<close>

definition loaded_entries :: "taxonomy \<Rightarrow> entry set" where
  \<comment> \<open>the entries held by the index, under either kind of key\<close>
  "loaded_entries t = ran (latin_to_row t) \<union> ran (common_to_row t)"

definition updated_from :: "taxonomy \<Rightarrow> line_result \<Rightarrow> line_result \<Rightarrow> bool" where
  \<comment> \<open>\<open>b\<close> is \<open>a\<close>, or \<open>a\<close> was unresolved and \<open>b\<close> is \<open>a\<close> filled in from an entry of the index\<close>
  "updated_from t a b =
     (b = a \<or>
      (latin a = [] \<and>
       (\<exists>e lvl. e \<in> loaded_entries t \<and>
          b = a\<lparr>latin := row_latin e, common := row_common e, match_level := lvl\<rparr>)))"

definition from_index :: "taxonomy \<Rightarrow> line_result \<Rightarrow> bool" where
  \<comment> \<open>the canonical fields are both empty, or both those of one entry of the index\<close>
  "from_index t r =
     ((latin r = [] \<and> common r = []) \<or>
      (\<exists>e. e \<in> loaded_entries t \<and> latin r = row_latin e \<and> common r = row_common e))"

section \<open>Properties of the string operations\<close>

lemma lower_char_idem: "lower_char (lower_char c) = lower_char c"
  by (auto simp: lower_char_def Let_def)

lemma is_space_lower_char: "is_space (lower_char c) = is_space c"
  by (auto simp: lower_char_def Let_def is_space_def)

lemma lower_idem: "lower (lower s) = lower s"
  by (simp add: lower_def lower_char_idem)

lemma dropWhile_space_lower: "dropWhile is_space (lower s) = lower (dropWhile is_space s)"
  by (induction s) (simp_all add: lower_def is_space_lower_char)

lemma rev_lower: "rev (lower s) = lower (rev s)"
  by (simp add: lower_def rev_map)

lemma strip_lower: "strip (lower s) = lower (strip s)"
  by (simp add: strip_def dropWhile_space_lower rev_lower)

lemma dropWhile_twice: "dropWhile P (dropWhile P xs) = dropWhile P xs"
  by (induction xs) auto

lemma rev_dropWhile_rev_Cons:
  "\<not> P a \<Longrightarrow> rev (dropWhile P (rev (a # ys))) = a # rev (dropWhile P (rev ys))"
  by (simp add: dropWhile_append)

lemma strip_no_leading_space: "dropWhile is_space (strip s) = strip s"
proof (cases "dropWhile is_space s")
  case Nil
  show ?thesis unfolding strip_def Nil by simp
next
  case (Cons a ys)
  then have "\<not> is_space a"
    by (metis hd_dropWhile list.sel(1) list.distinct(1))
  then show ?thesis
    by (simp add: strip_def Cons rev_dropWhile_rev_Cons del: rev.simps)
qed

lemma strip_idem: "strip (strip s) = strip s"
proof -
  have "strip (strip s) = rev (dropWhile is_space (rev (strip s)))"
    by (simp add: strip_def[of "strip s"] strip_no_leading_space)
  also have "\<dots> = strip s"
    by (simp add: strip_def dropWhile_twice)
  finally show ?thesis .
qed

lemma normalise_idem: "strip (lower (strip (lower s))) = strip (lower s)"
  by (simp add: strip_lower lower_idem strip_idem)

section \<open>The lookups\<close>

text \<open>
  Claim C6. \<open>get_by_latin\<close> and \<open>get_by_common\<close> give the same result on a string and on
  its lowercased, trimmed form; in particular \<open>"  Ursus Arctos "\<close> and \<open>"ursus arctos"\<close>
  are looked up alike, in every index.
\<close>

theorem lookup_normalised:
  "get_by_latin t s = get_by_latin t (strip (lower s))
   \<and> get_by_common t s = get_by_common t (strip (lower s))
   \<and> get_by_latin t ''  Ursus Arctos '' = get_by_latin t ''ursus arctos''"
proof -
  have "strip (lower ''  Ursus Arctos '') = strip (lower ''ursus arctos'')"
    by code_simp
  then show ?thesis
    by (simp add: get_by_latin_def get_by_common_def normalise_idem)
qed

theorem lookup_normalised_witness:
  "get_by_latin (load (Some [''g1;Mammalia;Carnivora;Ursidae;Ursus;arctos;Brown Bear'']))
       ''  Ursus Arctos ''
     = Some \<lparr>row_latin = ''ursus arctos'', row_common = ''Brown Bear'',
         line_parts = [''g1'', ''Mammalia'', ''Carnivora'', ''Ursidae'', ''Ursus'', ''arctos'', ''Brown Bear'']\<rparr>
   \<and> get_by_latin (load (Some [''g1;Mammalia;Carnivora;Ursidae;Ursus;arctos;Brown Bear'']))
       ''ursus arctos''
     = Some \<lparr>row_latin = ''ursus arctos'', row_common = ''Brown Bear'',
         line_parts = [''g1'', ''Mammalia'', ''Carnivora'', ''Ursidae'', ''Ursus'', ''arctos'', ''Brown Bear'']\<rparr>"
proof -
  have "get_by_latin (load (Some [''g1;Mammalia;Carnivora;Ursidae;Ursus;arctos;Brown Bear'']))
       ''ursus arctos''
     = Some \<lparr>row_latin = ''ursus arctos'', row_common = ''Brown Bear'',
         line_parts = [''g1'', ''Mammalia'', ''Carnivora'', ''Ursidae'', ''Ursus'', ''arctos'', ''Brown Bear'']\<rparr>"
    by code_simp
  then show ?thesis
    using lookup_normalised [of "load (Some [''g1;Mammalia;Carnivora;Ursidae;Ursus;arctos;Brown Bear''])" "''ursus arctos''"]
    by simp
qed

section \<open>The loader\<close>

lemma lower_eq_Nil: "(lower s = []) = (s = [])"
  by (simp add: lower_def)

lemma parse_line_Some:
  "parse_line raw = Some e \<Longrightarrow>
     line_parts e = split_char CHR '';'' [] (strip raw) \<and> length (line_parts e) \<ge> 7
     \<and> row_common e = line_parts e ! 6 \<and> latin_name_of (line_parts e) = Some (row_latin e)"
  by (auto simp: parse_line_def Let_def split: if_splits option.splits)

lemma ran_upd_subset: "x \<in> ran (m(k \<mapsto> v)) \<Longrightarrow> x = v \<or> x \<in> ran m"
  by (auto simp: ran_def split: if_splits)

lemma store_entry_ran:
  "x \<in> ran (latin_to_row (store_entry e t)) \<union> ran (common_to_row (store_entry e t)) \<Longrightarrow>
     x = e \<or> x \<in> ran (latin_to_row t) \<union> ran (common_to_row t)"
  by (auto simp: store_entry_def Let_def dest: ran_upd_subset split: if_splits)

lemma load_lines_ran:
  "x \<in> ran (latin_to_row (load_lines ls t)) \<union> ran (common_to_row (load_lines ls t)) \<Longrightarrow>
     (\<exists>raw \<in> set ls. parse_line raw = Some x) \<or> x \<in> ran (latin_to_row t) \<union> ran (common_to_row t)"
proof (induction ls arbitrary: t)
  case Nil
  then show ?case by simp
next
  case (Cons raw rest)
  show ?case
  proof (cases "parse_line raw")
    case None
    with Cons.prems have "x \<in> ran (latin_to_row (load_lines rest t)) \<union> ran (common_to_row (load_lines rest t))"
      by simp
    from Cons.IH[OF this] show ?thesis by auto
  next
    case (Some e)
    with Cons.prems have "x \<in> ran (latin_to_row (load_lines rest (store_entry e t)))
        \<union> ran (common_to_row (load_lines rest (store_entry e t)))"
      by simp
    from Cons.IH[OF this] show ?thesis
      using Some store_entry_ran[of x e t] by auto
  qed
qed

lemma load_ran:
  "x \<in> ran (latin_to_row (load file)) \<union> ran (common_to_row (load file)) \<Longrightarrow>
     \<exists>ls raw. file = Some ls \<and> raw \<in> set ls \<and> parse_line raw = Some x"
proof (cases "file")
  case None
  assume "x \<in> ran (latin_to_row (load file)) \<union> ran (common_to_row (load file))"
  with None show ?thesis by (simp add: load_def empty_taxonomy_def)
next
  case (Some ls)
  assume "x \<in> ran (latin_to_row (load file)) \<union> ran (common_to_row (load file))"
  with Some load_lines_ran[of x ls empty_taxonomy] show ?thesis
    by (auto simp: load_def empty_taxonomy_def)
qed

lemma latin_name_of_nonempty: "latin_name_of parts = Some l \<Longrightarrow> l \<noteq> []"
  by (auto simp: latin_name_of_def lower_eq_Nil split: if_splits)

lemma load_lines_skip: "parse_line raw = None \<Longrightarrow> load_lines (raw # rest) t = load_lines rest t"
  by simp

lemma parse_line_no_rank:
  assumes "parts = split_char CHR '';'' [] (strip raw)"
    and "parts ! 1 = [] \<and> parts ! 2 = [] \<and> parts ! 3 = [] \<and> parts ! 4 = [] \<and> parts ! 5 = []"
  shows "parse_line raw = None"
  using assms by (simp add: parse_line_def Let_def latin_name_of_def)

section \<open>The hierarchical lookup\<close>

lemma get_by_hierarchy_norm:
  "norm_rank c = Inr c' \<Longrightarrow> norm_rank ord = Inr o' \<Longrightarrow> norm_rank f = Inr f' \<Longrightarrow>
   norm_rank g = Inr g' \<Longrightarrow> norm_rank s = Inr s' \<Longrightarrow>
   get_by_hierarchy t c ord f g s = Inr (walk_ranks t c' o' f' g' s')"
  by (simp add: get_by_hierarchy_def bind_err_def)

lemma walk_ranks_Some:
  "walk_ranks t c ord f g s = (Some e, lvl) \<Longrightarrow>
     (lvl = Some ''species'' \<and> lookup_species t g s = Some e)
   \<or> (lvl = Some ''genus'' \<and> lookup_species t g s = None \<and> lookup_rank t g = Some e)
   \<or> (lvl = Some ''family'' \<and> lookup_species t g s = None \<and> lookup_rank t g = None
        \<and> lookup_rank t f = Some e)
   \<or> (lvl = Some ''order'' \<and> lookup_species t g s = None \<and> lookup_rank t g = None
        \<and> lookup_rank t f = None \<and> lookup_rank t ord = Some e)
   \<or> (lvl = Some ''class'' \<and> lookup_species t g s = None \<and> lookup_rank t g = None
        \<and> lookup_rank t f = None \<and> lookup_rank t ord = None \<and> lookup_rank t c = Some e)"
  unfolding walk_ranks_def
  by (simp split: option.splits)

lemma walk_ranks_species:
  "lookup_species t g s = Some e \<Longrightarrow> walk_ranks t c ord f g s = (Some e, Some ''species'')"
  by (simp add: walk_ranks_def)

lemma walk_ranks_genus:
  "lookup_species t g s = None \<Longrightarrow> lookup_rank t g = Some e \<Longrightarrow>
     walk_ranks t c ord f g s = (Some e, Some ''genus'')"
  by (simp add: walk_ranks_def)


section \<open>The exact-match pass\<close>

lemma match_latin_then_common:
  assumes "split_char CHR '','' [] line = t0 # t1 # rest"
    and "get_by_latin t (strip t0) = Some e" and "get_by_latin t (strip t1) = None"
  shows "match_single_line_exact t line =
     \<lparr>latin = row_latin e, common = row_common e, original_latin = strip t0,
      original_common = strip t1, raw_input = line, match_level = None\<rparr>"
  using assms by (simp add: match_single_line_exact_def Let_def)

lemma process_input_all_exact:
  assumes "first_pass (taxonomy_of m) (enumerate 0 (splitlines input_text)) = (results, [])"
  shows "process_input ext m input_text location user_api_key = resolve_ambiguous_matches results"
  using assms by (simp add: process_input_def)

text \<open>
  Claim C9. On a line of two or more comma-separated tokens whose first token is a known
  Latin name and whose second is not, \<open>match_single_line_exact\<close> returns the entry's
  \<open>latin\<close> and \<open>common\<close>, the first token (trimmed) as \<open>original_latin\<close> and the second
  (trimmed, not validated) as \<open>original_common\<close>. With the row
  \<open>g1;Mammalia;Carnivora;Ursidae;Ursus;arctos;Brown Bear\<close> loaded, \<open>process_input\<close> maps the
  line \<open>"Ursus arctos, Brown Bear"\<close> to the result of the claim whatever the model and the
  external services are: the second pass is not entered.
\<close>

theorem exact_latin_then_common:
  "(split_char CHR '','' [] line = t0 # t1 # rest \<and> get_by_latin t (strip t0) = Some e
      \<and> get_by_latin t (strip t1) = None \<longrightarrow>
      match_single_line_exact t line =
        \<lparr>latin = row_latin e, common = row_common e, original_latin = strip t0,
         original_common = strip t1, raw_input = line, match_level = None\<rparr>)
   \<and> process_input ext
        \<lparr>taxonomy_of = load (Some [''g1;Mammalia;Carnivora;Ursidae;Ursus;arctos;Brown Bear'']),
         model = mdl\<rparr>
        ''Ursus arctos, Brown Bear'' location user_api_key
      = [\<lparr>latin = ''ursus arctos'', common = ''Brown Bear'', original_latin = ''Ursus arctos'',
          original_common = ''Brown Bear'', raw_input = ''Ursus arctos, Brown Bear'',
          match_level = None\<rparr>]"
proof -
  let ?t = "load (Some [''g1;Mammalia;Carnivora;Ursidae;Ursus;arctos;Brown Bear''])"
  let ?r = "\<lparr>latin = ''ursus arctos'', common = ''Brown Bear'', original_latin = ''Ursus arctos'',
          original_common = ''Brown Bear'', raw_input = ''Ursus arctos, Brown Bear'',
          match_level = None\<rparr>"
  have fp: "first_pass ?t (enumerate 0 (splitlines ''Ursus arctos, Brown Bear'')) = ([?r], [])"
    by code_simp
  have ra: "resolve_ambiguous_matches [?r] = [?r]"
    by code_simp
  have "first_pass (taxonomy_of \<lparr>taxonomy_of = ?t, model = mdl\<rparr>)
      (enumerate 0 (splitlines ''Ursus arctos, Brown Bear'')) = ([?r], [])"
    using fp by (simp only: matcher.select_convs)
  then have "process_input ext \<lparr>taxonomy_of = ?t, model = mdl\<rparr>
        ''Ursus arctos, Brown Bear'' location user_api_key = resolve_ambiguous_matches [?r]"
    by (rule process_input_all_exact)
  then have 2: "process_input ext \<lparr>taxonomy_of = ?t, model = mdl\<rparr>
        ''Ursus arctos, Brown Bear'' location user_api_key = [?r]"
    by (simp only: ra)
  have 1: "split_char CHR '','' [] line = t0 # t1 # rest \<and> get_by_latin t (strip t0) = Some e
      \<and> get_by_latin t (strip t1) = None \<longrightarrow>
      match_single_line_exact t line =
        \<lparr>latin = row_latin e, common = row_common e, original_latin = strip t0,
         original_common = strip t1, raw_input = line, match_level = None\<rparr>"
    using match_latin_then_common by blast
  from 1 2 show ?thesis by (rule conjI)
qed

theorem exact_latin_then_common_witness:
  "match_single_line_exact
      (load (Some [''g2;Mammalia;Carnivora;Canidae;Vulpes;;fox''])) ''VULPES , some fox, x''
     = \<lparr>latin = ''vulpes'', common = ''fox'', original_latin = ''VULPES'',
        original_common = ''some fox'', raw_input = ''VULPES , some fox, x'', match_level = None\<rparr>"
proof -
  let ?t = "load (Some [''g2;Mammalia;Carnivora;Canidae;Vulpes;;fox''])"
  let ?e = "\<lparr>row_latin = ''vulpes'', row_common = ''fox'',
     line_parts = [''g2'', ''Mammalia'', ''Carnivora'', ''Canidae'', ''Vulpes'', [], ''fox'']\<rparr>"
  have s: "split_char CHR '','' [] ''VULPES , some fox, x'' = ''VULPES '' # '' some fox'' # ['' x'']"
    by code_simp
  have a: "get_by_latin ?t (strip ''VULPES '') = Some ?e" by code_simp
  have b: "get_by_latin ?t (strip '' some fox'') = None" by code_simp
  have s0: "strip ''VULPES '' = ''VULPES''" by code_simp
  have s1: "strip '' some fox'' = ''some fox''" by code_simp
  have "match_single_line_exact ?t ''VULPES , some fox, x'' =
     \<lparr>latin = row_latin ?e, common = row_common ?e, original_latin = strip ''VULPES '',
      original_common = strip '' some fox'', raw_input = ''VULPES , some fox, x'', match_level = None\<rparr>"
    using exact_latin_then_common [THEN conjunct1, rule_format, OF conjI [OF s conjI [OF a b]]] .
  then show ?thesis
    by (simp only: s0 s1 entry.select_convs)
qed

section \<open>The second pass only fills in unresolved results\<close>

lemma bind_err_Inr: "(bind_err x f = Inr y) = (\<exists>v. x = Inr v \<and> f v = Inr y)"
  by (cases x) (simp_all add: bind_err_def)

lemma get_by_latin_loaded: "get_by_latin t s = Some e \<Longrightarrow> e \<in> loaded_entries t"
  by (auto simp: get_by_latin_def loaded_entries_def intro: ranI)

lemma get_by_common_loaded: "get_by_common t s = Some e \<Longrightarrow> e \<in> loaded_entries t"
  by (auto simp: get_by_common_def loaded_entries_def intro: ranI)

lemma lookup_rank_loaded: "lookup_rank t v = Some e \<Longrightarrow> e \<in> loaded_entries t"
  by (auto simp: lookup_rank_def dest: get_by_latin_loaded split: option.splits if_splits)

lemma lookup_species_loaded: "lookup_species t g s = Some e \<Longrightarrow> e \<in> loaded_entries t"
  by (auto simp: lookup_species_def dest: get_by_latin_loaded split: option.splits if_splits)

lemma walk_ranks_loaded: "walk_ranks t c ord f g s = (Some e, lvl) \<Longrightarrow> e \<in> loaded_entries t"
  by (drule walk_ranks_Some) (auto dest: lookup_rank_loaded lookup_species_loaded)

lemma get_by_hierarchy_loaded:
  "get_by_hierarchy t c ord f g s = Inr (Some e, lvl) \<Longrightarrow> e \<in> loaded_entries t"
  unfolding get_by_hierarchy_def bind_err_Inr
  by (elim exE conjE) (auto dest: walk_ranks_loaded)

lemma candidate_lookup_loaded:
  "candidate_lookup t cand = Inr (Some e, lvl) \<Longrightarrow> e \<in> loaded_entries t"
  unfolding candidate_lookup_def bind_err_Inr
  by (elim exE conjE) (rule get_by_hierarchy_loaded)

lemma try_candidates_loaded:
  "try_candidates t cs = Inr (Some e, lvl) \<Longrightarrow> e \<in> loaded_entries t"
proof (induction cs)
  case Nil
  then show ?case by simp
next
  case (Cons c cs)
  show ?case
  proof (cases "truthy c")
    case False
    with Cons show ?thesis by simp
  next
    case True
    with Cons.prems obtain found where f: "candidate_lookup t c = Inr found"
      and r: "(case fst found of Some x \<Rightarrow> Inr found | None \<Rightarrow> try_candidates t cs) = Inr (Some e, lvl)"
      by (auto simp: bind_err_Inr)
    show ?thesis
    proof (cases "fst found")
      case None
      with r Cons.IH show ?thesis by simp
    next
      case (Some x)
      with r have "found = (Some e, lvl)" by simp
      with f show ?thesis by (auto dest: candidate_lookup_loaded)
    qed
  qed
qed

lemma common_fallback_loaded:
  "common_fallback t item found = Inr (Some e, lvl) \<Longrightarrow>
     fst found = Some e \<or> e \<in> loaded_entries t"
  unfolding common_fallback_def
  by (auto simp: bind_err_Inr dest: get_by_common_loaded split: option.splits if_splits json.splits)

lemma update_results_step:
  "(\<And>e. fst matched = Some e \<Longrightarrow> e \<in> loaded_entries t) \<Longrightarrow>
     list_all2 (updated_from t) rs (update_results inp matched rs)"
proof (induction rs)
  case Nil
  then show ?case by simp
next
  case (Cons r rs)
  have refl: "list_all2 (updated_from t) xs xs" for xs
    by (rule list_all2_refl) (simp add: updated_from_def)
  show ?case
  proof (cases "JStr (raw_input r) = inp \<and> latin r = []")
    case False
    with Cons show ?thesis by (auto simp: updated_from_def)
  next
    case True
    show ?thesis
    proof (cases "fst matched")
      case None
      with True refl[of "r # rs"] show ?thesis by simp
    next
      case (Some e)
      with Cons.prems have "e \<in> loaded_entries t" by simp
      with True have "updated_from t r
          (r\<lparr>latin := row_latin e, common := row_common e, match_level := snd matched\<rparr>)"
        unfolding updated_from_def by blast
      with True Some refl[of rs] show ?thesis by simp
    qed
  qed
qed

lemma process_item_step:
  assumes "process_item t item rs = Inr rs'"
  shows "list_all2 (updated_from t) rs rs'"
proof -
  have refl: "list_all2 (updated_from t) rs rs"
    by (rule list_all2_refl) (simp add: updated_from_def)
  from assms obtain inp cands where
    1: "(if \<not> truthy inp then Inr rs
         else bind_err (iter_json cands) (\<lambda>cs.
              bind_err (try_candidates t cs) (\<lambda>found.
              bind_err (common_fallback t item found) (\<lambda>matched.
                Inr (update_results inp matched rs))))) = Inr rs'"
    unfolding process_item_def bind_err_Inr by blast
  show ?thesis
  proof (cases "truthy inp")
    case False
    with 1 refl show ?thesis by simp
  next
    case True
    with 1 obtain cs found matched where c: "try_candidates t cs = Inr found"
      and m: "common_fallback t item found = Inr matched"
      and u: "rs' = update_results inp matched rs"
      by (auto simp: bind_err_Inr)
    have "e \<in> loaded_entries t" if "fst matched = Some e" for e
    proof -
      from that m have "common_fallback t item found = Inr (Some e, snd matched)"
        by (cases matched) simp
      then have "fst found = Some e \<or> e \<in> loaded_entries t"
        by (rule common_fallback_loaded)
      moreover have "e \<in> loaded_entries t" if "fst found = Some e"
        using that c try_candidates_loaded[of t cs e "snd found"] by (cases found) simp
      ultimately show ?thesis by blast
    qed
    then show ?thesis unfolding u by (rule update_results_step)
  qed
qed

lemma updated_from_trans:
  "updated_from t a b \<Longrightarrow> updated_from t b c \<Longrightarrow> updated_from t a c"
proof -
  assume ab: "updated_from t a b" and bc: "updated_from t b c"
  show ?thesis
  proof (cases "b = a")
    case True
    with bc show ?thesis by simp
  next
    case False
    with ab obtain e lvl where a: "latin a = []" and e: "e \<in> loaded_entries t"
      and b: "b = a\<lparr>latin := row_latin e, common := row_common e, match_level := lvl\<rparr>"
      unfolding updated_from_def by blast
    show ?thesis
    proof (cases "c = b")
      case True
      with ab show ?thesis by simp
    next
      case False
      with bc obtain e' lvl' where e': "e' \<in> loaded_entries t"
        and c: "c = b\<lparr>latin := row_latin e', common := row_common e', match_level := lvl'\<rparr>"
        unfolding updated_from_def by blast
      from b c have "c = a\<lparr>latin := row_latin e', common := row_common e', match_level := lvl'\<rparr>"
        by simp
      with a e' show ?thesis unfolding updated_from_def by blast
    qed
  qed
qed

lemma results_step_trans:
  "list_all2 (updated_from t) a b \<Longrightarrow> list_all2 (updated_from t) b c \<Longrightarrow>
     list_all2 (updated_from t) a c"
  by (rule list_all2_trans[where ?P1.0 = "updated_from t" and ?P2.0 = "updated_from t"])
     (auto intro: updated_from_trans)

lemma results_step_refl: "list_all2 (updated_from t) rs rs"
  by (rule list_all2_refl) (simp add: updated_from_def)

lemma process_items_step: "list_all2 (updated_from t) rs (snd (process_items t items rs))"
proof (induction items arbitrary: rs)
  case Nil
  show ?case by (simp add: results_step_refl)
next
  case (Cons item items)
  show ?case
  proof (cases "process_item t item rs")
    case (Inl e)
    then show ?thesis by (simp add: results_step_refl)
  next
    case (Inr rs')
    then have "list_all2 (updated_from t) rs rs'" by (rule process_item_step)
    with Cons.IH[of rs'] Inr show ?thesis
      by (auto intro: results_step_trans)
  qed
qed

lemma try_block_step: "list_all2 (updated_from t) rs (snd (try_block ext t mdl prompt rs))"
  unfolding try_block_def
  by (auto simp: results_step_refl process_items_step split: sum.splits)

lemma batch_step:
  "list_all2 (updated_from (taxonomy_of m)) rs
     (batch_process_with_gemini ext m unknown rs location key)"
  unfolding batch_process_with_gemini_def
  by (auto simp: results_step_refl try_block_step split: option.splits)

section \<open>What the three passes preserve\<close>

lemma updated_from_raw_input: "updated_from t a b \<Longrightarrow> raw_input b = raw_input a"
  unfolding updated_from_def by auto

lemma results_step_raw_input:
  "list_all2 (updated_from t) rs rs' \<Longrightarrow> map raw_input rs' = map raw_input rs"
  by (induction rule: list_all2_induct) (auto dest: updated_from_raw_input)

lemma updated_from_index: "updated_from t a b \<Longrightarrow> from_index t a \<Longrightarrow> from_index t b"
  unfolding updated_from_def from_index_def by auto

lemma results_step_from_index:
  "list_all2 (updated_from t) rs rs' \<Longrightarrow> list_all (from_index t) rs \<Longrightarrow> list_all (from_index t) rs'"
  by (induction rule: list_all2_induct) (auto dest: updated_from_index)

lemma clear_indices_marks:
  "list_all2 (\<lambda>a b. b = a \<or> b = mark_ambiguous a) rs (clear_indices idxs rs)"
proof (induction idxs arbitrary: rs)
  case Nil
  show ?case by (simp add: list_all2_refl)
next
  case (Cons i idxs)
  let ?R = "\<lambda>a b. b = a \<or> b = mark_ambiguous a"
  have 1: "list_all2 ?R rs (rs[i := mark_ambiguous (rs ! i)])"
  proof (cases "i < length rs")
    case True
    then show ?thesis by (simp add: list_all2_conv_all_nth nth_list_update)
  next
    case False
    then have "rs[i := mark_ambiguous (rs ! i)] = rs" by (simp add: list_update_beyond)
    then show ?thesis by (simp add: list_all2_conv_all_nth)
  qed
  have 2: "list_all2 ?R (rs[i := mark_ambiguous (rs ! i)])
      (clear_indices idxs (rs[i := mark_ambiguous (rs ! i)]))"
    by (rule Cons.IH)
  have "list_all2 ?R rs (clear_indices idxs (rs[i := mark_ambiguous (rs ! i)]))"
    using 1 2
    by (rule list_all2_trans[where ?P1.0 = ?R and ?P2.0 = ?R, rotated])
       (auto simp: mark_ambiguous_def)
  then show ?case by simp
qed

lemma clear_groups_marks:
  "list_all2 (\<lambda>a b. b = a \<or> b = mark_ambiguous a) rs (clear_groups groups rs)"
proof (induction groups arbitrary: rs)
  case Nil
  show ?case by (simp add: list_all2_refl)
next
  case (Cons g groups)
  let ?R = "\<lambda>a b. b = a \<or> b = mark_ambiguous a"
  obtain k idxs where g: "g = (k, idxs)" by (cases g)
  let ?rs1 = "if length idxs > 1 then clear_indices idxs rs else rs"
  have 1: "list_all2 ?R rs ?rs1"
    by (simp add: clear_indices_marks list_all2_refl)
  have 2: "list_all2 ?R ?rs1 (clear_groups groups ?rs1)"
    by (rule Cons.IH)
  have "list_all2 ?R rs (clear_groups groups ?rs1)"
    using 1 2
    by (rule list_all2_trans[where ?P1.0 = ?R and ?P2.0 = ?R, rotated])
       (auto simp: mark_ambiguous_def)
  then show ?case by (simp add: g)
qed

lemma resolve_marks:
  "list_all2 (\<lambda>a b. b = a \<or> b = mark_ambiguous a) rs (resolve_ambiguous_matches rs)"
  unfolding resolve_ambiguous_matches_def by (rule clear_groups_marks)

lemma resolve_raw_input: "map raw_input (resolve_ambiguous_matches rs) = map raw_input rs"
  using resolve_marks[of rs]
  by (induction rule: list_all2_induct) (auto simp: mark_ambiguous_def)

lemma resolve_from_index:
  "list_all (from_index t) rs \<Longrightarrow> list_all (from_index t) (resolve_ambiguous_matches rs)"
  using resolve_marks[of rs]
  by (induction rule: list_all2_induct) (auto simp: mark_ambiguous_def from_index_def)

lemma raw_input_match: "raw_input (match_single_line_exact t line) = line"
  by (simp add: match_single_line_exact_def Let_def split: option.splits)

lemma first_pass_raw_input:
  "map raw_input (fst (first_pass t xs)) = filter (\<lambda>l. l \<noteq> []) (map (\<lambda>x. strip (snd x)) xs)"
  by (induction t xs rule: first_pass.induct)
     (auto simp: Let_def raw_input_match split: prod.splits)

lemma map_on_snd_enumerate: "map (\<lambda>x. f (snd x)) (enumerate n xs) = map f xs"
  by (induction xs arbitrary: n) auto

lemma process_input_unfold:
  "\<exists>rs2. list_all2 (updated_from (taxonomy_of m))
            (fst (first_pass (taxonomy_of m) (enumerate 0 (splitlines input_text)))) rs2
     \<and> process_input ext m input_text location key = resolve_ambiguous_matches rs2"
proof -
  obtain results unknown where fp:
    "first_pass (taxonomy_of m) (enumerate 0 (splitlines input_text)) = (results, unknown)"
    by (cases "first_pass (taxonomy_of m) (enumerate 0 (splitlines input_text))")
  let ?b = "batch_process_with_gemini ext m unknown results location key"
  have "process_input ext m input_text location key = resolve_ambiguous_matches ?b
      \<or> process_input ext m input_text location key = resolve_ambiguous_matches results"
    by (simp add: process_input_def fp)
  moreover have "list_all2 (updated_from (taxonomy_of m)) results ?b"
    by (rule batch_step)
  moreover have "list_all2 (updated_from (taxonomy_of m)) results results"
    by (rule results_step_refl)
  ultimately show ?thesis unfolding fp by auto
qed

section \<open>The pipeline\<close>

text \<open>
  Claim C5. The results of \<open>process_input\<close> are, in order, one for each line of the input
  (as \<open>splitlines\<close> cuts it) that is not empty once trimmed, and the \<open>raw_input\<close> of each is
  that trimmed line; blank lines give no result.
\<close>

theorem process_input_lines:
  "map raw_input (process_input ext m input_text location user_api_key)
     = filter (\<lambda>l. l \<noteq> []) (map strip (splitlines input_text))"
proof -
  obtain rs2 where
    s: "list_all2 (updated_from (taxonomy_of m))
          (fst (first_pass (taxonomy_of m) (enumerate 0 (splitlines input_text)))) rs2"
    and p: "process_input ext m input_text location user_api_key = resolve_ambiguous_matches rs2"
    using process_input_unfold by blast
  have "map raw_input (process_input ext m input_text location user_api_key) = map raw_input rs2"
    by (simp only: p resolve_raw_input)
  also have "\<dots> = map raw_input (fst (first_pass (taxonomy_of m) (enumerate 0 (splitlines input_text))))"
    using s by (rule results_step_raw_input)
  also have "\<dots> = filter (\<lambda>l. l \<noteq> []) (map strip (splitlines input_text))"
    by (simp only: first_pass_raw_input map_on_snd_enumerate)
  finally show ?thesis .
qed

theorem process_input_lines_witness:
  "map raw_input
     (process_input
        \<lparr>genai_model = (\<lambda>k. Inl (OtherError ''no key'')), json_loads = (\<lambda>s. Inr (JArr []))\<rparr>
        \<lparr>taxonomy_of = load None, model = Some (\<lambda>p. Inr ''[]'')\<rparr>
        (''swift fox'' @ [CHR 0x0A] @ ''   '' @ [CHR 0x0D, CHR 0x0A, CHR 0x0A] @ ''  kit fox, Vulpes '')
        None None)
     = [''swift fox'', ''kit fox, Vulpes'']"
proof -
  have "filter (\<lambda>l. l \<noteq> [])
      (map strip (splitlines (''swift fox'' @ [CHR 0x0A] @ ''   '' @ [CHR 0x0D, CHR 0x0A, CHR 0x0A] @ ''  kit fox, Vulpes '')))
      = [''swift fox'', ''kit fox, Vulpes'']"
    by code_simp
  then show ?thesis
    by (simp only: process_input_lines)
qed

lemma loaded_latin_nonempty: "e \<in> loaded_entries (load file) \<Longrightarrow> row_latin e \<noteq> []"
proof -
  assume "e \<in> loaded_entries (load file)"
  then obtain ls raw where "parse_line raw = Some e"
    unfolding loaded_entries_def using load_ran by blast
  then have "latin_name_of (line_parts e) = Some (row_latin e)"
    by (blast dest: parse_line_Some)
  then show ?thesis by (rule latin_name_of_nonempty)
qed

lemma from_index_entry:
  "e \<in> loaded_entries t \<Longrightarrow>
     from_index t \<lparr>latin = row_latin e, common = row_common e, original_latin = a,
                    original_common = b, raw_input = c, match_level = d\<rparr>"
  unfolding from_index_def by auto

lemma from_index_empty:
  "from_index t \<lparr>latin = [], common = [], original_latin = a,
                    original_common = b, raw_input = c, match_level = d\<rparr>"
  unfolding from_index_def by simp

lemma from_index_the_latin:
  "get_by_latin t s \<noteq> None \<Longrightarrow>
     from_index t \<lparr>latin = row_latin (the (get_by_latin t s)),
                    common = row_common (the (get_by_latin t s)), original_latin = a,
                    original_common = b, raw_input = c, match_level = d\<rparr>"
  by (rule from_index_entry) (auto dest: get_by_latin_loaded)

lemma from_index_the_common:
  "get_by_common t s \<noteq> None \<Longrightarrow>
     from_index t \<lparr>latin = row_latin (the (get_by_common t s)),
                    common = row_common (the (get_by_common t s)), original_latin = a,
                    original_common = b, raw_input = c, match_level = d\<rparr>"
  by (rule from_index_entry) (auto dest: get_by_common_loaded)

lemma from_index_case_latin:
  "(\<And>e. get_by_latin t s = Some e \<Longrightarrow> from_index t (f e)) \<Longrightarrow> from_index t g \<Longrightarrow>
     from_index t (case get_by_latin t s of Some e \<Rightarrow> f e | None \<Rightarrow> g)"
  by (cases "get_by_latin t s") simp_all

lemma from_index_case_common:
  "(\<And>e. get_by_common t s = Some e \<Longrightarrow> from_index t (f e)) \<Longrightarrow> from_index t g \<Longrightarrow>
     from_index t (case get_by_common t s of Some e \<Rightarrow> f e | None \<Rightarrow> g)"
  by (cases "get_by_common t s") simp_all

lemma match_from_index: "from_index t (match_single_line_exact t line)"
  unfolding match_single_line_exact_def Let_def
  by (simp add: from_index_the_latin from_index_the_common from_index_empty
        from_index_entry get_by_latin_loaded get_by_common_loaded
        from_index_case_latin from_index_case_common)

lemma first_pass_from_index: "list_all (from_index t) (fst (first_pass t xs))"
  by (induction t xs rule: first_pass.induct)
     (auto simp: Let_def match_from_index split: prod.splits)

lemma process_input_from_index:
  "list_all (from_index (taxonomy_of m)) (process_input ext m input_text location key)"
proof -
  obtain rs2 where
    s: "list_all2 (updated_from (taxonomy_of m))
          (fst (first_pass (taxonomy_of m) (enumerate 0 (splitlines input_text)))) rs2"
    and p: "process_input ext m input_text location key = resolve_ambiguous_matches rs2"
    using process_input_unfold by blast
  have "list_all (from_index (taxonomy_of m)) rs2"
    using s first_pass_from_index by (rule results_step_from_index)
  then show ?thesis unfolding p by (rule resolve_from_index)
qed

text \<open>
  Claim C10. In every result of \<open>process_input\<close> over a loaded index, \<open>latin\<close> and \<open>common\<close>
  come from one source: a result with a non-empty \<open>common\<close> has a non-empty \<open>latin\<close>, and
  when \<open>latin\<close> is not empty the pair is the \<open>latin\<close> and \<open>common\<close> of one entry held by
  the index.
\<close>

theorem canonical_pair_from_entry:
  "taxonomy_of m = load file \<Longrightarrow>
   \<forall>r \<in> set (process_input ext m input_text location user_api_key).
     (common r \<noteq> [] \<longrightarrow> latin r \<noteq> [])
     \<and> (latin r \<noteq> [] \<longrightarrow>
          (\<exists>e. e \<in> ran (latin_to_row (load file)) \<union> ran (common_to_row (load file))
               \<and> latin r = row_latin e \<and> common r = row_common e))"
proof
  fix r
  assume t: "taxonomy_of m = load file"
    and r: "r \<in> set (process_input ext m input_text location user_api_key)"
  have "list_all (from_index (load file)) (process_input ext m input_text location user_api_key)"
    using process_input_from_index[of m] by (simp only: t)
  with r have f: "from_index (load file) r" by (simp add: list_all_iff)
  show "(common r \<noteq> [] \<longrightarrow> latin r \<noteq> [])
     \<and> (latin r \<noteq> [] \<longrightarrow>
          (\<exists>e. e \<in> ran (latin_to_row (load file)) \<union> ran (common_to_row (load file))
               \<and> latin r = row_latin e \<and> common r = row_common e))"
  proof (cases "latin r = [] \<and> common r = []")
    case True
    then show ?thesis by simp
  next
    case False
    with f obtain e where e: "e \<in> loaded_entries (load file)"
      and l: "latin r = row_latin e" and c: "common r = row_common e"
      unfolding from_index_def by blast
    from e have "row_latin e \<noteq> []" by (rule loaded_latin_nonempty)
    with e l c show ?thesis unfolding loaded_entries_def by auto
  qed
qed


theorem canonical_pair_from_entry_witness:
  "process_input
      \<lparr>genai_model = (\<lambda>k. Inl (OtherError ''no key'')),
       json_loads = (\<lambda>s. Inr (JArr [JObj [(''input_text'', JStr ''reddish''),
           (''candidates'', JArr [JObj [(''genus'', JStr ''Vulpes''), (''species'', JStr ''vulpes'')]])]]))\<rparr>
      \<lparr>taxonomy_of = load (Some [''g3;Mammalia;Carnivora;Canidae;Vulpes;vulpes;red fox'']),
       model = Some (\<lambda>p. Inr ''[]'')\<rparr>
      ''reddish'' None None
     = [\<lparr>latin = ''vulpes vulpes'', common = ''red fox'', original_latin = [],
         original_common = ''reddish'', raw_input = ''reddish'', match_level = Some ''species''\<rparr>]
   \<and> (\<exists>e. e \<in> ran (latin_to_row (load (Some [''g3;Mammalia;Carnivora;Canidae;Vulpes;vulpes;red fox''])))
              \<union> ran (common_to_row (load (Some [''g3;Mammalia;Carnivora;Canidae;Vulpes;vulpes;red fox''])))
          \<and> ''vulpes vulpes'' = row_latin e \<and> ''red fox'' = row_common e)"
proof -
  let ?ext = "\<lparr>genai_model = (\<lambda>k. Inl (OtherError ''no key'')),
       json_loads = (\<lambda>s. Inr (JArr [JObj [(''input_text'', JStr ''reddish''),
           (''candidates'', JArr [JObj [(''genus'', JStr ''Vulpes''), (''species'', JStr ''vulpes'')]])]]))\<rparr>"
  let ?file = "Some [''g3;Mammalia;Carnivora;Canidae;Vulpes;vulpes;red fox'']"
  let ?m = "\<lparr>taxonomy_of = load ?file, model = Some (\<lambda>p. Inr ''[]'')\<rparr>"
  let ?r = "\<lparr>latin = ''vulpes vulpes'', common = ''red fox'', original_latin = [],
         original_common = ''reddish'', raw_input = ''reddish'', match_level = Some ''species''\<rparr>"
  have run: "process_input ?ext ?m ''reddish'' None None = [?r]"
    by code_simp
  have t: "taxonomy_of ?m = load ?file"
    by (simp only: matcher.select_convs)
  have mem: "?r \<in> set (process_input ?ext ?m ''reddish'' None None)"
    by (simp only: run list.set insertI1)
  have "latin ?r \<noteq> [] \<longrightarrow>
          (\<exists>e. e \<in> ran (latin_to_row (load ?file)) \<union> ran (common_to_row (load ?file))
               \<and> latin ?r = row_latin e \<and> common ?r = row_common e)"
    using canonical_pair_from_entry [OF t, of ?ext "''reddish''" None None, rule_format, OF mem]
    by (rule conjunct2)
  moreover have "latin ?r \<noteq> []" by simp
  ultimately have "\<exists>e. e \<in> ran (latin_to_row (load ?file)) \<union> ran (common_to_row (load ?file))
               \<and> latin ?r = row_latin e \<and> common ?r = row_common e"
    by (rule mp)
  then have "\<exists>e. e \<in> ran (latin_to_row (load ?file)) \<union> ran (common_to_row (load ?file))
               \<and> ''vulpes vulpes'' = row_latin e \<and> ''red fox'' = row_common e"
    by (simp only: line_result.select_convs)
  with run show ?thesis by (rule conjI)
qed

section \<open>The frame of the second pass\<close>

lemma update_results_length: "length (update_results inp matched rs) = length rs"
  by (induction rs) (auto split: option.splits)

lemma update_results_changed:
  "i < length rs \<Longrightarrow> update_results inp matched rs ! i \<noteq> rs ! i \<Longrightarrow>
     JStr (raw_input (rs ! i)) = inp \<and> latin (rs ! i) = []
     \<and> (\<forall>j<i. \<not> (JStr (raw_input (rs ! j)) = inp \<and> latin (rs ! j) = []))"
proof (induction rs arbitrary: i)
  case Nil
  then show ?case by simp
next
  case (Cons r rs)
  show ?case
  proof (cases "JStr (raw_input r) = inp \<and> latin r = []")
    case True
    then have "update_results inp matched (r # rs) ! i = (r # rs) ! i" if "i \<noteq> 0"
      using that by (cases i) (auto split: option.splits)
    with Cons.prems have "i = 0" by blast
    with True show ?thesis by simp
  next
    case False
    then have u: "update_results inp matched (r # rs) = r # update_results inp matched rs"
      by auto
    show ?thesis
    proof (cases i)
      case 0
      with Cons.prems u show ?thesis by simp
    next
      case (Suc k)
      with Cons.prems u have "k < length rs" "update_results inp matched rs ! k \<noteq> rs ! k"
        by simp_all
      then have ih: "JStr (raw_input (rs ! k)) = inp \<and> latin (rs ! k) = []
          \<and> (\<forall>j<k. \<not> (JStr (raw_input (rs ! j)) = inp \<and> latin (rs ! j) = []))"
        by (rule Cons.IH)
      have "\<not> (JStr (raw_input ((r # rs) ! j)) = inp \<and> latin ((r # rs) ! j) = [])"
        if "j < Suc k" for j
        using that False ih by (cases j) auto
      with ih Suc show ?thesis by simp
    qed
  qed
qed

lemma process_item_cases:
  assumes "process_item t item rs = Inr rs'"
  shows "rs' = rs \<or> (\<exists>inp matched. dict_get item ''input_text'' JNull = Inr inp
            \<and> rs' = update_results inp matched rs)"
proof -
  from assms obtain inp cands where d: "dict_get item ''input_text'' JNull = Inr inp" and
    1: "(if \<not> truthy inp then Inr rs
         else bind_err (iter_json cands) (\<lambda>cs.
              bind_err (try_candidates t cs) (\<lambda>found.
              bind_err (common_fallback t item found) (\<lambda>matched.
                Inr (update_results inp matched rs))))) = Inr rs'"
    unfolding process_item_def bind_err_Inr by blast
  show ?thesis
  proof (cases "truthy inp")
    case False
    with 1 show ?thesis by simp
  next
    case True
    with 1 obtain matched where "rs' = update_results inp matched rs"
      by (auto simp: bind_err_Inr)
    with d show ?thesis by blast
  qed
qed

lemma process_item_changed:
  assumes "process_item t item rs = Inr rs'" and "i < length rs" and "rs' ! i \<noteq> rs ! i"
  shows "dict_get item ''input_text'' JNull = Inr (JStr (raw_input (rs ! i)))
     \<and> latin (rs ! i) = []
     \<and> (\<forall>j<i. \<not> (raw_input (rs ! j) = raw_input (rs ! i) \<and> latin (rs ! j) = []))"
proof -
  from process_item_cases[OF assms(1)] assms(3)
  obtain inp matched where d: "dict_get item ''input_text'' JNull = Inr inp"
    and u: "rs' = update_results inp matched rs"
    by blast
  from assms(2,3) have c: "JStr (raw_input (rs ! i)) = inp \<and> latin (rs ! i) = []
     \<and> (\<forall>j<i. \<not> (JStr (raw_input (rs ! j)) = inp \<and> latin (rs ! j) = []))"
    unfolding u by (rule update_results_changed)
  then have "\<forall>j<i. \<not> (raw_input (rs ! j) = raw_input (rs ! i) \<and> latin (rs ! j) = [])"
    by auto
  with c d show ?thesis by blast
qed

lemma process_item_length: "process_item t item rs = Inr rs' \<Longrightarrow> length rs' = length rs"
  by (drule process_item_cases) (auto simp: update_results_length)

lemma results_step_resolved:
  "list_all2 (updated_from t) rs rs' \<Longrightarrow> i < length rs \<Longrightarrow> latin (rs ! i) \<noteq> [] \<Longrightarrow>
     rs' ! i = rs ! i"
  by (auto simp: list_all2_conv_all_nth updated_from_def)

text \<open>
  Claim C3. One item of the response changes a result only if the \<open>raw_input\<close> of the result
  is the item's \<open>input_text\<close>, its \<open>latin\<close> is empty, and no earlier result of the list has
  that same text and an empty \<open>latin\<close>: at most the first unresolved result with the text
  is updated. Over the whole second pass the list keeps its length and a result whose
  \<open>latin\<close> is not empty is left as it was.
\<close>

theorem second_pass_frame:
  "(process_item t item rs = Inr rs' \<longrightarrow>
      length rs' = length rs
      \<and> (\<forall>i<length rs. rs' ! i \<noteq> rs ! i \<longrightarrow>
           dict_get item ''input_text'' JNull = Inr (JStr (raw_input (rs ! i)))
           \<and> latin (rs ! i) = []
           \<and> (\<forall>j<i. \<not> (raw_input (rs ! j) = raw_input (rs ! i) \<and> latin (rs ! j) = []))))
   \<and> length (batch_process_with_gemini ext m unknown_items rs location user_api_key) = length rs
   \<and> (\<forall>i<length rs. latin (rs ! i) \<noteq> [] \<longrightarrow>
        batch_process_with_gemini ext m unknown_items rs location user_api_key ! i = rs ! i)"
proof -
  have s: "list_all2 (updated_from (taxonomy_of m)) rs
     (batch_process_with_gemini ext m unknown_items rs location user_api_key)"
    by (rule batch_step)
  have 1: "process_item t item rs = Inr rs' \<longrightarrow>
      length rs' = length rs
      \<and> (\<forall>i<length rs. rs' ! i \<noteq> rs ! i \<longrightarrow>
           dict_get item ''input_text'' JNull = Inr (JStr (raw_input (rs ! i)))
           \<and> latin (rs ! i) = []
           \<and> (\<forall>j<i. \<not> (raw_input (rs ! j) = raw_input (rs ! i) \<and> latin (rs ! j) = [])))"
    using process_item_length process_item_changed by blast
  have 2: "length (batch_process_with_gemini ext m unknown_items rs location user_api_key) = length rs"
    using s by (simp add: list_all2_lengthD)
  have 3: "\<forall>i<length rs. latin (rs ! i) \<noteq> [] \<longrightarrow>
        batch_process_with_gemini ext m unknown_items rs location user_api_key ! i = rs ! i"
    using s results_step_resolved by blast
  from 1 2 3 show ?thesis by (intro conjI)
qed


theorem second_pass_frame_witness:
  "process_item (load (Some [''g3;Mammalia;Carnivora;Canidae;Vulpes;vulpes;red fox'']))
      (JObj [(''input_text'', JStr ''reddish''),
             (''candidates'', JArr [JObj [(''genus'', JStr ''Vulpes''), (''species'', JStr ''vulpes'')]])])
      [\<lparr>latin = ''vulpes vulpes'', common = ''red fox'', original_latin = [],
         original_common = ''reddish'', raw_input = ''reddish'', match_level = None\<rparr>,
       \<lparr>latin = [], common = [], original_latin = [],
         original_common = ''reddish'', raw_input = ''reddish'', match_level = None\<rparr>,
       \<lparr>latin = [], common = [], original_latin = [],
         original_common = ''reddish'', raw_input = ''reddish'', match_level = None\<rparr>]
    = Inr
      [\<lparr>latin = ''vulpes vulpes'', common = ''red fox'', original_latin = [],
         original_common = ''reddish'', raw_input = ''reddish'', match_level = None\<rparr>,
       \<lparr>latin = ''vulpes vulpes'', common = ''red fox'', original_latin = [],
         original_common = ''reddish'', raw_input = ''reddish'', match_level = Some ''species''\<rparr>,
       \<lparr>latin = [], common = [], original_latin = [],
         original_common = ''reddish'', raw_input = ''reddish'', match_level = None\<rparr>]
   \<and> dict_get (JObj [(''input_text'', JStr ''reddish''),
             (''candidates'', JArr [JObj [(''genus'', JStr ''Vulpes''), (''species'', JStr ''vulpes'')]])])
         ''input_text'' JNull = Inr (JStr ''reddish'')"
proof -
  let ?t = "load (Some [''g3;Mammalia;Carnivora;Canidae;Vulpes;vulpes;red fox''])"
  let ?item = "JObj [(''input_text'', JStr ''reddish''),
             (''candidates'', JArr [JObj [(''genus'', JStr ''Vulpes''), (''species'', JStr ''vulpes'')]])]"
  let ?a = "\<lparr>latin = ''vulpes vulpes'', common = ''red fox'', original_latin = [],
         original_common = ''reddish'', raw_input = ''reddish'', match_level = None\<rparr>"
  let ?b = "\<lparr>latin = [], common = [], original_latin = [],
         original_common = ''reddish'', raw_input = ''reddish'', match_level = None\<rparr>"
  let ?b' = "\<lparr>latin = ''vulpes vulpes'', common = ''red fox'', original_latin = [],
         original_common = ''reddish'', raw_input = ''reddish'', match_level = Some ''species''\<rparr>"
  have run: "process_item ?t ?item [?a, ?b, ?b] = Inr [?a, ?b', ?b]"
    by code_simp
  have i: "(1::nat) < length [?a, ?b, ?b]" by simp
  have ne: "[?a, ?b', ?b] ! 1 \<noteq> [?a, ?b, ?b] ! 1" by simp
  have "dict_get ?item ''input_text'' JNull = Inr (JStr (raw_input ([?a, ?b, ?b] ! 1)))"
    using second_pass_frame [of ?t ?item "[?a, ?b, ?b]" "[?a, ?b', ?b]", THEN conjunct1,
        rule_format, OF run, THEN conjunct2, rule_format, OF i ne]
    by (rule conjunct1)
  then have "dict_get ?item ''input_text'' JNull = Inr (JStr ''reddish'')"
    by simp
  with run show ?thesis by (rule conjI)
qed

section \<open>Exceptions in the second pass\<close>

lemma results_step_nth:
  "list_all2 (updated_from t) rs rs' \<Longrightarrow>
     length rs' = length rs
     \<and> (\<forall>i<length rs. rs' ! i = rs ! i
          \<or> (latin (rs ! i) = []
              \<and> (\<exists>e lvl. e \<in> ran (latin_to_row t) \<union> ran (common_to_row t)
                    \<and> rs' ! i = (rs ! i)\<lparr>latin := row_latin e, common := row_common e,
                                          match_level := lvl\<rparr>)))"
  by (auto simp: list_all2_conv_all_nth updated_from_def loaded_entries_def)

lemma process_items_append:
  "process_items t items1 rs = (None, rs1) \<Longrightarrow>
     process_items t (items1 @ items2) rs = process_items t items2 rs1"
proof (induction items1 arbitrary: rs)
  case Nil
  then show ?case by simp
next
  case (Cons item items1)
  show ?case
  proof (cases "process_item t item rs")
    case (Inl e)
    with Cons.prems show ?thesis by simp
  next
    case (Inr rs')
    with Cons.prems have "process_items t items1 rs' = (None, rs1)" by simp
    then have "process_items t (items1 @ items2) rs' = process_items t items2 rs1"
      by (rule Cons.IH)
    with Inr show ?thesis by simp
  qed
qed

lemma process_items_stops:
  assumes "process_items t items1 rs = (None, rs1)" and "process_item t item rs1 = Inl e"
  shows "process_items t (items1 @ item # items2) rs = (Some e, rs1)"
proof -
  have "process_items t (items1 @ item # items2) rs = process_items t (item # items2) rs1"
    using assms(1) by (rule process_items_append)
  also have "\<dots> = (Some e, rs1)"
    using assms(2) by simp
  finally show ?thesis .
qed

lemma batch_outcome_returns:
  "batch_process_outcome ext m unknown_items rs location user_api_key
     = Inr (batch_process_with_gemini ext m unknown_items rs location user_api_key)"
proof (cases "choose_model ext m user_api_key")
  case None
  then show ?thesis
    by (simp add: batch_process_outcome_def batch_process_with_gemini_def)
next
  case (Some model_to_use)
  obtain err rs' where tb:
    "try_block ext (taxonomy_of m) model_to_use (build_prompt location unknown_items) rs = (err, rs')"
    by (cases "try_block ext (taxonomy_of m) model_to_use (build_prompt location unknown_items) rs")
  show ?thesis
    by (cases err) (simp_all add: batch_process_outcome_def batch_process_with_gemini_def Some tb)
qed

lemma process_input_outcome_returns:
  "process_input_outcome ext m input_text location user_api_key
     = Inr (process_input ext m input_text location user_api_key)"
proof -
  obtain results unknown where fp:
    "first_pass (taxonomy_of m) (enumerate 0 (splitlines input_text)) = (results, unknown)"
    by (cases "first_pass (taxonomy_of m) (enumerate 0 (splitlines input_text))")
  show ?thesis
    by (simp add: process_input_outcome_def process_input_def fp batch_outcome_returns bind_err_def)
qed

lemma try_block_stops:
  assumes "mdl prompt = Inr content" and "json_loads ext (strip_fence content) = Inr data"
    and "iter_json data = Inr (items1 @ item # items2)"
    and "process_items t items1 rs = (None, rs1)" and "process_item t item rs1 = Inl e"
  shows "try_block ext t mdl prompt rs = (Some e, rs1)"
  using assms(1,2,3) process_items_stops[OF assms(4,5)]
  by (simp add: try_block_def)

lemma batch_result:
  "(choose_model ext m user_api_key = None \<longrightarrow>
      batch_process_with_gemini ext m unknown_items rs location user_api_key = rs)
   \<and> (\<forall>model_to_use err rs'.
        choose_model ext m user_api_key = Some model_to_use
        \<and> try_block ext (taxonomy_of m) model_to_use (build_prompt location unknown_items) rs
            = (err, rs')
        \<longrightarrow> batch_process_with_gemini ext m unknown_items rs location user_api_key = rs')"
  by (simp add: batch_process_with_gemini_def)

lemma second_pass_relation:
  "(mdl prompt = Inl e \<longrightarrow> try_block ext t mdl prompt rs = (Some e, rs))
   \<and> (mdl prompt = Inr content \<and> json_loads ext (strip_fence content) = Inl e \<longrightarrow>
        try_block ext t mdl prompt rs = (Some e, rs))
   \<and> (\<forall>err rs'. try_block ext t mdl prompt rs = (err, rs') \<longrightarrow>
        length rs' = length rs
        \<and> (\<forall>i<length rs. rs' ! i = rs ! i
             \<or> (latin (rs ! i) = []
                 \<and> (\<exists>e lvl. e \<in> ran (latin_to_row t) \<union> ran (common_to_row t)
                       \<and> rs' ! i = (rs ! i)\<lparr>latin := row_latin e, common := row_common e,
                                             match_level := lvl\<rparr>))))
   \<and> (batch_process_with_gemini ext m unknown_items rs location user_api_key = rs
        \<or> (\<exists>model_to_use. batch_process_with_gemini ext m unknown_items rs location user_api_key
              = snd (try_block ext (taxonomy_of m) model_to_use
                       (build_prompt location unknown_items) rs)))"
proof -
  have 1: "mdl prompt = Inl e \<longrightarrow> try_block ext t mdl prompt rs = (Some e, rs)"
    by (simp add: try_block_def)
  have 2: "mdl prompt = Inr content \<and> json_loads ext (strip_fence content) = Inl e \<longrightarrow>
        try_block ext t mdl prompt rs = (Some e, rs)"
    by (simp add: try_block_def)
  have 3: "\<forall>err rs'. try_block ext t mdl prompt rs = (err, rs') \<longrightarrow>
        length rs' = length rs
        \<and> (\<forall>i<length rs. rs' ! i = rs ! i
             \<or> (latin (rs ! i) = []
                 \<and> (\<exists>e lvl. e \<in> ran (latin_to_row t) \<union> ran (common_to_row t)
                       \<and> rs' ! i = (rs ! i)\<lparr>latin := row_latin e, common := row_common e,
                                             match_level := lvl\<rparr>)))"
  proof (intro allI impI)
    fix err rs'
    assume "try_block ext t mdl prompt rs = (err, rs')"
    then have "rs' = snd (try_block ext t mdl prompt rs)" by simp
    then have "list_all2 (updated_from t) rs rs'"
      by (simp only: try_block_step)
    then show "length rs' = length rs
        \<and> (\<forall>i<length rs. rs' ! i = rs ! i
             \<or> (latin (rs ! i) = []
                 \<and> (\<exists>e lvl. e \<in> ran (latin_to_row t) \<union> ran (common_to_row t)
                       \<and> rs' ! i = (rs ! i)\<lparr>latin := row_latin e, common := row_common e,
                                             match_level := lvl\<rparr>)))"
      by (rule results_step_nth)
  qed
  have 4: "batch_process_with_gemini ext m unknown_items rs location user_api_key = rs
        \<or> (\<exists>model_to_use. batch_process_with_gemini ext m unknown_items rs location user_api_key
              = snd (try_block ext (taxonomy_of m) model_to_use
                       (build_prompt location unknown_items) rs))"
    by (cases "choose_model ext m user_api_key")
       (auto simp: batch_process_with_gemini_def)
  from 1 2 3 4 show ?thesis by (intro conjI)
qed

text \<open>
  Claim C8. No exception of the second pass reaches the caller of \<open>process_input\<close>:
  \<open>batch_process_with_gemini\<close> and \<open>process_input\<close> always return (their outcome is
  never an exception), whatever the model answers. A key that cannot be used falls back to
  the configured model; with no model the list is returned as it is, and otherwise it is
  returned as the body of the \<open>try\<close> left it, with or without an exception. An exception
  of the model call, of the parsing or of the iteration over the parsed value leaves the list
  untouched. When the item after the items \<open>items1\<close> raises, the pass stops there: the list
  is the one the items \<open>items1\<close> produced, the items after the failing one are not
  processed, and every result that was unresolved at the failure is unresolved at the end.
  When no item raises, the list is the one all items produced. Whatever ends the body, the
  list keeps its length and every result is either as it was before the pass, or was
  unresolved and has been filled in from an entry of the index.
\<close>

theorem second_pass_errors_caught:
  "batch_process_outcome ext m unknown_items rs location user_api_key
     = Inr (batch_process_with_gemini ext m unknown_items rs location user_api_key)
   \<and> process_input_outcome ext m input_text location user_api_key
     = Inr (process_input ext m input_text location user_api_key)
   \<and> choose_model ext m None = model m
   \<and> choose_model ext m (Some []) = model m
   \<and> (\<forall>key g. key \<noteq> [] \<and> genai_model ext key = Inr g \<longrightarrow>
         choose_model ext m (Some key) = Some g)
   \<and> (\<forall>key err. key \<noteq> [] \<and> genai_model ext key = Inl err \<longrightarrow>
         choose_model ext m (Some key) = model m)
   \<and> (choose_model ext m user_api_key = None \<longrightarrow>
      batch_process_with_gemini ext m unknown_items rs location user_api_key = rs)
   \<and> (\<forall>model_to_use err rs'.
        choose_model ext m user_api_key = Some model_to_use
        \<and> try_block ext (taxonomy_of m) model_to_use (build_prompt location unknown_items) rs
            = (err, rs')
        \<longrightarrow> batch_process_with_gemini ext m unknown_items rs location user_api_key = rs')
   \<and> (mdl prompt = Inr content \<and> json_loads ext (strip_fence content) = Inr data
        \<and> iter_json data = Inl e \<longrightarrow>
        try_block ext t mdl prompt rs = (Some e, rs))
   \<and> (\<forall>items1 item items2 rs1.
        mdl prompt = Inr content \<and> json_loads ext (strip_fence content) = Inr data
        \<and> iter_json data = Inr (items1 @ item # items2)
        \<and> process_items t items1 rs = (None, rs1) \<and> process_item t item rs1 = Inl e
        \<longrightarrow> try_block ext t mdl prompt rs = (Some e, rs1)
            \<and> (\<forall>i<length rs. latin (rs1 ! i) = [] \<longrightarrow>
                  latin (snd (try_block ext t mdl prompt rs) ! i) = []))
   \<and> (\<forall>items rs'.
        mdl prompt = Inr content \<and> json_loads ext (strip_fence content) = Inr data
        \<and> iter_json data = Inr items \<and> process_items t items rs = (None, rs')
        \<longrightarrow> try_block ext t mdl prompt rs = (None, rs'))
   \<and> (mdl prompt = Inl e \<longrightarrow> try_block ext t mdl prompt rs = (Some e, rs))
   \<and> (mdl prompt = Inr content \<and> json_loads ext (strip_fence content) = Inl e \<longrightarrow>
        try_block ext t mdl prompt rs = (Some e, rs))
   \<and> (\<forall>err rs'. try_block ext t mdl prompt rs = (err, rs') \<longrightarrow>
        length rs' = length rs
        \<and> (\<forall>i<length rs. rs' ! i = rs ! i
             \<or> (latin (rs ! i) = []
                 \<and> (\<exists>e lvl. e \<in> ran (latin_to_row t) \<union> ran (common_to_row t)
                       \<and> rs' ! i = (rs ! i)\<lparr>latin := row_latin e, common := row_common e,
                                             match_level := lvl\<rparr>))))
   \<and> (batch_process_with_gemini ext m unknown_items rs location user_api_key = rs
        \<or> (\<exists>model_to_use. batch_process_with_gemini ext m unknown_items rs location user_api_key
              = snd (try_block ext (taxonomy_of m) model_to_use
                       (build_prompt location unknown_items) rs)))"
proof -
  have out1: "batch_process_outcome ext m unknown_items rs location user_api_key
     = Inr (batch_process_with_gemini ext m unknown_items rs location user_api_key)"
    by (rule batch_outcome_returns)
  have out2: "process_input_outcome ext m input_text location user_api_key
     = Inr (process_input ext m input_text location user_api_key)"
    by (rule process_input_outcome_returns)
  have choose: "choose_model ext m None = model m
   \<and> choose_model ext m (Some []) = model m
   \<and> (\<forall>key g. key \<noteq> [] \<and> genai_model ext key = Inr g \<longrightarrow>
         choose_model ext m (Some key) = Some g)
   \<and> (\<forall>key err. key \<noteq> [] \<and> genai_model ext key = Inl err \<longrightarrow>
         choose_model ext m (Some key) = model m)"
    by (simp add: choose_model_def)
  have batch: "(choose_model ext m user_api_key = None \<longrightarrow>
      batch_process_with_gemini ext m unknown_items rs location user_api_key = rs)
   \<and> (\<forall>model_to_use err rs'.
        choose_model ext m user_api_key = Some model_to_use
        \<and> try_block ext (taxonomy_of m) model_to_use (build_prompt location unknown_items) rs
            = (err, rs')
        \<longrightarrow> batch_process_with_gemini ext m unknown_items rs location user_api_key = rs')"
    by (rule batch_result)
  have iter: "(mdl prompt = Inr content \<and> json_loads ext (strip_fence content) = Inr data
        \<and> iter_json data = Inl e \<longrightarrow>
        try_block ext t mdl prompt rs = (Some e, rs))"
    by (simp add: try_block_def)
  have stop: "(\<forall>items1 item items2 rs1.
        mdl prompt = Inr content \<and> json_loads ext (strip_fence content) = Inr data
        \<and> iter_json data = Inr (items1 @ item # items2)
        \<and> process_items t items1 rs = (None, rs1) \<and> process_item t item rs1 = Inl e
        \<longrightarrow> try_block ext t mdl prompt rs = (Some e, rs1)
            \<and> (\<forall>i<length rs. latin (rs1 ! i) = [] \<longrightarrow>
                  latin (snd (try_block ext t mdl prompt rs) ! i) = []))"
  proof (intro allI impI)
    fix items1 item items2 rs1
    assume h: "mdl prompt = Inr content \<and> json_loads ext (strip_fence content) = Inr data
        \<and> iter_json data = Inr (items1 @ item # items2)
        \<and> process_items t items1 rs = (None, rs1) \<and> process_item t item rs1 = Inl e"
    have eq: "try_block ext t mdl prompt rs = (Some e, rs1)"
      using h[THEN conjunct1] h[THEN conjunct2, THEN conjunct1]
        h[THEN conjunct2, THEN conjunct2, THEN conjunct1]
        h[THEN conjunct2, THEN conjunct2, THEN conjunct2, THEN conjunct1]
        h[THEN conjunct2, THEN conjunct2, THEN conjunct2, THEN conjunct2]
      by (rule try_block_stops)
    then show "try_block ext t mdl prompt rs = (Some e, rs1)
            \<and> (\<forall>i<length rs. latin (rs1 ! i) = [] \<longrightarrow>
                  latin (snd (try_block ext t mdl prompt rs) ! i) = [])"
      by simp
  qed
  have ok: "(\<forall>items rs'.
        mdl prompt = Inr content \<and> json_loads ext (strip_fence content) = Inr data
        \<and> iter_json data = Inr items \<and> process_items t items rs = (None, rs')
        \<longrightarrow> try_block ext t mdl prompt rs = (None, rs'))"
    by (simp add: try_block_def)
  have rel: "(mdl prompt = Inl e \<longrightarrow> try_block ext t mdl prompt rs = (Some e, rs))
   \<and> (mdl prompt = Inr content \<and> json_loads ext (strip_fence content) = Inl e \<longrightarrow>
        try_block ext t mdl prompt rs = (Some e, rs))
   \<and> (\<forall>err rs'. try_block ext t mdl prompt rs = (err, rs') \<longrightarrow>
        length rs' = length rs
        \<and> (\<forall>i<length rs. rs' ! i = rs ! i
             \<or> (latin (rs ! i) = []
                 \<and> (\<exists>e lvl. e \<in> ran (latin_to_row t) \<union> ran (common_to_row t)
                       \<and> rs' ! i = (rs ! i)\<lparr>latin := row_latin e, common := row_common e,
                                             match_level := lvl\<rparr>))))
   \<and> (batch_process_with_gemini ext m unknown_items rs location user_api_key = rs
        \<or> (\<exists>model_to_use. batch_process_with_gemini ext m unknown_items rs location user_api_key
              = snd (try_block ext (taxonomy_of m) model_to_use
                       (build_prompt location unknown_items) rs)))"
    by (rule second_pass_relation)
  show ?thesis
    by (rule conjI [OF out1 conjI [OF out2 conjI [OF choose [THEN conjunct1]
        conjI [OF choose [THEN conjunct2, THEN conjunct1]
        conjI [OF choose [THEN conjunct2, THEN conjunct2, THEN conjunct1]
        conjI [OF choose [THEN conjunct2, THEN conjunct2, THEN conjunct2]
        conjI [OF batch [THEN conjunct1] conjI [OF batch [THEN conjunct2]
        conjI [OF iter conjI [OF stop conjI [OF ok rel]]]]]]]]]]])
qed

theorem second_pass_errors_caught_witness:
  "try_block \<lparr>genai_model = (\<lambda>k. Inl (OtherError ''no key'')),
       json_loads = (\<lambda>s. Inl JSONDecodeError)\<rparr>
      (load None) (\<lambda>p. Inl (OtherError ''timeout'')) ''prompt''
      [\<lparr>latin = [], common = [], original_latin = [],
         original_common = ''silvertip'', raw_input = ''silvertip'', match_level = None\<rparr>]
     = (Some (OtherError ''timeout''),
        [\<lparr>latin = [], common = [], original_latin = [],
         original_common = ''silvertip'', raw_input = ''silvertip'', match_level = None\<rparr>])
   \<and> try_block \<lparr>genai_model = (\<lambda>k. Inl (OtherError ''no key'')),
       json_loads = (\<lambda>s. Inl JSONDecodeError)\<rparr>
      (load None) (\<lambda>p. Inr ''I cannot help with that'') ''prompt''
      [\<lparr>latin = [], common = [], original_latin = [],
         original_common = ''silvertip'', raw_input = ''silvertip'', match_level = None\<rparr>]
     = (Some JSONDecodeError,
        [\<lparr>latin = [], common = [], original_latin = [],
         original_common = ''silvertip'', raw_input = ''silvertip'', match_level = None\<rparr>])
   \<and> try_block \<lparr>genai_model = (\<lambda>k. Inl (OtherError ''no key'')),
       json_loads = (\<lambda>s. Inr (JArr [JObj [(''input_text'', JStr ''bruin''), (''candidates'', JNum 3)],
          JObj [(''input_text'', JStr ''reddish''),
            (''candidates'', JArr [JObj [(''genus'', JStr ''Vulpes''), (''species'', JStr ''vulpes'')]])]]))\<rparr>
      (load (Some [''g3;Mammalia;Carnivora;Canidae;Vulpes;vulpes;red fox''])) (\<lambda>p. Inr ''[]'') ''prompt''
      [\<lparr>latin = [], common = [], original_latin = [],
         original_common = ''reddish'', raw_input = ''reddish'', match_level = None\<rparr>,
       \<lparr>latin = [], common = [], original_latin = [],
         original_common = ''bruin'', raw_input = ''bruin'', match_level = None\<rparr>]
     = (Some TypeError,
        [\<lparr>latin = [], common = [], original_latin = [],
         original_common = ''reddish'', raw_input = ''reddish'', match_level = None\<rparr>,
       \<lparr>latin = [], common = [], original_latin = [],
         original_common = ''bruin'', raw_input = ''bruin'', match_level = None\<rparr>])
   \<and> try_block \<lparr>genai_model = (\<lambda>k. Inl (OtherError ''no key'')),
       json_loads = (\<lambda>s. Inr (JArr [JObj [(''input_text'', JStr ''reddish''),
            (''candidates'', JArr [JObj [(''genus'', JStr ''Vulpes''), (''species'', JStr ''vulpes'')]])],
          JObj [(''input_text'', JStr ''bruin''), (''candidates'', JNum 3)]]))\<rparr>
      (load (Some [''g3;Mammalia;Carnivora;Canidae;Vulpes;vulpes;red fox''])) (\<lambda>p. Inr ''[]'') ''prompt''
      [\<lparr>latin = [], common = [], original_latin = [],
         original_common = ''reddish'', raw_input = ''reddish'', match_level = None\<rparr>,
       \<lparr>latin = [], common = [], original_latin = [],
         original_common = ''bruin'', raw_input = ''bruin'', match_level = None\<rparr>]
     = (Some TypeError,
        [\<lparr>latin = ''vulpes vulpes'', common = ''red fox'', original_latin = [],
         original_common = ''reddish'', raw_input = ''reddish'', match_level = Some ''species''\<rparr>,
       \<lparr>latin = [], common = [], original_latin = [],
         original_common = ''bruin'', raw_input = ''bruin'', match_level = None\<rparr>])
   \<and> process_input_outcome \<lparr>genai_model = (\<lambda>k. Inl (OtherError ''no key'')),
       json_loads = (\<lambda>s. Inr (JArr [JObj [(''input_text'', JStr ''bruin''), (''candidates'', JNum 3)],
          JObj [(''input_text'', JStr ''reddish''),
            (''candidates'', JArr [JObj [(''genus'', JStr ''Vulpes''), (''species'', JStr ''vulpes'')]])]]))\<rparr>
      \<lparr>taxonomy_of = load (Some [''g3;Mammalia;Carnivora;Canidae;Vulpes;vulpes;red fox'']), model = Some (\<lambda>p. Inr ''[]'')\<rparr>
      (''reddish'' @ [CHR 0x0A] @ ''bruin'') None None
     = Inr [\<lparr>latin = [], common = [], original_latin = [],
         original_common = ''reddish'', raw_input = ''reddish'', match_level = None\<rparr>,
       \<lparr>latin = [], common = [], original_latin = [],
         original_common = ''bruin'', raw_input = ''bruin'', match_level = None\<rparr>]"
proof -
  have a: "(\<lambda>p::string. Inl (OtherError ''timeout'') :: py_error + string) ''prompt''
      = Inl (OtherError ''timeout'')"
    by simp
  have w1: "try_block \<lparr>genai_model = (\<lambda>k. Inl (OtherError ''no key'')),
       json_loads = (\<lambda>s. Inl JSONDecodeError)\<rparr>
      (load None) (\<lambda>p. Inl (OtherError ''timeout'')) ''prompt''
      [\<lparr>latin = [], common = [], original_latin = [],
         original_common = ''silvertip'', raw_input = ''silvertip'', match_level = None\<rparr>]
     = (Some (OtherError ''timeout''),
        [\<lparr>latin = [], common = [], original_latin = [],
         original_common = ''silvertip'', raw_input = ''silvertip'', match_level = None\<rparr>])"
    using second_pass_errors_caught [where mdl = "\<lambda>p. Inl (OtherError ''timeout'')"
        and prompt = "''prompt''" and e = "OtherError ''timeout''" and ext = "\<lparr>genai_model = (\<lambda>k. Inl (OtherError ''no key'')),
       json_loads = (\<lambda>s. Inl JSONDecodeError)\<rparr>"
        and t = "load None" and rs = "[\<lparr>latin = [], common = [], original_latin = [],
         original_common = ''silvertip'', raw_input = ''silvertip'', match_level = None\<rparr>]", THEN conjunct2, THEN conjunct2, THEN conjunct2, THEN conjunct2, THEN conjunct2, THEN conjunct2, THEN conjunct2, THEN conjunct2, THEN conjunct2, THEN conjunct2, THEN conjunct2, THEN conjunct1, THEN mp, OF a] .
  have b: "(\<lambda>p::string. Inr ''I cannot help with that'' :: py_error + string) ''prompt''
        = Inr ''I cannot help with that''
      \<and> json_loads (\<lparr>genai_model = (\<lambda>k. Inl (OtherError ''no key'')),
       json_loads = (\<lambda>s. Inl JSONDecodeError)\<rparr>) (strip_fence ''I cannot help with that'') = Inl JSONDecodeError"
    by simp
  have w2: "try_block \<lparr>genai_model = (\<lambda>k. Inl (OtherError ''no key'')),
       json_loads = (\<lambda>s. Inl JSONDecodeError)\<rparr>
      (load None) (\<lambda>p. Inr ''I cannot help with that'') ''prompt''
      [\<lparr>latin = [], common = [], original_latin = [],
         original_common = ''silvertip'', raw_input = ''silvertip'', match_level = None\<rparr>]
     = (Some JSONDecodeError,
        [\<lparr>latin = [], common = [], original_latin = [],
         original_common = ''silvertip'', raw_input = ''silvertip'', match_level = None\<rparr>])"
    using second_pass_errors_caught [where mdl = "\<lambda>p. Inr ''I cannot help with that''"
        and prompt = "''prompt''" and e = JSONDecodeError and ext = "\<lparr>genai_model = (\<lambda>k. Inl (OtherError ''no key'')),
       json_loads = (\<lambda>s. Inl JSONDecodeError)\<rparr>"
        and content = "''I cannot help with that''" and t = "load None" and rs = "[\<lparr>latin = [], common = [], original_latin = [],
         original_common = ''silvertip'', raw_input = ''silvertip'', match_level = None\<rparr>]",
        THEN conjunct2, THEN conjunct2, THEN conjunct2, THEN conjunct2, THEN conjunct2, THEN conjunct2, THEN conjunct2, THEN conjunct2, THEN conjunct2, THEN conjunct2, THEN conjunct2, THEN conjunct2, THEN conjunct1, THEN mp, OF b] .
  have h3: "(\<lambda>p::string. Inr ''[]'' :: py_error + string) ''prompt'' = Inr ''[]''
      \<and> json_loads (\<lparr>genai_model = (\<lambda>k. Inl (OtherError ''no key'')),
       json_loads = (\<lambda>s. Inr (JArr [JObj [(''input_text'', JStr ''bruin''), (''candidates'', JNum 3)],
          JObj [(''input_text'', JStr ''reddish''),
            (''candidates'', JArr [JObj [(''genus'', JStr ''Vulpes''), (''species'', JStr ''vulpes'')]])]]))\<rparr>) (strip_fence ''[]'')
          = Inr (JArr [JObj [(''input_text'', JStr ''bruin''), (''candidates'', JNum 3)],
          JObj [(''input_text'', JStr ''reddish''),
            (''candidates'', JArr [JObj [(''genus'', JStr ''Vulpes''), (''species'', JStr ''vulpes'')]])]])
      \<and> iter_json (JArr [JObj [(''input_text'', JStr ''bruin''), (''candidates'', JNum 3)],
          JObj [(''input_text'', JStr ''reddish''),
            (''candidates'', JArr [JObj [(''genus'', JStr ''Vulpes''), (''species'', JStr ''vulpes'')]])]])
          = Inr ([] @ (JObj [(''input_text'', JStr ''bruin''), (''candidates'', JNum 3)]) # [JObj [(''input_text'', JStr ''reddish''),
            (''candidates'', JArr [JObj [(''genus'', JStr ''Vulpes''), (''species'', JStr ''vulpes'')]])]])
      \<and> process_items (load (Some [''g3;Mammalia;Carnivora;Canidae;Vulpes;vulpes;red fox''])) [] [\<lparr>latin = [], common = [], original_latin = [],
         original_common = ''reddish'', raw_input = ''reddish'', match_level = None\<rparr>,
       \<lparr>latin = [], common = [], original_latin = [],
         original_common = ''bruin'', raw_input = ''bruin'', match_level = None\<rparr>] = (None, [\<lparr>latin = [], common = [], original_latin = [],
         original_common = ''reddish'', raw_input = ''reddish'', match_level = None\<rparr>,
       \<lparr>latin = [], common = [], original_latin = [],
         original_common = ''bruin'', raw_input = ''bruin'', match_level = None\<rparr>])
      \<and> process_item (load (Some [''g3;Mammalia;Carnivora;Canidae;Vulpes;vulpes;red fox''])) (JObj [(''input_text'', JStr ''bruin''), (''candidates'', JNum 3)]) [\<lparr>latin = [], common = [], original_latin = [],
         original_common = ''reddish'', raw_input = ''reddish'', match_level = None\<rparr>,
       \<lparr>latin = [], common = [], original_latin = [],
         original_common = ''bruin'', raw_input = ''bruin'', match_level = None\<rparr>] = Inl TypeError"
    by code_simp
  have w3: "try_block \<lparr>genai_model = (\<lambda>k. Inl (OtherError ''no key'')),
       json_loads = (\<lambda>s. Inr (JArr [JObj [(''input_text'', JStr ''bruin''), (''candidates'', JNum 3)],
          JObj [(''input_text'', JStr ''reddish''),
            (''candidates'', JArr [JObj [(''genus'', JStr ''Vulpes''), (''species'', JStr ''vulpes'')]])]]))\<rparr>
      (load (Some [''g3;Mammalia;Carnivora;Canidae;Vulpes;vulpes;red fox''])) (\<lambda>p. Inr ''[]'') ''prompt''
      [\<lparr>latin = [], common = [], original_latin = [],
         original_common = ''reddish'', raw_input = ''reddish'', match_level = None\<rparr>,
       \<lparr>latin = [], common = [], original_latin = [],
         original_common = ''bruin'', raw_input = ''bruin'', match_level = None\<rparr>]
     = (Some TypeError,
        [\<lparr>latin = [], common = [], original_latin = [],
         original_common = ''reddish'', raw_input = ''reddish'', match_level = None\<rparr>,
       \<lparr>latin = [], common = [], original_latin = [],
         original_common = ''bruin'', raw_input = ''bruin'', match_level = None\<rparr>])"
    using second_pass_errors_caught [where mdl = "\<lambda>p. Inr ''[]''"
        and prompt = "''prompt''" and e = TypeError and ext = "\<lparr>genai_model = (\<lambda>k. Inl (OtherError ''no key'')),
       json_loads = (\<lambda>s. Inr (JArr [JObj [(''input_text'', JStr ''bruin''), (''candidates'', JNum 3)],
          JObj [(''input_text'', JStr ''reddish''),
            (''candidates'', JArr [JObj [(''genus'', JStr ''Vulpes''), (''species'', JStr ''vulpes'')]])]]))\<rparr>"
        and content = "''[]''" and data = "JArr [JObj [(''input_text'', JStr ''bruin''), (''candidates'', JNum 3)],
          JObj [(''input_text'', JStr ''reddish''),
            (''candidates'', JArr [JObj [(''genus'', JStr ''Vulpes''), (''species'', JStr ''vulpes'')]])]]"
        and t = "load (Some [''g3;Mammalia;Carnivora;Canidae;Vulpes;vulpes;red fox''])" and rs = "[\<lparr>latin = [], common = [], original_latin = [],
         original_common = ''reddish'', raw_input = ''reddish'', match_level = None\<rparr>,
       \<lparr>latin = [], common = [], original_latin = [],
         original_common = ''bruin'', raw_input = ''bruin'', match_level = None\<rparr>]",
        THEN conjunct2, THEN conjunct2, THEN conjunct2, THEN conjunct2, THEN conjunct2, THEN conjunct2, THEN conjunct2, THEN conjunct2, THEN conjunct2, THEN conjunct1, THEN spec, THEN spec, THEN spec, THEN spec, THEN mp, OF h3]
    by (rule conjunct1)
  have h4: "(\<lambda>p::string. Inr ''[]'' :: py_error + string) ''prompt'' = Inr ''[]''
      \<and> json_loads (\<lparr>genai_model = (\<lambda>k. Inl (OtherError ''no key'')),
       json_loads = (\<lambda>s. Inr (JArr [JObj [(''input_text'', JStr ''reddish''),
            (''candidates'', JArr [JObj [(''genus'', JStr ''Vulpes''), (''species'', JStr ''vulpes'')]])],
          JObj [(''input_text'', JStr ''bruin''), (''candidates'', JNum 3)]]))\<rparr>) (strip_fence ''[]'')
          = Inr (JArr [JObj [(''input_text'', JStr ''reddish''),
            (''candidates'', JArr [JObj [(''genus'', JStr ''Vulpes''), (''species'', JStr ''vulpes'')]])],
          JObj [(''input_text'', JStr ''bruin''), (''candidates'', JNum 3)]])
      \<and> iter_json (JArr [JObj [(''input_text'', JStr ''reddish''),
            (''candidates'', JArr [JObj [(''genus'', JStr ''Vulpes''), (''species'', JStr ''vulpes'')]])],
          JObj [(''input_text'', JStr ''bruin''), (''candidates'', JNum 3)]])
          = Inr ([JObj [(''input_text'', JStr ''reddish''),
            (''candidates'', JArr [JObj [(''genus'', JStr ''Vulpes''), (''species'', JStr ''vulpes'')]])]] @ (JObj [(''input_text'', JStr ''bruin''), (''candidates'', JNum 3)]) # [])
      \<and> process_items (load (Some [''g3;Mammalia;Carnivora;Canidae;Vulpes;vulpes;red fox''])) [JObj [(''input_text'', JStr ''reddish''),
            (''candidates'', JArr [JObj [(''genus'', JStr ''Vulpes''), (''species'', JStr ''vulpes'')]])]] [\<lparr>latin = [], common = [], original_latin = [],
         original_common = ''reddish'', raw_input = ''reddish'', match_level = None\<rparr>,
       \<lparr>latin = [], common = [], original_latin = [],
         original_common = ''bruin'', raw_input = ''bruin'', match_level = None\<rparr>] = (None, [\<lparr>latin = ''vulpes vulpes'', common = ''red fox'', original_latin = [],
         original_common = ''reddish'', raw_input = ''reddish'', match_level = Some ''species''\<rparr>,
       \<lparr>latin = [], common = [], original_latin = [],
         original_common = ''bruin'', raw_input = ''bruin'', match_level = None\<rparr>])
      \<and> process_item (load (Some [''g3;Mammalia;Carnivora;Canidae;Vulpes;vulpes;red fox''])) (JObj [(''input_text'', JStr ''bruin''), (''candidates'', JNum 3)]) [\<lparr>latin = ''vulpes vulpes'', common = ''red fox'', original_latin = [],
         original_common = ''reddish'', raw_input = ''reddish'', match_level = Some ''species''\<rparr>,
       \<lparr>latin = [], common = [], original_latin = [],
         original_common = ''bruin'', raw_input = ''bruin'', match_level = None\<rparr>] = Inl TypeError"
    by code_simp
  have w4: "try_block \<lparr>genai_model = (\<lambda>k. Inl (OtherError ''no key'')),
       json_loads = (\<lambda>s. Inr (JArr [JObj [(''input_text'', JStr ''reddish''),
            (''candidates'', JArr [JObj [(''genus'', JStr ''Vulpes''), (''species'', JStr ''vulpes'')]])],
          JObj [(''input_text'', JStr ''bruin''), (''candidates'', JNum 3)]]))\<rparr>
      (load (Some [''g3;Mammalia;Carnivora;Canidae;Vulpes;vulpes;red fox''])) (\<lambda>p. Inr ''[]'') ''prompt''
      [\<lparr>latin = [], common = [], original_latin = [],
         original_common = ''reddish'', raw_input = ''reddish'', match_level = None\<rparr>,
       \<lparr>latin = [], common = [], original_latin = [],
         original_common = ''bruin'', raw_input = ''bruin'', match_level = None\<rparr>]
     = (Some TypeError,
        [\<lparr>latin = ''vulpes vulpes'', common = ''red fox'', original_latin = [],
         original_common = ''reddish'', raw_input = ''reddish'', match_level = Some ''species''\<rparr>,
       \<lparr>latin = [], common = [], original_latin = [],
         original_common = ''bruin'', raw_input = ''bruin'', match_level = None\<rparr>])"
    using second_pass_errors_caught [where mdl = "\<lambda>p. Inr ''[]''"
        and prompt = "''prompt''" and e = TypeError and ext = "\<lparr>genai_model = (\<lambda>k. Inl (OtherError ''no key'')),
       json_loads = (\<lambda>s. Inr (JArr [JObj [(''input_text'', JStr ''reddish''),
            (''candidates'', JArr [JObj [(''genus'', JStr ''Vulpes''), (''species'', JStr ''vulpes'')]])],
          JObj [(''input_text'', JStr ''bruin''), (''candidates'', JNum 3)]]))\<rparr>"
        and content = "''[]''" and data = "JArr [JObj [(''input_text'', JStr ''reddish''),
            (''candidates'', JArr [JObj [(''genus'', JStr ''Vulpes''), (''species'', JStr ''vulpes'')]])],
          JObj [(''input_text'', JStr ''bruin''), (''candidates'', JNum 3)]]"
        and t = "load (Some [''g3;Mammalia;Carnivora;Canidae;Vulpes;vulpes;red fox''])" and rs = "[\<lparr>latin = [], common = [], original_latin = [],
         original_common = ''reddish'', raw_input = ''reddish'', match_level = None\<rparr>,
       \<lparr>latin = [], common = [], original_latin = [],
         original_common = ''bruin'', raw_input = ''bruin'', match_level = None\<rparr>]",
        THEN conjunct2, THEN conjunct2, THEN conjunct2, THEN conjunct2, THEN conjunct2, THEN conjunct2, THEN conjunct2, THEN conjunct2, THEN conjunct2, THEN conjunct1, THEN spec, THEN spec, THEN spec, THEN spec, THEN mp, OF h4]
    by (rule conjunct1)
  have run: "process_input \<lparr>genai_model = (\<lambda>k. Inl (OtherError ''no key'')),
       json_loads = (\<lambda>s. Inr (JArr [JObj [(''input_text'', JStr ''bruin''), (''candidates'', JNum 3)],
          JObj [(''input_text'', JStr ''reddish''),
            (''candidates'', JArr [JObj [(''genus'', JStr ''Vulpes''), (''species'', JStr ''vulpes'')]])]]))\<rparr>
      \<lparr>taxonomy_of = load (Some [''g3;Mammalia;Carnivora;Canidae;Vulpes;vulpes;red fox'']), model = Some (\<lambda>p. Inr ''[]'')\<rparr>
      (''reddish'' @ [CHR 0x0A] @ ''bruin'') None None
     = [\<lparr>latin = [], common = [], original_latin = [],
         original_common = ''reddish'', raw_input = ''reddish'', match_level = None\<rparr>,
       \<lparr>latin = [], common = [], original_latin = [],
         original_common = ''bruin'', raw_input = ''bruin'', match_level = None\<rparr>]"
    by code_simp
  have w5: "process_input_outcome \<lparr>genai_model = (\<lambda>k. Inl (OtherError ''no key'')),
       json_loads = (\<lambda>s. Inr (JArr [JObj [(''input_text'', JStr ''bruin''), (''candidates'', JNum 3)],
          JObj [(''input_text'', JStr ''reddish''),
            (''candidates'', JArr [JObj [(''genus'', JStr ''Vulpes''), (''species'', JStr ''vulpes'')]])]]))\<rparr>
      \<lparr>taxonomy_of = load (Some [''g3;Mammalia;Carnivora;Canidae;Vulpes;vulpes;red fox'']), model = Some (\<lambda>p. Inr ''[]'')\<rparr>
      (''reddish'' @ [CHR 0x0A] @ ''bruin'') None None
     = Inr [\<lparr>latin = [], common = [], original_latin = [],
         original_common = ''reddish'', raw_input = ''reddish'', match_level = None\<rparr>,
       \<lparr>latin = [], common = [], original_latin = [],
         original_common = ''bruin'', raw_input = ''bruin'', match_level = None\<rparr>]"
    using second_pass_errors_caught [where ext = "\<lparr>genai_model = (\<lambda>k. Inl (OtherError ''no key'')),
       json_loads = (\<lambda>s. Inr (JArr [JObj [(''input_text'', JStr ''bruin''), (''candidates'', JNum 3)],
          JObj [(''input_text'', JStr ''reddish''),
            (''candidates'', JArr [JObj [(''genus'', JStr ''Vulpes''), (''species'', JStr ''vulpes'')]])]]))\<rparr>"
        and m = "\<lparr>taxonomy_of = load (Some [''g3;Mammalia;Carnivora;Canidae;Vulpes;vulpes;red fox'']), model = Some (\<lambda>p. Inr ''[]'')\<rparr>"
        and input_text = "(''reddish'' @ [CHR 0x0A] @ ''bruin'')" and location = None and user_api_key = None,
        THEN conjunct2, THEN conjunct1]
    unfolding run .
  from w1 w2 w3 w4 w5 show ?thesis by (intro conjI)
qed


section \<open>The third pass\<close>

lemma mark_ambiguous_idem: "mark_ambiguous (mark_ambiguous r) = mark_ambiguous r"
  by (simp add: mark_ambiguous_def)

lemma clear_indices_length: "length (clear_indices idxs rs) = length rs"
  by (induction idxs arbitrary: rs) auto

lemma clear_indices_nth:
  "i < length rs \<Longrightarrow>
     clear_indices idxs rs ! i = (if i \<in> set idxs then mark_ambiguous (rs ! i) else rs ! i)"
proof (induction idxs arbitrary: rs)
  case Nil
  then show ?case by simp
next
  case (Cons j idxs)
  let ?rs1 = "rs[j := mark_ambiguous (rs ! j)]"
  from Cons.prems have l: "i < length ?rs1" by simp
  have 1: "?rs1 ! i = (if i = j then mark_ambiguous (rs ! i) else rs ! i)"
    using Cons.prems by (simp add: nth_list_update)
  have "clear_indices (j # idxs) rs ! i = clear_indices idxs ?rs1 ! i" by simp
  also have "\<dots> = (if i \<in> set idxs then mark_ambiguous (?rs1 ! i) else ?rs1 ! i)"
    using l by (rule Cons.IH)
  also have "\<dots> = (if i \<in> set (j # idxs) then mark_ambiguous (rs ! i) else rs ! i)"
    unfolding 1 by (auto simp: mark_ambiguous_idem)
  finally show ?case .
qed

lemma clear_groups_length: "length (clear_groups groups rs) = length rs"
  by (induction groups arbitrary: rs) (auto simp: clear_indices_length)

lemma clear_groups_nth:
  "i < length rs \<Longrightarrow>
     clear_groups groups rs ! i =
       (if \<exists>g \<in> set groups. length (snd g) > 1 \<and> i \<in> set (snd g)
        then mark_ambiguous (rs ! i) else rs ! i)"
proof (induction groups arbitrary: rs)
  case Nil
  then show ?case by simp
next
  case (Cons g groups)
  obtain k idxs where g: "g = (k, idxs)" by (cases g)
  let ?rs1 = "if length idxs > 1 then clear_indices idxs rs else rs"
  from Cons.prems have l: "i < length ?rs1" by (simp add: clear_indices_length)
  have 1: "?rs1 ! i = (if length idxs > 1 \<and> i \<in> set idxs then mark_ambiguous (rs ! i) else rs ! i)"
    using Cons.prems by (simp add: clear_indices_nth)
  have "clear_groups (g # groups) rs ! i = clear_groups groups ?rs1 ! i"
    by (simp add: g)
  also have "\<dots> = (if \<exists>g \<in> set groups. length (snd g) > 1 \<and> i \<in> set (snd g)
        then mark_ambiguous (?rs1 ! i) else ?rs1 ! i)"
    using l by (rule Cons.IH)
  also have "\<dots> = (if \<exists>g \<in> set (g # groups). length (snd g) > 1 \<and> i \<in> set (snd g)
        then mark_ambiguous (rs ! i) else rs ! i)"
    unfolding 1 by (auto simp: g mark_ambiguous_idem)
  finally show ?case .
qed

lemma append_index_keys:
  "map fst (append_index k i acc) = (if k \<in> set (map fst acc) then map fst acc else map fst acc @ [k])"
proof (induction acc)
  case Nil
  show ?case by simp
next
  case (Cons a acc)
  obtain k' idxs where a: "a = (k', idxs)" by (cases a)
  show ?case
  proof (cases "k' = k")
    case True
    then show ?thesis by (simp add: a)
  next
    case False
    with Cons show ?thesis by (simp add: a)
  qed
qed

lemma append_index_distinct: "distinct (map fst acc) \<Longrightarrow> distinct (map fst (append_index k i acc))"
  by (simp add: append_index_keys)

lemma append_index_map_of:
  "map_of (append_index k i acc) k' =
     (if k' = k then Some ((case map_of acc k of None \<Rightarrow> [] | Some idxs \<Rightarrow> idxs) @ [i])
      else map_of acc k')"
  by (induction acc) auto

lemma collect_distinct:
  "distinct (map fst acc) \<Longrightarrow> distinct (map fst (collect_matches xs acc))"
  by (induction xs acc rule: collect_matches.induct) (auto simp: append_index_distinct)

lemma collect_map_of:
  "map_of (collect_matches xs acc) k =
     (let new = map fst (filter (\<lambda>x. higher_level (snd x) \<and> latin (snd x) = k) xs)
      in if new = [] then map_of acc k
         else Some ((case map_of acc k of None \<Rightarrow> [] | Some idxs \<Rightarrow> idxs) @ new))"
proof (induction xs acc rule: collect_matches.induct)
  case (1 acc)
  show ?case by simp
next
  case (2 i result rest acc)
  show ?case
  proof (cases "higher_level result")
    case False
    with 2 show ?thesis by simp
  next
    case True
    show ?thesis
    proof (cases "latin result = k")
      case False
      with True 2 show ?thesis by (simp add: append_index_map_of Let_def)
    next
      case eq: True
      with True 2 show ?thesis by (simp add: append_index_map_of Let_def)
    qed
  qed
qed


lemma group_indices_set:
  "set (map fst (filter (\<lambda>x. higher_level (snd x) \<and> latin (snd x) = k) (enumerate 0 rs)))
     = {i. i < length rs \<and> higher_level (rs ! i) \<and> latin (rs ! i) = k}"
  by (auto simp: in_set_enumerate_eq image_iff)

lemma group_indices_distinct:
  "distinct (map fst (filter (\<lambda>x. higher_level (snd x) \<and> latin (snd x) = k) (enumerate 0 rs)))"
  by (rule distinct_map_filter) simp

lemma distinct_other_member:
  "distinct xs \<Longrightarrow> i \<in> set xs \<Longrightarrow> (length xs > 1) = (\<exists>j \<in> set xs. j \<noteq> i)"
proof -
  assume d: "distinct xs" and i: "i \<in> set xs"
  have c: "card (set xs) = length xs" using d by (rule distinct_card)
  show ?thesis
  proof
    assume "length xs > 1"
    with c have "card (set xs) > 1" by simp
    then have "set xs \<noteq> {i}" by auto
    with i show "\<exists>j \<in> set xs. j \<noteq> i" by auto
  next
    assume "\<exists>j \<in> set xs. j \<noteq> i"
    then obtain j where j: "j \<in> set xs" "j \<noteq> i" by blast
    with i have "{i, j} \<subseteq> set xs" by simp
    then have "card {i, j} \<le> card (set xs)" by (simp add: card_mono)
    with j c show "length xs > 1" by simp
  qed
qed

lemma collected_groups:
  "((k, idxs) \<in> set (collect_matches (enumerate 0 rs) [])) =
     (idxs \<noteq> [] \<and>
      idxs = map fst (filter (\<lambda>x. higher_level (snd x) \<and> latin (snd x) = k) (enumerate 0 rs)))"
proof -
  have d: "distinct (map fst (collect_matches (enumerate 0 rs) []))"
    by (rule collect_distinct) simp
  have "((k, idxs) \<in> set (collect_matches (enumerate 0 rs) []))
      = (map_of (collect_matches (enumerate 0 rs) []) k = Some idxs)"
    using d by simp
  also have "\<dots> = (idxs \<noteq> [] \<and>
      idxs = map fst (filter (\<lambda>x. higher_level (snd x) \<and> latin (snd x) = k) (enumerate 0 rs)))"
    unfolding collect_map_of Let_def by auto
  finally show ?thesis .
qed

lemma in_ambiguous_group:
  assumes "i < length rs"
  shows "(\<exists>g \<in> set (collect_matches (enumerate 0 rs) []). length (snd g) > 1 \<and> i \<in> set (snd g))
     = (higher_level (rs ! i)
        \<and> (\<exists>j<length rs. j \<noteq> i \<and> higher_level (rs ! j) \<and> latin (rs ! j) = latin (rs ! i)))"
proof
  assume "\<exists>g \<in> set (collect_matches (enumerate 0 rs) []). length (snd g) > 1 \<and> i \<in> set (snd g)"
  then obtain g where g0: "g \<in> set (collect_matches (enumerate 0 rs) [])"
    and l0: "length (snd g) > 1" and i0: "i \<in> set (snd g)"
    by blast
  obtain k idxs where kg: "g = (k, idxs)" by (cases g)
  from g0 l0 i0 have g: "(k, idxs) \<in> set (collect_matches (enumerate 0 rs) [])"
    and l: "length idxs > 1" and i: "i \<in> set idxs"
    unfolding kg by simp_all
  from g have idxs: "idxs = map fst (filter (\<lambda>x. higher_level (snd x) \<and> latin (snd x) = k) (enumerate 0 rs))"
    unfolding collected_groups by (rule conjunct2)
  have s: "set idxs = {i. i < length rs \<and> higher_level (rs ! i) \<and> latin (rs ! i) = k}"
    unfolding idxs by (rule group_indices_set)
  have d: "distinct idxs" unfolding idxs by (rule group_indices_distinct)
  from distinct_other_member[OF d i] l obtain j where j: "j \<in> set idxs" "j \<noteq> i"
    by blast
  from i have i': "higher_level (rs ! i)" "latin (rs ! i) = k"
    unfolding s by simp_all
  from j(1) have j': "j < length rs" "higher_level (rs ! j)" "latin (rs ! j) = k"
    unfolding s by simp_all
  from j' j(2) i'(2)
  have "j < length rs \<and> j \<noteq> i \<and> higher_level (rs ! j) \<and> latin (rs ! j) = latin (rs ! i)"
    by simp
  then have "\<exists>j<length rs. j \<noteq> i \<and> higher_level (rs ! j) \<and> latin (rs ! j) = latin (rs ! i)"
    by (rule exI)
  with i'(1) show "higher_level (rs ! i)
        \<and> (\<exists>j<length rs. j \<noteq> i \<and> higher_level (rs ! j) \<and> latin (rs ! j) = latin (rs ! i))"
    by (rule conjI)
next
  assume a: "higher_level (rs ! i)
        \<and> (\<exists>j<length rs. j \<noteq> i \<and> higher_level (rs ! j) \<and> latin (rs ! j) = latin (rs ! i))"
  then obtain j where j: "j < length rs" "j \<noteq> i" "higher_level (rs ! j)"
    "latin (rs ! j) = latin (rs ! i)"
    by blast
  from a have hi: "higher_level (rs ! i)" by (rule conjunct1)
  define k where "k = latin (rs ! i)"
  define idxs where
    "idxs = map fst (filter (\<lambda>x. higher_level (snd x) \<and> latin (snd x) = k) (enumerate 0 rs))"
  have s: "set idxs = {i. i < length rs \<and> higher_level (rs ! i) \<and> latin (rs ! i) = k}"
    unfolding idxs_def by (rule group_indices_set)
  have i: "i \<in> set idxs" unfolding s k_def using assms hi by simp
  have jm: "j \<in> set idxs" unfolding s k_def using j by simp
  have d: "distinct idxs" unfolding idxs_def by (rule group_indices_distinct)
  have l: "length idxs > 1"
    using distinct_other_member[OF d i] jm j(2) by blast
  from i have ne: "idxs \<noteq> []" by auto
  have "idxs \<noteq> [] \<and>
      idxs = map fst (filter (\<lambda>x. higher_level (snd x) \<and> latin (snd x) = k) (enumerate 0 rs))"
    using ne idxs_def by (rule conjI)
  then have m: "(k, idxs) \<in> set (collect_matches (enumerate 0 rs) [])"
    unfolding collected_groups .
  have "length (snd (k, idxs)) > 1 \<and> i \<in> set (snd (k, idxs))"
    using l i by simp
  with m show "\<exists>g \<in> set (collect_matches (enumerate 0 rs) []). length (snd g) > 1 \<and> i \<in> set (snd g)"
    by (rule bexI[rotated])
qed

lemma resolve_nth:
  "i < length rs \<Longrightarrow>
     resolve_ambiguous_matches rs ! i =
       (if higher_level (rs ! i)
           \<and> (\<exists>j<length rs. j \<noteq> i \<and> higher_level (rs ! j) \<and> latin (rs ! j) = latin (rs ! i))
        then mark_ambiguous (rs ! i) else rs ! i)"
  unfolding resolve_ambiguous_matches_def
  by (simp only: clear_groups_nth in_ambiguous_group)

lemma resolve_length: "length (resolve_ambiguous_matches rs) = length rs"
  unfolding resolve_ambiguous_matches_def by (rule clear_groups_length)


lemma higher_level_iff:
  "higher_level r =
     (match_level r \<in> {Some ''genus'', Some ''family'', Some ''order'', Some ''class''}
      \<and> latin r \<noteq> [])"
  by (cases "match_level r") (auto simp: higher_level_def)

text \<open>
  Claim C2. After \<open>resolve_ambiguous_matches\<close> the list has the same length. If two different
  results have the same non-empty \<open>latin\<close> and both have a \<open>match_level\<close> among \<open>genus\<close>,
  \<open>family\<close>, \<open>order\<close> and \<open>class\<close>, each of them ends with \<open>latin\<close> and \<open>common\<close> empty and
  \<open>match_level = "ambiguous"\<close>. A result whose \<open>match_level\<close> is anything else (\<open>species\<close>,
  \<open>common_name_fallback\<close>, or absent as for an exact match) is left exactly as it was,
  whatever its \<open>latin\<close> collides with; so is a result that no other higher-level result
  shares its \<open>latin\<close> with.
\<close>

theorem ambiguity_pass:
  "length (resolve_ambiguous_matches rs) = length rs
   \<and> (\<forall>i<length rs. \<forall>j<length rs.
        i \<noteq> j \<and> latin (rs ! i) = latin (rs ! j) \<and> latin (rs ! i) \<noteq> []
        \<and> match_level (rs ! i) \<in> {Some ''genus'', Some ''family'', Some ''order'', Some ''class''}
        \<and> match_level (rs ! j) \<in> {Some ''genus'', Some ''family'', Some ''order'', Some ''class''}
        \<longrightarrow> latin (resolve_ambiguous_matches rs ! i) = []
            \<and> common (resolve_ambiguous_matches rs ! i) = []
            \<and> match_level (resolve_ambiguous_matches rs ! i) = Some ''ambiguous'')
   \<and> (\<forall>i<length rs.
        match_level (rs ! i) \<notin> {Some ''genus'', Some ''family'', Some ''order'', Some ''class''}
        \<longrightarrow> resolve_ambiguous_matches rs ! i = rs ! i)
   \<and> (\<forall>i<length rs.
        (\<forall>j<length rs. j \<noteq> i \<longrightarrow>
           latin (rs ! j) \<noteq> latin (rs ! i)
           \<or> match_level (rs ! j) \<notin> {Some ''genus'', Some ''family'', Some ''order'', Some ''class''})
        \<longrightarrow> resolve_ambiguous_matches rs ! i = rs ! i)"
proof -
  let ?H = "{Some ''genus'', Some ''family'', Some ''order'', Some ''class''}"
  have 1: "length (resolve_ambiguous_matches rs) = length rs"
    by (rule resolve_length)
  have 2: "latin (resolve_ambiguous_matches rs ! i) = []
            \<and> common (resolve_ambiguous_matches rs ! i) = []
            \<and> match_level (resolve_ambiguous_matches rs ! i) = Some ''ambiguous''"
    if "i < length rs" "j < length rs"
      and h: "i \<noteq> j \<and> latin (rs ! i) = latin (rs ! j) \<and> latin (rs ! i) \<noteq> []
        \<and> match_level (rs ! i) \<in> ?H \<and> match_level (rs ! j) \<in> ?H"
    for i j
  proof -
    note h2 = h[THEN conjunct2]
    note e = h2[THEN conjunct1, symmetric]
    note ne = h2[THEN conjunct2, THEN conjunct1]
    note mi = h2[THEN conjunct2, THEN conjunct2, THEN conjunct1]
    note mj = h2[THEN conjunct2, THEN conjunct2, THEN conjunct2]
    from ne mi have hi: "higher_level (rs ! i)"
      unfolding higher_level_iff by (rule conjI[rotated])
    from ne mj have hj: "higher_level (rs ! j)"
      unfolding higher_level_iff e by (rule conjI[rotated])
    from h hj that(2) have "j < length rs \<and> j \<noteq> i \<and> higher_level (rs ! j) \<and> latin (rs ! j) = latin (rs ! i)"
      by simp
    then have "\<exists>j<length rs. j \<noteq> i \<and> higher_level (rs ! j) \<and> latin (rs ! j) = latin (rs ! i)"
      by (rule exI)
    with hi that(1) have "resolve_ambiguous_matches rs ! i = mark_ambiguous (rs ! i)"
      by (simp only: resolve_nth if_True simp_thms)
    then show ?thesis by (simp add: mark_ambiguous_def)
  qed
  have 3: "resolve_ambiguous_matches rs ! i = rs ! i"
    if "i < length rs" and "match_level (rs ! i) \<notin> ?H" for i
  proof -
    from that(2) have "\<not> higher_level (rs ! i)"
      unfolding higher_level_iff by simp
    with that(1) show ?thesis by (simp add: resolve_nth)
  qed
  have 4: "resolve_ambiguous_matches rs ! i = rs ! i"
    if "i < length rs"
      and n: "\<forall>j<length rs. j \<noteq> i \<longrightarrow>
           latin (rs ! j) \<noteq> latin (rs ! i) \<or> match_level (rs ! j) \<notin> ?H"
    for i
  proof -
    have "\<not> (\<exists>j<length rs. j \<noteq> i \<and> higher_level (rs ! j) \<and> latin (rs ! j) = latin (rs ! i))"
      using n unfolding higher_level_iff by blast
    then have "\<not> (higher_level (rs ! i)
        \<and> (\<exists>j<length rs. j \<noteq> i \<and> higher_level (rs ! j) \<and> latin (rs ! j) = latin (rs ! i)))"
      by (rule contrapos_nn) (rule conjunct2)
    then show ?thesis unfolding resolve_nth[OF that(1)] by (rule if_not_P)
  qed
  from 1 2 3 4 show ?thesis by blast
qed


theorem ambiguity_pass_witness:
  "latin (resolve_ambiguous_matches
      [\<lparr>latin = ''vulpes'', common = ''fox'', original_latin = [],
         original_common = ''swift fox'', raw_input = ''swift fox'', match_level = Some ''genus''\<rparr>,
       \<lparr>latin = ''vulpes'', common = ''fox'', original_latin = [],
         original_common = ''kit fox'', raw_input = ''kit fox'', match_level = Some ''genus''\<rparr>,
       \<lparr>latin = ''vulpes'', common = ''fox'', original_latin = [],
         original_common = ''foxy'', raw_input = ''foxy'',
         match_level = Some ''common_name_fallback''\<rparr>] ! 0) = []
   \<and> match_level (resolve_ambiguous_matches
      [\<lparr>latin = ''vulpes'', common = ''fox'', original_latin = [],
         original_common = ''swift fox'', raw_input = ''swift fox'', match_level = Some ''genus''\<rparr>,
       \<lparr>latin = ''vulpes'', common = ''fox'', original_latin = [],
         original_common = ''kit fox'', raw_input = ''kit fox'', match_level = Some ''genus''\<rparr>,
       \<lparr>latin = ''vulpes'', common = ''fox'', original_latin = [],
         original_common = ''foxy'', raw_input = ''foxy'',
         match_level = Some ''common_name_fallback''\<rparr>] ! 0) = Some ''ambiguous''
   \<and> resolve_ambiguous_matches
      [\<lparr>latin = ''vulpes'', common = ''fox'', original_latin = [],
         original_common = ''swift fox'', raw_input = ''swift fox'', match_level = Some ''genus''\<rparr>,
       \<lparr>latin = ''vulpes'', common = ''fox'', original_latin = [],
         original_common = ''kit fox'', raw_input = ''kit fox'', match_level = Some ''genus''\<rparr>,
       \<lparr>latin = ''vulpes'', common = ''fox'', original_latin = [],
         original_common = ''foxy'', raw_input = ''foxy'',
         match_level = Some ''common_name_fallback''\<rparr>] ! 2
     = \<lparr>latin = ''vulpes'', common = ''fox'', original_latin = [],
         original_common = ''foxy'', raw_input = ''foxy'',
         match_level = Some ''common_name_fallback''\<rparr>"
proof -
  let ?a = "\<lparr>latin = ''vulpes'', common = ''fox'', original_latin = [],
         original_common = ''swift fox'', raw_input = ''swift fox'', match_level = Some ''genus''\<rparr>"
  let ?b = "\<lparr>latin = ''vulpes'', common = ''fox'', original_latin = [],
         original_common = ''kit fox'', raw_input = ''kit fox'', match_level = Some ''genus''\<rparr>"
  let ?c = "\<lparr>latin = ''vulpes'', common = ''fox'', original_latin = [],
         original_common = ''foxy'', raw_input = ''foxy'',
         match_level = Some ''common_name_fallback''\<rparr>"
  let ?rs = "[?a, ?b, ?c]"
  have i0: "(0::nat) < length ?rs" and i1: "(1::nat) < length ?rs" and i2: "(2::nat) < length ?rs"
    by simp_all
  have h: "(0::nat) \<noteq> 1 \<and> latin (?rs ! 0) = latin (?rs ! 1) \<and> latin (?rs ! 0) \<noteq> []
        \<and> match_level (?rs ! 0) \<in> {Some ''genus'', Some ''family'', Some ''order'', Some ''class''}
        \<and> match_level (?rs ! 1) \<in> {Some ''genus'', Some ''family'', Some ''order'', Some ''class''}"
    by simp
  have n: "match_level (?rs ! 2) \<notin> {Some ''genus'', Some ''family'', Some ''order'', Some ''class''}"
    by simp
  note a = ambiguity_pass [of ?rs, THEN conjunct2, THEN conjunct1, rule_format, OF i0 i1 h]
  have c: "resolve_ambiguous_matches ?rs ! 2 = ?rs ! 2"
    using ambiguity_pass [of ?rs, THEN conjunct2, THEN conjunct2, THEN conjunct1, rule_format, OF i2 n] .
  have c': "resolve_ambiguous_matches ?rs ! 2 = ?c"
    using c by simp
  from a[THEN conjunct1] a[THEN conjunct2, THEN conjunct2] c' show ?thesis
    by (intro conjI)
qed

section \<open>The keys of the index\<close>

lemma latin_name_of_lower: "latin_name_of parts = Some l \<Longrightarrow> lower l = l"
  by (auto simp: latin_name_of_def lower_idem split: if_splits)

lemma store_entry_keys:
  "k \<in> dom (latin_to_row (store_entry e t)) \<Longrightarrow> k = row_latin e \<or> k \<in> dom (latin_to_row t)"
  "k \<in> dom (common_to_row (store_entry e t)) \<Longrightarrow>
     k = lower (row_common e) \<or> k \<in> dom (common_to_row t)"
  by (auto simp: store_entry_def Let_def split: if_splits)

lemma load_lines_latin_keys:
  "k \<in> dom (latin_to_row (load_lines ls t)) \<Longrightarrow>
     k \<in> dom (latin_to_row t) \<or> (\<exists>raw e. parse_line raw = Some e \<and> k = row_latin e)"
proof (induction ls arbitrary: t)
  case Nil
  then show ?case by simp
next
  case (Cons raw rest)
  show ?case
  proof (cases "parse_line raw")
    case None
    with Cons show ?thesis by simp
  next
    case (Some e)
    with Cons.prems have "k \<in> dom (latin_to_row (load_lines rest (store_entry e t)))" by simp
    from Cons.IH[OF this] show ?thesis
      using Some store_entry_keys(1)[of k e t] by blast
  qed
qed

lemma load_lines_common_keys:
  "k \<in> dom (common_to_row (load_lines ls t)) \<Longrightarrow>
     k \<in> dom (common_to_row t) \<or> (\<exists>raw e. parse_line raw = Some e \<and> k = lower (row_common e))"
proof (induction ls arbitrary: t)
  case Nil
  then show ?case by simp
next
  case (Cons raw rest)
  show ?case
  proof (cases "parse_line raw")
    case None
    with Cons show ?thesis by simp
  next
    case (Some e)
    with Cons.prems have "k \<in> dom (common_to_row (load_lines rest (store_entry e t)))" by simp
    from Cons.IH[OF this] show ?thesis
      using Some store_entry_keys(2)[of k e t] by blast
  qed
qed

lemma load_latin_key_lower: "k \<in> dom (latin_to_row (load file)) \<Longrightarrow> lower k = k"
proof (cases "file")
  case None
  assume "k \<in> dom (latin_to_row (load file))"
  with None show ?thesis by (simp add: load_def empty_taxonomy_def)
next
  case (Some ls)
  assume "k \<in> dom (latin_to_row (load file))"
  with Some have "k \<in> dom (latin_to_row (load_lines ls empty_taxonomy))"
    by (simp add: load_def)
  then have "k \<in> dom (latin_to_row empty_taxonomy)
      \<or> (\<exists>raw e. parse_line raw = Some e \<and> k = row_latin e)"
    by (rule load_lines_latin_keys)
  moreover have "k \<notin> dom (latin_to_row empty_taxonomy)"
    by (simp add: empty_taxonomy_def)
  ultimately obtain raw e where p: "parse_line raw = Some e" and k: "k = row_latin e"
    by blast
  from p have "latin_name_of (line_parts e) = Some (row_latin e)"
    by (blast dest: parse_line_Some)
  then show ?thesis unfolding k by (rule latin_name_of_lower)
qed

lemma load_common_key_lower: "k \<in> dom (common_to_row (load file)) \<Longrightarrow> lower k = k"
proof (cases "file")
  case None
  assume "k \<in> dom (common_to_row (load file))"
  with None show ?thesis by (simp add: load_def empty_taxonomy_def)
next
  case (Some ls)
  assume "k \<in> dom (common_to_row (load file))"
  with Some have "k \<in> dom (common_to_row (load_lines ls empty_taxonomy))"
    by (simp add: load_def)
  then have "k \<in> dom (common_to_row empty_taxonomy)
      \<or> (\<exists>raw e. parse_line raw = Some e \<and> k = lower (row_common e))"
    by (rule load_lines_common_keys)
  moreover have "k \<notin> dom (common_to_row empty_taxonomy)"
    by (simp add: empty_taxonomy_def)
  ultimately obtain e :: entry where k: "k = lower (row_common e)"
    by blast
  show ?thesis unfolding k by (rule lower_idem)
qed

lemma strip_id_iff: "(strip x = x) = (x = [] \<or> (\<not> is_space (hd x) \<and> \<not> is_space (last x)))"
proof (cases "x = []")
  case True
  then show ?thesis by (simp add: strip_def)
next
  case False
  show ?thesis
  proof
    assume s: "strip x = x"
    from strip_no_leading_space[of x] have "dropWhile is_space x = x"
      by (simp only: s)
    with False have h: "\<not> is_space (hd x)"
      by (simp add: dropWhile_eq_self_iff)
    have "rev (strip x) = dropWhile is_space (rev (dropWhile is_space x))"
      by (simp add: strip_def)
    then have "dropWhile is_space (rev (strip x)) = rev (strip x)"
      by (simp only: dropWhile_twice)
    then have "dropWhile is_space (rev x) = rev x"
      by (simp only: s)
    with False have "\<not> is_space (hd (rev x))"
      by (simp add: dropWhile_eq_self_iff)
    with False have "\<not> is_space (last x)"
      by (simp add: hd_rev)
    with h show "x = [] \<or> (\<not> is_space (hd x) \<and> \<not> is_space (last x))"
      by simp
  next
    assume "x = [] \<or> (\<not> is_space (hd x) \<and> \<not> is_space (last x))"
    with False have h: "\<not> is_space (hd x)" and l: "\<not> is_space (last x)"
      by simp_all
    from h have 1: "dropWhile is_space x = x"
      by (simp add: dropWhile_eq_self_iff)
    from l False have "\<not> is_space (hd (rev x))"
      by (simp add: hd_rev)
    then have 2: "dropWhile is_space (rev x) = rev x"
      by (simp add: dropWhile_eq_self_iff)
    show "strip x = x"
      by (simp add: strip_def 1 2)
  qed
qed

lemma strip_binomial:
  assumes "strip g = g" and "g \<noteq> []" and "strip s = s" and "s \<noteq> []"
  shows "strip (g @ '' '' @ s) = g @ '' '' @ s"
proof -
  from assms(1,2) have "\<not> is_space (hd g)" by (simp add: strip_id_iff)
  moreover from assms(3,4) have "\<not> is_space (last s)" by (simp add: strip_id_iff)
  ultimately have "g @ '' '' @ s = []
      \<or> (\<not> is_space (hd (g @ '' '' @ s)) \<and> \<not> is_space (last (g @ '' '' @ s)))"
    using assms(2,4) by simp
  then show ?thesis by (rule strip_id_iff[THEN iffD2])
qed

lemma latin_name_of_trimmed:
  assumes "latin_name_of parts = Some l" and "length parts \<ge> 7"
    and "\<forall>p \<in> set parts. strip p = p" and "parts ! 5 \<noteq> [] \<longrightarrow> parts ! 4 \<noteq> []"
  shows "strip l = l"
proof -
  have f: "strip (parts ! i) = parts ! i" if "i < 7" for i
    using that assms(2,3) by simp
  have b: "strip (parts ! 4 @ '' '' @ parts ! 5) = parts ! 4 @ '' '' @ parts ! 5"
    if "parts ! 5 \<noteq> []"
    using that assms(4) f[of 4] f[of 5] by (intro strip_binomial) simp_all
  from assms(1) obtain y where l: "l = lower y" and y: "strip y = y"
    unfolding latin_name_of_def using b f[of 4] f[of 3] f[of 2] f[of 1]
    by (auto split: if_splits)
  show ?thesis unfolding l by (simp add: strip_lower y)
qed

lemma store_entry_latin_key:
  "latin_to_row (store_entry e t) k = Some x \<Longrightarrow>
     (k = row_latin e \<and> x = e) \<or> latin_to_row t k = Some x"
  by (auto simp: store_entry_def Let_def split: if_splits)

lemma store_entry_common_key:
  "common_to_row (store_entry e t) k = Some x \<Longrightarrow>
     (k = lower (row_common e) \<and> x = e) \<or> common_to_row t k = Some x"
  by (auto simp: store_entry_def Let_def split: if_splits)

lemma load_lines_latin_key_of:
  "latin_to_row (load_lines ls t) k = Some x \<Longrightarrow>
     latin_to_row t k = Some x \<or> (k = row_latin x \<and> (\<exists>raw. parse_line raw = Some x))"
proof (induction ls arbitrary: t)
  case Nil
  then show ?case by simp
next
  case (Cons raw rest)
  show ?case
  proof (cases "parse_line raw")
    case None
    with Cons show ?thesis by simp
  next
    case (Some e)
    with Cons.prems have "latin_to_row (load_lines rest (store_entry e t)) k = Some x" by simp
    from Cons.IH[OF this] show ?thesis
      using Some store_entry_latin_key[of e t k x] by blast
  qed
qed

lemma load_lines_common_key_of:
  "common_to_row (load_lines ls t) k = Some x \<Longrightarrow>
     common_to_row t k = Some x \<or> k = lower (row_common x)"
proof (induction ls arbitrary: t)
  case Nil
  then show ?case by simp
next
  case (Cons raw rest)
  show ?case
  proof (cases "parse_line raw")
    case None
    with Cons show ?thesis by simp
  next
    case (Some e)
    with Cons.prems have "common_to_row (load_lines rest (store_entry e t)) k = Some x" by simp
    from Cons.IH[OF this] show ?thesis
      using store_entry_common_key[of e t k x] by blast
  qed
qed

lemma load_latin_key_of:
  assumes "latin_to_row (load file) k = Some x"
  shows "k = row_latin x \<and> (\<exists>raw. parse_line raw = Some x)"
proof (cases "file")
  case None
  with assms show ?thesis by (simp add: load_def empty_taxonomy_def)
next
  case (Some ls)
  with assms have "latin_to_row (load_lines ls empty_taxonomy) k = Some x"
    by (simp add: load_def)
  then have "latin_to_row empty_taxonomy k = Some x
      \<or> (k = row_latin x \<and> (\<exists>raw. parse_line raw = Some x))"
    by (rule load_lines_latin_key_of)
  then show ?thesis by (simp add: empty_taxonomy_def)
qed

lemma load_common_key_of:
  assumes "common_to_row (load file) k = Some x"
  shows "k = lower (row_common x)"
proof (cases "file")
  case None
  with assms show ?thesis by (simp add: load_def empty_taxonomy_def)
next
  case (Some ls)
  with assms have "common_to_row (load_lines ls empty_taxonomy) k = Some x"
    by (simp add: load_def)
  then have "common_to_row empty_taxonomy k = Some x \<or> k = lower (row_common x)"
    by (rule load_lines_common_key_of)
  then show ?thesis by (simp add: empty_taxonomy_def)
qed

lemma load_latin_reachable:
  assumes "latin_to_row (load file) k = Some x"
    and "\<forall>p \<in> set (line_parts x). strip p = p"
    and "line_parts x ! 5 \<noteq> [] \<longrightarrow> line_parts x ! 4 \<noteq> []"
  shows "strip k = k \<and> get_by_latin (load file) k = Some x"
proof -
  from load_latin_key_of[OF assms(1)] obtain raw where k: "k = row_latin x"
    and p: "parse_line raw = Some x"
    by blast
  from parse_line_Some[OF p] have n: "latin_name_of (line_parts x) = Some (row_latin x)"
    and len: "length (line_parts x) \<ge> 7"
    by blast+
  have s: "strip k = k"
    unfolding k using n len assms(2,3) by (rule latin_name_of_trimmed)
  have "lower k = k"
    unfolding k using n by (rule latin_name_of_lower)
  with s assms(1) show ?thesis by (simp add: get_by_latin_def)
qed

lemma load_common_reachable:
  assumes "common_to_row (load file) k = Some x" and "strip (row_common x) = row_common x"
  shows "strip k = k \<and> get_by_common (load file) k = Some x"
proof -
  have k: "k = lower (row_common x)" using assms(1) by (rule load_common_key_of)
  have s: "strip k = k" unfolding k by (simp add: strip_lower assms(2))
  have "lower k = k" unfolding k by (rule lower_idem)
  with s assms(1) show ?thesis by (simp add: get_by_common_def)
qed

lemma load_latin_unreachable:
  assumes "latin_to_row (load file) k = Some x" and "strip k \<noteq> k"
  shows "get_by_latin (load file) q \<noteq> Some x"
proof
  assume "get_by_latin (load file) q = Some x"
  then have "latin_to_row (load file) (strip (lower q)) = Some x"
    by (simp add: get_by_latin_def)
  then have "strip (lower q) = row_latin x"
    by (blast dest: load_latin_key_of)
  moreover have "k = row_latin x"
    using assms(1) by (blast dest: load_latin_key_of)
  ultimately have "k = strip (lower q)" by simp
  then have "strip k = k" by (simp add: strip_idem)
  with assms(2) show False by simp
qed

lemma load_common_unreachable:
  assumes "common_to_row (load file) k = Some x" and "strip k \<noteq> k"
  shows "get_by_common (load file) q \<noteq> Some x"
proof
  assume "get_by_common (load file) q = Some x"
  then have "common_to_row (load file) (strip (lower q)) = Some x"
    by (simp add: get_by_common_def)
  then have "strip (lower q) = lower (row_common x)"
    by (rule load_common_key_of)
  moreover have "k = lower (row_common x)"
    using assms(1) by (rule load_common_key_of)
  ultimately have "k = strip (lower q)" by simp
  then have "strip k = k" by (simp add: strip_idem)
  with assms(2) show False by simp
qed

text \<open>
  Claim C7 says that every key of the two mappings is lowercased and trimmed. The loader
  trims the line, not its fields: the row
  \<open>g1;Mammalia;Carnivora;Ursidae; Ursus;arctos; Brown Bear\<close> is stored under the Latin key
  \<open>" ursus arctos"\<close> and the common key \<open>" brown bear"\<close>, neither of which is its own trimmed
  form, and the lookup of the row's Latin name and of its common name both return nothing.
\<close>

theorem index_keys_counterexample:
  "latin_to_row (load (Some [''g1;Mammalia;Carnivora;Ursidae; Ursus;arctos; Brown Bear'']))
       '' ursus arctos''
     = Some \<lparr>row_latin = '' ursus arctos'', row_common = '' Brown Bear'',
         line_parts = [''g1'', ''Mammalia'', ''Carnivora'', ''Ursidae'', '' Ursus'', ''arctos'',
                       '' Brown Bear'']\<rparr>
   \<and> strip (lower '' ursus arctos'') = ''ursus arctos''
   \<and> get_by_latin (load (Some [''g1;Mammalia;Carnivora;Ursidae; Ursus;arctos; Brown Bear'']))
       '' ursus arctos'' = None
   \<and> common_to_row (load (Some [''g1;Mammalia;Carnivora;Ursidae; Ursus;arctos; Brown Bear'']))
       '' brown bear''
     = Some \<lparr>row_latin = '' ursus arctos'', row_common = '' Brown Bear'',
         line_parts = [''g1'', ''Mammalia'', ''Carnivora'', ''Ursidae'', '' Ursus'', ''arctos'',
                       '' Brown Bear'']\<rparr>
   \<and> strip (lower '' brown bear'') = ''brown bear''
   \<and> get_by_common (load (Some [''g1;Mammalia;Carnivora;Ursidae; Ursus;arctos; Brown Bear'']))
       '' Brown Bear'' = None"
  by code_simp

text \<open>
  Claim C7, as amended. After \<open>load\<close> every key of both mappings is its own lowercased form,
  and an entry stored under a key without leading or trailing whitespace is found by the
  normalised lookup of that key. The keys are trimmed, and the entry is found, whenever the
  fields of the row carry no leading or trailing whitespace and the genus is given when the
  species is (for the common-name mapping: whenever the common name carries none). An entry
  stored in the Latin mapping under a key with leading or trailing whitespace is returned
  by \<open>get_by_latin\<close> for no query, and an entry stored in the common-name mapping under such
  a key is returned by \<open>get_by_common\<close> for no query.
\<close>

theorem index_keys_lowercase:
  "(\<forall>k \<in> dom (latin_to_row (load file)).
      lower k = k
      \<and> (strip k = k \<longrightarrow> get_by_latin (load file) k = latin_to_row (load file) k))
   \<and> (\<forall>k \<in> dom (common_to_row (load file)).
      lower k = k
      \<and> (strip k = k \<longrightarrow> get_by_common (load file) k = common_to_row (load file) k))
   \<and> (\<forall>k x. latin_to_row (load file) k = Some x
         \<and> (\<forall>p \<in> set (line_parts x). strip p = p)
         \<and> (line_parts x ! 5 \<noteq> [] \<longrightarrow> line_parts x ! 4 \<noteq> [])
         \<longrightarrow> strip k = k \<and> get_by_latin (load file) k = Some x)
   \<and> (\<forall>k x. common_to_row (load file) k = Some x \<and> strip (row_common x) = row_common x
         \<longrightarrow> strip k = k \<and> get_by_common (load file) k = Some x)
   \<and> (\<forall>k x. latin_to_row (load file) k = Some x \<and> strip k \<noteq> k
         \<longrightarrow> (\<forall>q. get_by_latin (load file) q \<noteq> Some x))
   \<and> (\<forall>k x. common_to_row (load file) k = Some x \<and> strip k \<noteq> k
         \<longrightarrow> (\<forall>q. get_by_common (load file) q \<noteq> Some x))"
proof -
  have 1: "\<forall>k \<in> dom (latin_to_row (load file)).
      lower k = k
      \<and> (strip k = k \<longrightarrow> get_by_latin (load file) k = latin_to_row (load file) k)"
  proof
    fix k assume "k \<in> dom (latin_to_row (load file))"
    then have l: "lower k = k" by (rule load_latin_key_lower)
    then show "lower k = k
      \<and> (strip k = k \<longrightarrow> get_by_latin (load file) k = latin_to_row (load file) k)"
      by (simp add: get_by_latin_def)
  qed
  have 2: "\<forall>k \<in> dom (common_to_row (load file)).
      lower k = k
      \<and> (strip k = k \<longrightarrow> get_by_common (load file) k = common_to_row (load file) k)"
  proof
    fix k assume "k \<in> dom (common_to_row (load file))"
    then have l: "lower k = k" by (rule load_common_key_lower)
    then show "lower k = k
      \<and> (strip k = k \<longrightarrow> get_by_common (load file) k = common_to_row (load file) k)"
      by (simp add: get_by_common_def)
  qed
  have 3: "\<forall>k x. latin_to_row (load file) k = Some x
         \<and> (\<forall>p \<in> set (line_parts x). strip p = p)
         \<and> (line_parts x ! 5 \<noteq> [] \<longrightarrow> line_parts x ! 4 \<noteq> [])
         \<longrightarrow> strip k = k \<and> get_by_latin (load file) k = Some x"
    using load_latin_reachable by blast
  have 4: "\<forall>k x. common_to_row (load file) k = Some x \<and> strip (row_common x) = row_common x
         \<longrightarrow> strip k = k \<and> get_by_common (load file) k = Some x"
    using load_common_reachable by blast
  have 5: "\<forall>k x. latin_to_row (load file) k = Some x \<and> strip k \<noteq> k
         \<longrightarrow> (\<forall>q. get_by_latin (load file) q \<noteq> Some x)"
    using load_latin_unreachable by blast
  have 6: "\<forall>k x. common_to_row (load file) k = Some x \<and> strip k \<noteq> k
         \<longrightarrow> (\<forall>q. get_by_common (load file) q \<noteq> Some x)"
    using load_common_unreachable by blast
  show ?thesis
    by (rule conjI [OF 1 conjI [OF 2 conjI [OF 3 conjI [OF 4 conjI [OF 5 6]]]]])
qed

theorem index_keys_lowercase_witness:
  "lower ''ursus arctos'' = ''ursus arctos''
   \<and> get_by_latin (load (Some [''g1;Mammalia;Carnivora;Ursidae;Ursus;arctos;Brown Bear'']))
        ''ursus arctos''
      = Some \<lparr>row_latin = ''ursus arctos'', row_common = ''Brown Bear'',
         line_parts = [''g1'', ''Mammalia'', ''Carnivora'', ''Ursidae'', ''Ursus'', ''arctos'', ''Brown Bear'']\<rparr>
   \<and> lower ''brown bear'' = ''brown bear''
   \<and> get_by_common (load (Some [''g1;Mammalia;Carnivora;Ursidae;Ursus;arctos;Brown Bear'']))
        ''brown bear''
      = Some \<lparr>row_latin = ''ursus arctos'', row_common = ''Brown Bear'',
         line_parts = [''g1'', ''Mammalia'', ''Carnivora'', ''Ursidae'', ''Ursus'', ''arctos'', ''Brown Bear'']\<rparr>
   \<and> get_by_latin (load (Some [''g1;Mammalia;Carnivora;Ursidae; Ursus;arctos; Brown Bear''])) ''Ursus arctos''
      \<noteq> Some \<lparr>row_latin = '' ursus arctos'', row_common = '' Brown Bear'',
         line_parts = [''g1'', ''Mammalia'', ''Carnivora'', ''Ursidae'', '' Ursus'', ''arctos'',
                       '' Brown Bear'']\<rparr>
   \<and> get_by_common (load (Some [''g1;Mammalia;Carnivora;Ursidae; Ursus;arctos; Brown Bear''])) ''Brown Bear''
      \<noteq> Some \<lparr>row_latin = '' ursus arctos'', row_common = '' Brown Bear'',
         line_parts = [''g1'', ''Mammalia'', ''Carnivora'', ''Ursidae'', '' Ursus'', ''arctos'',
                       '' Brown Bear'']\<rparr>"
proof -
  let ?f = "Some [''g1;Mammalia;Carnivora;Ursidae;Ursus;arctos;Brown Bear'']"
  let ?e = "\<lparr>row_latin = ''ursus arctos'', row_common = ''Brown Bear'',
         line_parts = [''g1'', ''Mammalia'', ''Carnivora'', ''Ursidae'', ''Ursus'', ''arctos'', ''Brown Bear'']\<rparr>"
  have ml: "latin_to_row (load ?f) ''ursus arctos'' = Some ?e" by code_simp
  then have dl: "''ursus arctos'' \<in> dom (latin_to_row (load ?f))" by (rule domI)
  have mc: "common_to_row (load ?f) ''brown bear'' = Some ?e" by code_simp
  then have dc: "''brown bear'' \<in> dom (common_to_row (load ?f))" by (rule domI)
  have fields: "\<forall>p \<in> set (line_parts ?e). strip p = p" by code_simp
  have genus: "line_parts ?e ! 5 \<noteq> [] \<longrightarrow> line_parts ?e ! 4 \<noteq> []" by simp
  have sc: "strip (row_common ?e) = row_common ?e" by code_simp
  note a = index_keys_lowercase [of ?f, THEN conjunct1, rule_format, OF dl]
  note b = index_keys_lowercase [of ?f, THEN conjunct2, THEN conjunct1, rule_format, OF dc]
  note c = index_keys_lowercase [of ?f, THEN conjunct2, THEN conjunct2, THEN conjunct1,
      rule_format, OF conjI [OF ml conjI [OF fields genus]]]
  note d = index_keys_lowercase [of ?f, THEN conjunct2, THEN conjunct2, THEN conjunct2,
      THEN conjunct1, rule_format, OF conjI [OF mc sc]]
  have bl: "latin_to_row (load (Some [''g1;Mammalia;Carnivora;Ursidae; Ursus;arctos; Brown Bear''])) '' ursus arctos'' = Some \<lparr>row_latin = '' ursus arctos'', row_common = '' Brown Bear'',
         line_parts = [''g1'', ''Mammalia'', ''Carnivora'', ''Ursidae'', '' Ursus'', ''arctos'',
                       '' Brown Bear'']\<rparr>
      \<and> strip '' ursus arctos'' \<noteq> '' ursus arctos''"
    by code_simp
  have bc: "common_to_row (load (Some [''g1;Mammalia;Carnivora;Ursidae; Ursus;arctos; Brown Bear''])) '' brown bear'' = Some \<lparr>row_latin = '' ursus arctos'', row_common = '' Brown Bear'',
         line_parts = [''g1'', ''Mammalia'', ''Carnivora'', ''Ursidae'', '' Ursus'', ''arctos'',
                       '' Brown Bear'']\<rparr>
      \<and> strip '' brown bear'' \<noteq> '' brown bear''"
    by code_simp
  note e = index_keys_lowercase [of "Some [''g1;Mammalia;Carnivora;Ursidae; Ursus;arctos; Brown Bear'']", THEN conjunct2, THEN conjunct2, THEN conjunct2,
      THEN conjunct2, THEN conjunct1, THEN spec, THEN spec, THEN mp, OF bl, THEN spec,
      of "''Ursus arctos''"]
  note f = index_keys_lowercase [of "Some [''g1;Mammalia;Carnivora;Ursidae; Ursus;arctos; Brown Bear'']", THEN conjunct2, THEN conjunct2, THEN conjunct2,
      THEN conjunct2, THEN conjunct2, THEN spec, THEN spec, THEN mp, OF bc, THEN spec,
      of "''Brown Bear''"]
  from a[THEN conjunct1] c[THEN conjunct2] b[THEN conjunct1] d[THEN conjunct2] e f
  show ?thesis by (intro conjI)
qed


section \<open>The loader stores every row with a rank\<close>

lemma split_char_Nil: "split_char sep acc [] = [acc]"
  by simp

lemma parse_line_ladder:
  assumes "parts = split_char CHR '';'' [] (strip raw)" and "length parts \<ge> 7"
    and "latin_name_of parts = Some name"
  shows "parse_line raw = Some \<lparr>row_latin = name, row_common = parts ! 6, line_parts = parts\<rparr>"
proof -
  have "strip raw \<noteq> []"
  proof
    assume "strip raw = []"
    with assms(1) have "parts = [[]]" by simp
    with assms(2) show False by simp
  qed
  with assms show ?thesis by (simp add: parse_line_def Let_def)
qed

lemma load_lines_append: "load_lines (xs @ ys) t = load_lines ys (load_lines xs t)"
  by (induction xs arbitrary: t) (auto split: option.splits)

lemma store_entry_latin_at: "latin_to_row (store_entry e t) (row_latin e) = Some e"
  by (simp add: store_entry_def Let_def)

lemma store_entry_latin_other:
  "k \<noteq> row_latin e \<Longrightarrow> latin_to_row (store_entry e t) k = latin_to_row t k"
  by (simp add: store_entry_def Let_def)

lemma load_lines_latin_kept:
  "latin_to_row t k = Some e0 \<Longrightarrow>
     \<exists>x. latin_to_row (load_lines ls t) k = Some x
       \<and> (x = e0 \<or> (\<exists>r \<in> set ls. parse_line r = Some x \<and> row_latin x = k))"
proof (induction ls arbitrary: t e0)
  case Nil
  then show ?case by simp
next
  case (Cons raw rest)
  show ?case
  proof (cases "parse_line raw")
    case None
    from Cons.IH[OF Cons.prems] None show ?thesis by auto
  next
    case (Some e)
    show ?thesis
    proof (cases "k = row_latin e")
      case True
      then have "latin_to_row (store_entry e t) k = Some e"
        by (simp add: store_entry_latin_at)
      from Cons.IH[OF this] obtain x where
        x: "latin_to_row (load_lines rest (store_entry e t)) k = Some x"
        and d: "x = e \<or> (\<exists>r \<in> set rest. parse_line r = Some x \<and> row_latin x = k)"
        by blast
      from d Some True have "\<exists>r \<in> set (raw # rest). parse_line r = Some x \<and> row_latin x = k"
        by auto
      with x Some show ?thesis by auto
    next
      case False
      then have "latin_to_row (store_entry e t) k = Some e0"
        using Cons.prems by (simp add: store_entry_latin_other)
      from Cons.IH[OF this] Some show ?thesis by auto
    qed
  qed
qed

lemma load_lines_stores_row:
  assumes "parse_line raw = Some e"
  shows "\<exists>x. latin_to_row (load_lines (pre @ raw # post) t) (row_latin e) = Some x
       \<and> (x = e \<or> (\<exists>r \<in> set post. parse_line r = Some x \<and> row_latin x = row_latin e))"
proof -
  have "load_lines (pre @ raw # post) t = load_lines post (store_entry e (load_lines pre t))"
    using assms by (simp add: load_lines_append)
  moreover have "latin_to_row (store_entry e (load_lines pre t)) (row_latin e) = Some e"
    by (rule store_entry_latin_at)
  ultimately show ?thesis
    using load_lines_latin_kept[of "store_entry e (load_lines pre t)" "row_latin e" e post]
    by simp
qed

lemma load_stores_row:
  assumes "parts = split_char CHR '';'' [] (strip raw)" and "length parts \<ge> 7"
    and "latin_name_of parts = Some name"
  shows "\<exists>e. latin_to_row (load (Some (pre @ raw # post))) name = Some e \<and> row_latin e = name
       \<and> (e = \<lparr>row_latin = name, row_common = parts ! 6, line_parts = parts\<rparr>
            \<or> (\<exists>r \<in> set post. line_parts e = split_char CHR '';'' [] (strip r)))"
proof -
  let ?e = "\<lparr>row_latin = name, row_common = parts ! 6, line_parts = parts\<rparr>"
  have p: "parse_line raw = Some ?e"
    using assms by (rule parse_line_ladder)
  from load_lines_stores_row[OF p, of pre post empty_taxonomy]
  obtain x where x: "latin_to_row (load_lines (pre @ raw # post) empty_taxonomy) name = Some x"
    and d: "x = ?e \<or> (\<exists>r \<in> set post. parse_line r = Some x \<and> row_latin x = name)"
    by auto
  from d have 1: "row_latin x = name" by auto
  from d have 2: "x = ?e \<or> (\<exists>r \<in> set post. line_parts x = split_char CHR '';'' [] (strip r))"
    by (auto dest: parse_line_Some)
  from x 1 2 show ?thesis by (auto simp: load_def)
qed

lemma latin_name_of_ladder:
  assumes "(parts ! 5 \<noteq> [] \<and> name = lower (parts ! 4 @ '' '' @ parts ! 5))
      \<or> (parts ! 5 = [] \<and> parts ! 4 \<noteq> [] \<and> name = lower (parts ! 4))
      \<or> (parts ! 5 = [] \<and> parts ! 4 = [] \<and> parts ! 3 \<noteq> [] \<and> name = lower (parts ! 3))
      \<or> (parts ! 5 = [] \<and> parts ! 4 = [] \<and> parts ! 3 = [] \<and> parts ! 2 \<noteq> []
          \<and> name = lower (parts ! 2))
      \<or> (parts ! 5 = [] \<and> parts ! 4 = [] \<and> parts ! 3 = [] \<and> parts ! 2 = []
          \<and> parts ! 1 \<noteq> [] \<and> name = lower (parts ! 1))"
  shows "latin_name_of parts = Some name"
  using assms by (auto simp: latin_name_of_def)

lemma loaded_entry_ladder:
  "e \<in> ran (latin_to_row (load file)) \<union> ran (common_to_row (load file)) \<Longrightarrow>
     (\<exists>ls raw. file = Some ls \<and> raw \<in> set ls
         \<and> line_parts e = split_char CHR '';'' [] (strip raw))
     \<and> length (line_parts e) \<ge> 7
     \<and> (line_parts e ! 5 \<noteq> [] \<longrightarrow>
          row_latin e = lower (line_parts e ! 4 @ '' '' @ line_parts e ! 5))
     \<and> (line_parts e ! 5 = [] \<and> line_parts e ! 4 \<noteq> [] \<longrightarrow>
          row_latin e = lower (line_parts e ! 4))
     \<and> (line_parts e ! 5 = [] \<and> line_parts e ! 4 = [] \<and> line_parts e ! 3 \<noteq> [] \<longrightarrow>
          row_latin e = lower (line_parts e ! 3))
     \<and> (line_parts e ! 5 = [] \<and> line_parts e ! 4 = [] \<and> line_parts e ! 3 = []
          \<and> line_parts e ! 2 \<noteq> [] \<longrightarrow>
          row_latin e = lower (line_parts e ! 2))
     \<and> (line_parts e ! 5 = [] \<and> line_parts e ! 4 = [] \<and> line_parts e ! 3 = []
          \<and> line_parts e ! 2 = [] \<and> line_parts e ! 1 \<noteq> [] \<longrightarrow>
          row_latin e = lower (line_parts e ! 1))
     \<and> \<not> (line_parts e ! 5 = [] \<and> line_parts e ! 4 = [] \<and> line_parts e ! 3 = []
          \<and> line_parts e ! 2 = [] \<and> line_parts e ! 1 = [])
     \<and> row_latin e \<noteq> []
     \<and> (\<forall>raw rest t parts.
           parts = split_char CHR '';'' [] (strip raw) \<and> length parts \<ge> 7
           \<and> parts ! 1 = [] \<and> parts ! 2 = [] \<and> parts ! 3 = [] \<and> parts ! 4 = [] \<and> parts ! 5 = []
           \<longrightarrow> load_lines (raw # rest) t = load_lines rest t)"
proof -
  assume "e \<in> ran (latin_to_row (load file)) \<union> ran (common_to_row (load file))"
  then obtain ls raw where f: "file = Some ls" "raw \<in> set ls" and p: "parse_line raw = Some e"
    using load_ran by blast
  note ps = parse_line_Some[OF p]
  from ps have l: "latin_name_of (line_parts e) = Some (row_latin e)" by blast
  have 1: "\<exists>ls raw. file = Some ls \<and> raw \<in> set ls
         \<and> line_parts e = split_char CHR '';'' [] (strip raw)"
    using f ps by blast
  have 2: "row_latin e \<noteq> []" using l by (rule latin_name_of_nonempty)
  have 3: "length (line_parts e) \<ge> 7" using ps by blast
  have 4: "\<forall>raw rest t parts.
           parts = split_char CHR '';'' [] (strip raw) \<and> length parts \<ge> 7
           \<and> parts ! 1 = [] \<and> parts ! 2 = [] \<and> parts ! 3 = [] \<and> parts ! 4 = [] \<and> parts ! 5 = []
           \<longrightarrow> load_lines (raw # rest) t = load_lines rest t"
    using parse_line_no_rank load_lines_skip by blast
  have 5: "(line_parts e ! 5 \<noteq> [] \<longrightarrow>
          row_latin e = lower (line_parts e ! 4 @ '' '' @ line_parts e ! 5))
     \<and> (line_parts e ! 5 = [] \<and> line_parts e ! 4 \<noteq> [] \<longrightarrow>
          row_latin e = lower (line_parts e ! 4))
     \<and> (line_parts e ! 5 = [] \<and> line_parts e ! 4 = [] \<and> line_parts e ! 3 \<noteq> [] \<longrightarrow>
          row_latin e = lower (line_parts e ! 3))
     \<and> (line_parts e ! 5 = [] \<and> line_parts e ! 4 = [] \<and> line_parts e ! 3 = []
          \<and> line_parts e ! 2 \<noteq> [] \<longrightarrow>
          row_latin e = lower (line_parts e ! 2))
     \<and> (line_parts e ! 5 = [] \<and> line_parts e ! 4 = [] \<and> line_parts e ! 3 = []
          \<and> line_parts e ! 2 = [] \<and> line_parts e ! 1 \<noteq> [] \<longrightarrow>
          row_latin e = lower (line_parts e ! 1))
     \<and> \<not> (line_parts e ! 5 = [] \<and> line_parts e ! 4 = [] \<and> line_parts e ! 3 = []
          \<and> line_parts e ! 2 = [] \<and> line_parts e ! 1 = [])"
    using l by (simp add: latin_name_of_def split: if_splits)
  show ?thesis
    using 1 2 3 4 5 by blast
qed


text \<open>
  Claim C4. Every entry held by the index after \<open>load\<close> comes from a row of the file with at
  least seven fields. Its \<open>latin\<close> is \<open>"<genus> <species>"\<close> lowercased when the species field
  is not empty, and otherwise the first non-empty of genus, family, order and class,
  lowercased. No loaded entry has all five rank fields empty, its \<open>latin\<close> is never empty, and
  a row whose five rank fields are empty leaves the index as it was. Conversely every row
  of the file with at least seven fields and a non-empty rank field is loaded: the Latin
  mapping holds, under the name the ladder gives the row, the entry of that row, or of a
  later row of the file with the same name.
\<close>

theorem load_latin_name:
  "(e \<in> ran (latin_to_row (load file)) \<union> ran (common_to_row (load file)) \<longrightarrow>
     (\<exists>ls raw. file = Some ls \<and> raw \<in> set ls
         \<and> line_parts e = split_char CHR '';'' [] (strip raw))
     \<and> length (line_parts e) \<ge> 7
     \<and> (line_parts e ! 5 \<noteq> [] \<longrightarrow>
          row_latin e = lower (line_parts e ! 4 @ '' '' @ line_parts e ! 5))
     \<and> (line_parts e ! 5 = [] \<and> line_parts e ! 4 \<noteq> [] \<longrightarrow>
          row_latin e = lower (line_parts e ! 4))
     \<and> (line_parts e ! 5 = [] \<and> line_parts e ! 4 = [] \<and> line_parts e ! 3 \<noteq> [] \<longrightarrow>
          row_latin e = lower (line_parts e ! 3))
     \<and> (line_parts e ! 5 = [] \<and> line_parts e ! 4 = [] \<and> line_parts e ! 3 = []
          \<and> line_parts e ! 2 \<noteq> [] \<longrightarrow>
          row_latin e = lower (line_parts e ! 2))
     \<and> (line_parts e ! 5 = [] \<and> line_parts e ! 4 = [] \<and> line_parts e ! 3 = []
          \<and> line_parts e ! 2 = [] \<and> line_parts e ! 1 \<noteq> [] \<longrightarrow>
          row_latin e = lower (line_parts e ! 1))
     \<and> \<not> (line_parts e ! 5 = [] \<and> line_parts e ! 4 = [] \<and> line_parts e ! 3 = []
          \<and> line_parts e ! 2 = [] \<and> line_parts e ! 1 = [])
     \<and> row_latin e \<noteq> []
     \<and> (\<forall>raw rest t parts.
           parts = split_char CHR '';'' [] (strip raw) \<and> length parts \<ge> 7
           \<and> parts ! 1 = [] \<and> parts ! 2 = [] \<and> parts ! 3 = [] \<and> parts ! 4 = [] \<and> parts ! 5 = []
           \<longrightarrow> load_lines (raw # rest) t = load_lines rest t))
   \<and> (\<forall>pre raw post parts name.
         parts = split_char CHR '';'' [] (strip raw) \<and> length parts \<ge> 7
         \<and> ((parts ! 5 \<noteq> [] \<and> name = lower (parts ! 4 @ '' '' @ parts ! 5))
            \<or> (parts ! 5 = [] \<and> parts ! 4 \<noteq> [] \<and> name = lower (parts ! 4))
            \<or> (parts ! 5 = [] \<and> parts ! 4 = [] \<and> parts ! 3 \<noteq> [] \<and> name = lower (parts ! 3))
            \<or> (parts ! 5 = [] \<and> parts ! 4 = [] \<and> parts ! 3 = [] \<and> parts ! 2 \<noteq> []
                \<and> name = lower (parts ! 2))
            \<or> (parts ! 5 = [] \<and> parts ! 4 = [] \<and> parts ! 3 = [] \<and> parts ! 2 = []
                \<and> parts ! 1 \<noteq> [] \<and> name = lower (parts ! 1)))
         \<longrightarrow> (\<exists>x. latin_to_row (load (Some (pre @ raw # post))) name = Some x
                \<and> row_latin x = name
                \<and> (x = \<lparr>row_latin = name, row_common = parts ! 6, line_parts = parts\<rparr>
                     \<or> (\<exists>r \<in> set post. line_parts x = split_char CHR '';'' [] (strip r)))))"
proof -
  have a: "(e \<in> ran (latin_to_row (load file)) \<union> ran (common_to_row (load file)) \<longrightarrow>
     (\<exists>ls raw. file = Some ls \<and> raw \<in> set ls
         \<and> line_parts e = split_char CHR '';'' [] (strip raw))
     \<and> length (line_parts e) \<ge> 7
     \<and> (line_parts e ! 5 \<noteq> [] \<longrightarrow>
          row_latin e = lower (line_parts e ! 4 @ '' '' @ line_parts e ! 5))
     \<and> (line_parts e ! 5 = [] \<and> line_parts e ! 4 \<noteq> [] \<longrightarrow>
          row_latin e = lower (line_parts e ! 4))
     \<and> (line_parts e ! 5 = [] \<and> line_parts e ! 4 = [] \<and> line_parts e ! 3 \<noteq> [] \<longrightarrow>
          row_latin e = lower (line_parts e ! 3))
     \<and> (line_parts e ! 5 = [] \<and> line_parts e ! 4 = [] \<and> line_parts e ! 3 = []
          \<and> line_parts e ! 2 \<noteq> [] \<longrightarrow>
          row_latin e = lower (line_parts e ! 2))
     \<and> (line_parts e ! 5 = [] \<and> line_parts e ! 4 = [] \<and> line_parts e ! 3 = []
          \<and> line_parts e ! 2 = [] \<and> line_parts e ! 1 \<noteq> [] \<longrightarrow>
          row_latin e = lower (line_parts e ! 1))
     \<and> \<not> (line_parts e ! 5 = [] \<and> line_parts e ! 4 = [] \<and> line_parts e ! 3 = []
          \<and> line_parts e ! 2 = [] \<and> line_parts e ! 1 = [])
     \<and> row_latin e \<noteq> []
     \<and> (\<forall>raw rest t parts.
           parts = split_char CHR '';'' [] (strip raw) \<and> length parts \<ge> 7
           \<and> parts ! 1 = [] \<and> parts ! 2 = [] \<and> parts ! 3 = [] \<and> parts ! 4 = [] \<and> parts ! 5 = []
           \<longrightarrow> load_lines (raw # rest) t = load_lines rest t))"
    using loaded_entry_ladder by blast
  have b: "(\<forall>pre raw post parts name.
         parts = split_char CHR '';'' [] (strip raw) \<and> length parts \<ge> 7
         \<and> ((parts ! 5 \<noteq> [] \<and> name = lower (parts ! 4 @ '' '' @ parts ! 5))
            \<or> (parts ! 5 = [] \<and> parts ! 4 \<noteq> [] \<and> name = lower (parts ! 4))
            \<or> (parts ! 5 = [] \<and> parts ! 4 = [] \<and> parts ! 3 \<noteq> [] \<and> name = lower (parts ! 3))
            \<or> (parts ! 5 = [] \<and> parts ! 4 = [] \<and> parts ! 3 = [] \<and> parts ! 2 \<noteq> []
                \<and> name = lower (parts ! 2))
            \<or> (parts ! 5 = [] \<and> parts ! 4 = [] \<and> parts ! 3 = [] \<and> parts ! 2 = []
                \<and> parts ! 1 \<noteq> [] \<and> name = lower (parts ! 1)))
         \<longrightarrow> (\<exists>x. latin_to_row (load (Some (pre @ raw # post))) name = Some x
                \<and> row_latin x = name
                \<and> (x = \<lparr>row_latin = name, row_common = parts ! 6, line_parts = parts\<rparr>
                     \<or> (\<exists>r \<in> set post. line_parts x = split_char CHR '';'' [] (strip r)))))"
  proof (intro allI impI)
    fix pre raw post parts name
    assume h: "parts = split_char CHR '';'' [] (strip raw) \<and> length parts \<ge> 7
         \<and> ((parts ! 5 \<noteq> [] \<and> name = lower (parts ! 4 @ '' '' @ parts ! 5))
            \<or> (parts ! 5 = [] \<and> parts ! 4 \<noteq> [] \<and> name = lower (parts ! 4))
            \<or> (parts ! 5 = [] \<and> parts ! 4 = [] \<and> parts ! 3 \<noteq> [] \<and> name = lower (parts ! 3))
            \<or> (parts ! 5 = [] \<and> parts ! 4 = [] \<and> parts ! 3 = [] \<and> parts ! 2 \<noteq> []
                \<and> name = lower (parts ! 2))
            \<or> (parts ! 5 = [] \<and> parts ! 4 = [] \<and> parts ! 3 = [] \<and> parts ! 2 = []
                \<and> parts ! 1 \<noteq> [] \<and> name = lower (parts ! 1)))"
    note p = h[THEN conjunct1]
    note l = h[THEN conjunct2, THEN conjunct1]
    have n: "latin_name_of parts = Some name"
      using h[THEN conjunct2, THEN conjunct2] by (rule latin_name_of_ladder)
    show "\<exists>x. latin_to_row (load (Some (pre @ raw # post))) name = Some x
                \<and> row_latin x = name
                \<and> (x = \<lparr>row_latin = name, row_common = parts ! 6, line_parts = parts\<rparr>
                     \<or> (\<exists>r \<in> set post. line_parts x = split_char CHR '';'' [] (strip r)))"
      using p l n by (rule load_stores_row)
  qed
  from a b show ?thesis by (rule conjI)
qed

theorem load_latin_name_witness:
  "latin_to_row (load (Some [''g4;Mammalia;Carnivora;Canidae;Vulpes;vulpes;red fox'', ''g2;Mammalia;Carnivora;Canidae;;;canids''])) ''canidae''
     = Some \<lparr>row_latin = ''canidae'', row_common = ''canids'',
        line_parts = [''g2'', ''Mammalia'', ''Carnivora'', ''Canidae'', [], [], ''canids'']\<rparr>
   \<and> latin_to_row (load (Some [''g1;Mammalia;Carnivora;;;;carnivores''])) ''carnivora''
     = Some \<lparr>row_latin = ''carnivora'', row_common = ''carnivores'',
        line_parts = [''g1'', ''Mammalia'', ''Carnivora'', [], [], [], ''carnivores'']\<rparr>
   \<and> latin_to_row (load (Some [''g0;Mammalia;;;;;mammals''])) ''mammalia''
     = Some \<lparr>row_latin = ''mammalia'', row_common = ''mammals'',
        line_parts = [''g0'', ''Mammalia'', [], [], [], [], ''mammals'']\<rparr>
   \<and> latin_to_row (load (Some [''g4;Mammalia;Carnivora;Canidae;Vulpes;vulpes;red fox'', ''g3;Mammalia;Carnivora;Canidae;Vulpes;;fox''])) ''vulpes''
     = Some \<lparr>row_latin = ''vulpes'', row_common = ''fox'',
        line_parts = [''g3'', ''Mammalia'', ''Carnivora'', ''Canidae'', ''Vulpes'', [], ''fox'']\<rparr>
   \<and> latin_to_row (load (Some [''g3;Mammalia;Carnivora;Canidae;Vulpes;;fox'', ''g4;Mammalia;Carnivora;Canidae;Vulpes;vulpes;red fox''])) ''vulpes vulpes''
     = Some \<lparr>row_latin = ''vulpes vulpes'', row_common = ''red fox'',
        line_parts = [''g4'', ''Mammalia'', ''Carnivora'', ''Canidae'', ''Vulpes'', ''vulpes'', ''red fox'']\<rparr>
   \<and> length (line_parts \<lparr>row_latin = ''vulpes'', row_common = ''fox'',
        line_parts = [''g3'', ''Mammalia'', ''Carnivora'', ''Canidae'', ''Vulpes'', [], ''fox'']\<rparr>) \<ge> 7
   \<and> load_lines [''g9;;;;;;nothing''] empty_taxonomy = empty_taxonomy"
proof -
  have h0: "[''g2'', ''Mammalia'', ''Carnivora'', ''Canidae'', [], [], ''canids''] = split_char CHR '';'' [] (strip ''g2;Mammalia;Carnivora;Canidae;;;canids'') \<and> length [''g2'', ''Mammalia'', ''Carnivora'', ''Canidae'', [], [], ''canids''] \<ge> 7
         \<and> (([''g2'', ''Mammalia'', ''Carnivora'', ''Canidae'', [], [], ''canids''] ! 5 \<noteq> [] \<and> ''canidae'' = lower ([''g2'', ''Mammalia'', ''Carnivora'', ''Canidae'', [], [], ''canids''] ! 4 @ '' '' @ [''g2'', ''Mammalia'', ''Carnivora'', ''Canidae'', [], [], ''canids''] ! 5))
            \<or> ([''g2'', ''Mammalia'', ''Carnivora'', ''Canidae'', [], [], ''canids''] ! 5 = [] \<and> [''g2'', ''Mammalia'', ''Carnivora'', ''Canidae'', [], [], ''canids''] ! 4 \<noteq> [] \<and> ''canidae'' = lower ([''g2'', ''Mammalia'', ''Carnivora'', ''Canidae'', [], [], ''canids''] ! 4))
            \<or> ([''g2'', ''Mammalia'', ''Carnivora'', ''Canidae'', [], [], ''canids''] ! 5 = [] \<and> [''g2'', ''Mammalia'', ''Carnivora'', ''Canidae'', [], [], ''canids''] ! 4 = [] \<and> [''g2'', ''Mammalia'', ''Carnivora'', ''Canidae'', [], [], ''canids''] ! 3 \<noteq> [] \<and> ''canidae'' = lower ([''g2'', ''Mammalia'', ''Carnivora'', ''Canidae'', [], [], ''canids''] ! 3))
            \<or> ([''g2'', ''Mammalia'', ''Carnivora'', ''Canidae'', [], [], ''canids''] ! 5 = [] \<and> [''g2'', ''Mammalia'', ''Carnivora'', ''Canidae'', [], [], ''canids''] ! 4 = [] \<and> [''g2'', ''Mammalia'', ''Carnivora'', ''Canidae'', [], [], ''canids''] ! 3 = [] \<and> [''g2'', ''Mammalia'', ''Carnivora'', ''Canidae'', [], [], ''canids''] ! 2 \<noteq> []
                \<and> ''canidae'' = lower ([''g2'', ''Mammalia'', ''Carnivora'', ''Canidae'', [], [], ''canids''] ! 2))
            \<or> ([''g2'', ''Mammalia'', ''Carnivora'', ''Canidae'', [], [], ''canids''] ! 5 = [] \<and> [''g2'', ''Mammalia'', ''Carnivora'', ''Canidae'', [], [], ''canids''] ! 4 = [] \<and> [''g2'', ''Mammalia'', ''Carnivora'', ''Canidae'', [], [], ''canids''] ! 3 = [] \<and> [''g2'', ''Mammalia'', ''Carnivora'', ''Canidae'', [], [], ''canids''] ! 2 = []
                \<and> [''g2'', ''Mammalia'', ''Carnivora'', ''Canidae'', [], [], ''canids''] ! 1 \<noteq> [] \<and> ''canidae'' = lower ([''g2'', ''Mammalia'', ''Carnivora'', ''Canidae'', [], [], ''canids''] ! 1)))"
    by code_simp
  from load_latin_name [THEN conjunct2, THEN spec, THEN spec, THEN spec, THEN spec, THEN spec,
      THEN mp, OF h0, of "[''g4;Mammalia;Carnivora;Canidae;Vulpes;vulpes;red fox'']" "[]"]
  obtain x0 where a0: "latin_to_row (load (Some ([''g4;Mammalia;Carnivora;Canidae;Vulpes;vulpes;red fox''] @ ''g2;Mammalia;Carnivora;Canidae;;;canids'' # []))) ''canidae'' = Some x0"
    and b0: "x0 = \<lparr>row_latin = ''canidae'', row_common = [''g2'', ''Mammalia'', ''Carnivora'', ''Canidae'', [], [], ''canids''] ! 6,
        line_parts = [''g2'', ''Mammalia'', ''Carnivora'', ''Canidae'', [], [], ''canids'']\<rparr>
        \<or> (\<exists>r \<in> set []. line_parts x0 = split_char CHR '';'' [] (strip r))"
    by blast
  from b0 have c0: "x0 = \<lparr>row_latin = ''canidae'', row_common = ''canids'',
        line_parts = [''g2'', ''Mammalia'', ''Carnivora'', ''Canidae'', [], [], ''canids'']\<rparr>"
    by simp
  have r0: "latin_to_row (load (Some [''g4;Mammalia;Carnivora;Canidae;Vulpes;vulpes;red fox'', ''g2;Mammalia;Carnivora;Canidae;;;canids''])) ''canidae''
     = Some \<lparr>row_latin = ''canidae'', row_common = ''canids'',
        line_parts = [''g2'', ''Mammalia'', ''Carnivora'', ''Canidae'', [], [], ''canids'']\<rparr>"
    using a0 unfolding c0 by (simp only: append.simps)
  have h1: "[''g1'', ''Mammalia'', ''Carnivora'', [], [], [], ''carnivores''] = split_char CHR '';'' [] (strip ''g1;Mammalia;Carnivora;;;;carnivores'') \<and> length [''g1'', ''Mammalia'', ''Carnivora'', [], [], [], ''carnivores''] \<ge> 7
         \<and> (([''g1'', ''Mammalia'', ''Carnivora'', [], [], [], ''carnivores''] ! 5 \<noteq> [] \<and> ''carnivora'' = lower ([''g1'', ''Mammalia'', ''Carnivora'', [], [], [], ''carnivores''] ! 4 @ '' '' @ [''g1'', ''Mammalia'', ''Carnivora'', [], [], [], ''carnivores''] ! 5))
            \<or> ([''g1'', ''Mammalia'', ''Carnivora'', [], [], [], ''carnivores''] ! 5 = [] \<and> [''g1'', ''Mammalia'', ''Carnivora'', [], [], [], ''carnivores''] ! 4 \<noteq> [] \<and> ''carnivora'' = lower ([''g1'', ''Mammalia'', ''Carnivora'', [], [], [], ''carnivores''] ! 4))
            \<or> ([''g1'', ''Mammalia'', ''Carnivora'', [], [], [], ''carnivores''] ! 5 = [] \<and> [''g1'', ''Mammalia'', ''Carnivora'', [], [], [], ''carnivores''] ! 4 = [] \<and> [''g1'', ''Mammalia'', ''Carnivora'', [], [], [], ''carnivores''] ! 3 \<noteq> [] \<and> ''carnivora'' = lower ([''g1'', ''Mammalia'', ''Carnivora'', [], [], [], ''carnivores''] ! 3))
            \<or> ([''g1'', ''Mammalia'', ''Carnivora'', [], [], [], ''carnivores''] ! 5 = [] \<and> [''g1'', ''Mammalia'', ''Carnivora'', [], [], [], ''carnivores''] ! 4 = [] \<and> [''g1'', ''Mammalia'', ''Carnivora'', [], [], [], ''carnivores''] ! 3 = [] \<and> [''g1'', ''Mammalia'', ''Carnivora'', [], [], [], ''carnivores''] ! 2 \<noteq> []
                \<and> ''carnivora'' = lower ([''g1'', ''Mammalia'', ''Carnivora'', [], [], [], ''carnivores''] ! 2))
            \<or> ([''g1'', ''Mammalia'', ''Carnivora'', [], [], [], ''carnivores''] ! 5 = [] \<and> [''g1'', ''Mammalia'', ''Carnivora'', [], [], [], ''carnivores''] ! 4 = [] \<and> [''g1'', ''Mammalia'', ''Carnivora'', [], [], [], ''carnivores''] ! 3 = [] \<and> [''g1'', ''Mammalia'', ''Carnivora'', [], [], [], ''carnivores''] ! 2 = []
                \<and> [''g1'', ''Mammalia'', ''Carnivora'', [], [], [], ''carnivores''] ! 1 \<noteq> [] \<and> ''carnivora'' = lower ([''g1'', ''Mammalia'', ''Carnivora'', [], [], [], ''carnivores''] ! 1)))"
    by code_simp
  from load_latin_name [THEN conjunct2, THEN spec, THEN spec, THEN spec, THEN spec, THEN spec,
      THEN mp, OF h1, of "[]" "[]"]
  obtain x1 where a1: "latin_to_row (load (Some ([] @ ''g1;Mammalia;Carnivora;;;;carnivores'' # []))) ''carnivora'' = Some x1"
    and b1: "x1 = \<lparr>row_latin = ''carnivora'', row_common = [''g1'', ''Mammalia'', ''Carnivora'', [], [], [], ''carnivores''] ! 6,
        line_parts = [''g1'', ''Mammalia'', ''Carnivora'', [], [], [], ''carnivores'']\<rparr>
        \<or> (\<exists>r \<in> set []. line_parts x1 = split_char CHR '';'' [] (strip r))"
    by blast
  from b1 have c1: "x1 = \<lparr>row_latin = ''carnivora'', row_common = ''carnivores'',
        line_parts = [''g1'', ''Mammalia'', ''Carnivora'', [], [], [], ''carnivores'']\<rparr>"
    by simp
  have r1: "latin_to_row (load (Some [''g1;Mammalia;Carnivora;;;;carnivores''])) ''carnivora''
     = Some \<lparr>row_latin = ''carnivora'', row_common = ''carnivores'',
        line_parts = [''g1'', ''Mammalia'', ''Carnivora'', [], [], [], ''carnivores'']\<rparr>"
    using a1 unfolding c1 by (simp only: append.simps)
  have h2: "[''g0'', ''Mammalia'', [], [], [], [], ''mammals''] = split_char CHR '';'' [] (strip ''g0;Mammalia;;;;;mammals'') \<and> length [''g0'', ''Mammalia'', [], [], [], [], ''mammals''] \<ge> 7
         \<and> (([''g0'', ''Mammalia'', [], [], [], [], ''mammals''] ! 5 \<noteq> [] \<and> ''mammalia'' = lower ([''g0'', ''Mammalia'', [], [], [], [], ''mammals''] ! 4 @ '' '' @ [''g0'', ''Mammalia'', [], [], [], [], ''mammals''] ! 5))
            \<or> ([''g0'', ''Mammalia'', [], [], [], [], ''mammals''] ! 5 = [] \<and> [''g0'', ''Mammalia'', [], [], [], [], ''mammals''] ! 4 \<noteq> [] \<and> ''mammalia'' = lower ([''g0'', ''Mammalia'', [], [], [], [], ''mammals''] ! 4))
            \<or> ([''g0'', ''Mammalia'', [], [], [], [], ''mammals''] ! 5 = [] \<and> [''g0'', ''Mammalia'', [], [], [], [], ''mammals''] ! 4 = [] \<and> [''g0'', ''Mammalia'', [], [], [], [], ''mammals''] ! 3 \<noteq> [] \<and> ''mammalia'' = lower ([''g0'', ''Mammalia'', [], [], [], [], ''mammals''] ! 3))
            \<or> ([''g0'', ''Mammalia'', [], [], [], [], ''mammals''] ! 5 = [] \<and> [''g0'', ''Mammalia'', [], [], [], [], ''mammals''] ! 4 = [] \<and> [''g0'', ''Mammalia'', [], [], [], [], ''mammals''] ! 3 = [] \<and> [''g0'', ''Mammalia'', [], [], [], [], ''mammals''] ! 2 \<noteq> []
                \<and> ''mammalia'' = lower ([''g0'', ''Mammalia'', [], [], [], [], ''mammals''] ! 2))
            \<or> ([''g0'', ''Mammalia'', [], [], [], [], ''mammals''] ! 5 = [] \<and> [''g0'', ''Mammalia'', [], [], [], [], ''mammals''] ! 4 = [] \<and> [''g0'', ''Mammalia'', [], [], [], [], ''mammals''] ! 3 = [] \<and> [''g0'', ''Mammalia'', [], [], [], [], ''mammals''] ! 2 = []
                \<and> [''g0'', ''Mammalia'', [], [], [], [], ''mammals''] ! 1 \<noteq> [] \<and> ''mammalia'' = lower ([''g0'', ''Mammalia'', [], [], [], [], ''mammals''] ! 1)))"
    by code_simp
  from load_latin_name [THEN conjunct2, THEN spec, THEN spec, THEN spec, THEN spec, THEN spec,
      THEN mp, OF h2, of "[]" "[]"]
  obtain x2 where a2: "latin_to_row (load (Some ([] @ ''g0;Mammalia;;;;;mammals'' # []))) ''mammalia'' = Some x2"
    and b2: "x2 = \<lparr>row_latin = ''mammalia'', row_common = [''g0'', ''Mammalia'', [], [], [], [], ''mammals''] ! 6,
        line_parts = [''g0'', ''Mammalia'', [], [], [], [], ''mammals'']\<rparr>
        \<or> (\<exists>r \<in> set []. line_parts x2 = split_char CHR '';'' [] (strip r))"
    by blast
  from b2 have c2: "x2 = \<lparr>row_latin = ''mammalia'', row_common = ''mammals'',
        line_parts = [''g0'', ''Mammalia'', [], [], [], [], ''mammals'']\<rparr>"
    by simp
  have r2: "latin_to_row (load (Some [''g0;Mammalia;;;;;mammals''])) ''mammalia''
     = Some \<lparr>row_latin = ''mammalia'', row_common = ''mammals'',
        line_parts = [''g0'', ''Mammalia'', [], [], [], [], ''mammals'']\<rparr>"
    using a2 unfolding c2 by (simp only: append.simps)
  have h3: "[''g3'', ''Mammalia'', ''Carnivora'', ''Canidae'', ''Vulpes'', [], ''fox''] = split_char CHR '';'' [] (strip ''g3;Mammalia;Carnivora;Canidae;Vulpes;;fox'') \<and> length [''g3'', ''Mammalia'', ''Carnivora'', ''Canidae'', ''Vulpes'', [], ''fox''] \<ge> 7
         \<and> (([''g3'', ''Mammalia'', ''Carnivora'', ''Canidae'', ''Vulpes'', [], ''fox''] ! 5 \<noteq> [] \<and> ''vulpes'' = lower ([''g3'', ''Mammalia'', ''Carnivora'', ''Canidae'', ''Vulpes'', [], ''fox''] ! 4 @ '' '' @ [''g3'', ''Mammalia'', ''Carnivora'', ''Canidae'', ''Vulpes'', [], ''fox''] ! 5))
            \<or> ([''g3'', ''Mammalia'', ''Carnivora'', ''Canidae'', ''Vulpes'', [], ''fox''] ! 5 = [] \<and> [''g3'', ''Mammalia'', ''Carnivora'', ''Canidae'', ''Vulpes'', [], ''fox''] ! 4 \<noteq> [] \<and> ''vulpes'' = lower ([''g3'', ''Mammalia'', ''Carnivora'', ''Canidae'', ''Vulpes'', [], ''fox''] ! 4))
            \<or> ([''g3'', ''Mammalia'', ''Carnivora'', ''Canidae'', ''Vulpes'', [], ''fox''] ! 5 = [] \<and> [''g3'', ''Mammalia'', ''Carnivora'', ''Canidae'', ''Vulpes'', [], ''fox''] ! 4 = [] \<and> [''g3'', ''Mammalia'', ''Carnivora'', ''Canidae'', ''Vulpes'', [], ''fox''] ! 3 \<noteq> [] \<and> ''vulpes'' = lower ([''g3'', ''Mammalia'', ''Carnivora'', ''Canidae'', ''Vulpes'', [], ''fox''] ! 3))
            \<or> ([''g3'', ''Mammalia'', ''Carnivora'', ''Canidae'', ''Vulpes'', [], ''fox''] ! 5 = [] \<and> [''g3'', ''Mammalia'', ''Carnivora'', ''Canidae'', ''Vulpes'', [], ''fox''] ! 4 = [] \<and> [''g3'', ''Mammalia'', ''Carnivora'', ''Canidae'', ''Vulpes'', [], ''fox''] ! 3 = [] \<and> [''g3'', ''Mammalia'', ''Carnivora'', ''Canidae'', ''Vulpes'', [], ''fox''] ! 2 \<noteq> []
                \<and> ''vulpes'' = lower ([''g3'', ''Mammalia'', ''Carnivora'', ''Canidae'', ''Vulpes'', [], ''fox''] ! 2))
            \<or> ([''g3'', ''Mammalia'', ''Carnivora'', ''Canidae'', ''Vulpes'', [], ''fox''] ! 5 = [] \<and> [''g3'', ''Mammalia'', ''Carnivora'', ''Canidae'', ''Vulpes'', [], ''fox''] ! 4 = [] \<and> [''g3'', ''Mammalia'', ''Carnivora'', ''Canidae'', ''Vulpes'', [], ''fox''] ! 3 = [] \<and> [''g3'', ''Mammalia'', ''Carnivora'', ''Canidae'', ''Vulpes'', [], ''fox''] ! 2 = []
                \<and> [''g3'', ''Mammalia'', ''Carnivora'', ''Canidae'', ''Vulpes'', [], ''fox''] ! 1 \<noteq> [] \<and> ''vulpes'' = lower ([''g3'', ''Mammalia'', ''Carnivora'', ''Canidae'', ''Vulpes'', [], ''fox''] ! 1)))"
    by code_simp
  from load_latin_name [THEN conjunct2, THEN spec, THEN spec, THEN spec, THEN spec, THEN spec,
      THEN mp, OF h3, of "[''g4;Mammalia;Carnivora;Canidae;Vulpes;vulpes;red fox'']" "[]"]
  obtain x3 where a3: "latin_to_row (load (Some ([''g4;Mammalia;Carnivora;Canidae;Vulpes;vulpes;red fox''] @ ''g3;Mammalia;Carnivora;Canidae;Vulpes;;fox'' # []))) ''vulpes'' = Some x3"
    and b3: "x3 = \<lparr>row_latin = ''vulpes'', row_common = [''g3'', ''Mammalia'', ''Carnivora'', ''Canidae'', ''Vulpes'', [], ''fox''] ! 6,
        line_parts = [''g3'', ''Mammalia'', ''Carnivora'', ''Canidae'', ''Vulpes'', [], ''fox'']\<rparr>
        \<or> (\<exists>r \<in> set []. line_parts x3 = split_char CHR '';'' [] (strip r))"
    by blast
  from b3 have c3: "x3 = \<lparr>row_latin = ''vulpes'', row_common = ''fox'',
        line_parts = [''g3'', ''Mammalia'', ''Carnivora'', ''Canidae'', ''Vulpes'', [], ''fox'']\<rparr>"
    by simp
  have r3: "latin_to_row (load (Some [''g4;Mammalia;Carnivora;Canidae;Vulpes;vulpes;red fox'', ''g3;Mammalia;Carnivora;Canidae;Vulpes;;fox''])) ''vulpes''
     = Some \<lparr>row_latin = ''vulpes'', row_common = ''fox'',
        line_parts = [''g3'', ''Mammalia'', ''Carnivora'', ''Canidae'', ''Vulpes'', [], ''fox'']\<rparr>"
    using a3 unfolding c3 by (simp only: append.simps)
  have h4: "[''g4'', ''Mammalia'', ''Carnivora'', ''Canidae'', ''Vulpes'', ''vulpes'', ''red fox''] = split_char CHR '';'' [] (strip ''g4;Mammalia;Carnivora;Canidae;Vulpes;vulpes;red fox'') \<and> length [''g4'', ''Mammalia'', ''Carnivora'', ''Canidae'', ''Vulpes'', ''vulpes'', ''red fox''] \<ge> 7
         \<and> (([''g4'', ''Mammalia'', ''Carnivora'', ''Canidae'', ''Vulpes'', ''vulpes'', ''red fox''] ! 5 \<noteq> [] \<and> ''vulpes vulpes'' = lower ([''g4'', ''Mammalia'', ''Carnivora'', ''Canidae'', ''Vulpes'', ''vulpes'', ''red fox''] ! 4 @ '' '' @ [''g4'', ''Mammalia'', ''Carnivora'', ''Canidae'', ''Vulpes'', ''vulpes'', ''red fox''] ! 5))
            \<or> ([''g4'', ''Mammalia'', ''Carnivora'', ''Canidae'', ''Vulpes'', ''vulpes'', ''red fox''] ! 5 = [] \<and> [''g4'', ''Mammalia'', ''Carnivora'', ''Canidae'', ''Vulpes'', ''vulpes'', ''red fox''] ! 4 \<noteq> [] \<and> ''vulpes vulpes'' = lower ([''g4'', ''Mammalia'', ''Carnivora'', ''Canidae'', ''Vulpes'', ''vulpes'', ''red fox''] ! 4))
            \<or> ([''g4'', ''Mammalia'', ''Carnivora'', ''Canidae'', ''Vulpes'', ''vulpes'', ''red fox''] ! 5 = [] \<and> [''g4'', ''Mammalia'', ''Carnivora'', ''Canidae'', ''Vulpes'', ''vulpes'', ''red fox''] ! 4 = [] \<and> [''g4'', ''Mammalia'', ''Carnivora'', ''Canidae'', ''Vulpes'', ''vulpes'', ''red fox''] ! 3 \<noteq> [] \<and> ''vulpes vulpes'' = lower ([''g4'', ''Mammalia'', ''Carnivora'', ''Canidae'', ''Vulpes'', ''vulpes'', ''red fox''] ! 3))
            \<or> ([''g4'', ''Mammalia'', ''Carnivora'', ''Canidae'', ''Vulpes'', ''vulpes'', ''red fox''] ! 5 = [] \<and> [''g4'', ''Mammalia'', ''Carnivora'', ''Canidae'', ''Vulpes'', ''vulpes'', ''red fox''] ! 4 = [] \<and> [''g4'', ''Mammalia'', ''Carnivora'', ''Canidae'', ''Vulpes'', ''vulpes'', ''red fox''] ! 3 = [] \<and> [''g4'', ''Mammalia'', ''Carnivora'', ''Canidae'', ''Vulpes'', ''vulpes'', ''red fox''] ! 2 \<noteq> []
                \<and> ''vulpes vulpes'' = lower ([''g4'', ''Mammalia'', ''Carnivora'', ''Canidae'', ''Vulpes'', ''vulpes'', ''red fox''] ! 2))
            \<or> ([''g4'', ''Mammalia'', ''Carnivora'', ''Canidae'', ''Vulpes'', ''vulpes'', ''red fox''] ! 5 = [] \<and> [''g4'', ''Mammalia'', ''Carnivora'', ''Canidae'', ''Vulpes'', ''vulpes'', ''red fox''] ! 4 = [] \<and> [''g4'', ''Mammalia'', ''Carnivora'', ''Canidae'', ''Vulpes'', ''vulpes'', ''red fox''] ! 3 = [] \<and> [''g4'', ''Mammalia'', ''Carnivora'', ''Canidae'', ''Vulpes'', ''vulpes'', ''red fox''] ! 2 = []
                \<and> [''g4'', ''Mammalia'', ''Carnivora'', ''Canidae'', ''Vulpes'', ''vulpes'', ''red fox''] ! 1 \<noteq> [] \<and> ''vulpes vulpes'' = lower ([''g4'', ''Mammalia'', ''Carnivora'', ''Canidae'', ''Vulpes'', ''vulpes'', ''red fox''] ! 1)))"
    by code_simp
  from load_latin_name [THEN conjunct2, THEN spec, THEN spec, THEN spec, THEN spec, THEN spec,
      THEN mp, OF h4, of "[''g3;Mammalia;Carnivora;Canidae;Vulpes;;fox'']" "[]"]
  obtain x4 where a4: "latin_to_row (load (Some ([''g3;Mammalia;Carnivora;Canidae;Vulpes;;fox''] @ ''g4;Mammalia;Carnivora;Canidae;Vulpes;vulpes;red fox'' # []))) ''vulpes vulpes'' = Some x4"
    and b4: "x4 = \<lparr>row_latin = ''vulpes vulpes'', row_common = [''g4'', ''Mammalia'', ''Carnivora'', ''Canidae'', ''Vulpes'', ''vulpes'', ''red fox''] ! 6,
        line_parts = [''g4'', ''Mammalia'', ''Carnivora'', ''Canidae'', ''Vulpes'', ''vulpes'', ''red fox'']\<rparr>
        \<or> (\<exists>r \<in> set []. line_parts x4 = split_char CHR '';'' [] (strip r))"
    by blast
  from b4 have c4: "x4 = \<lparr>row_latin = ''vulpes vulpes'', row_common = ''red fox'',
        line_parts = [''g4'', ''Mammalia'', ''Carnivora'', ''Canidae'', ''Vulpes'', ''vulpes'', ''red fox'']\<rparr>"
    by simp
  have r4: "latin_to_row (load (Some [''g3;Mammalia;Carnivora;Canidae;Vulpes;;fox'', ''g4;Mammalia;Carnivora;Canidae;Vulpes;vulpes;red fox''])) ''vulpes vulpes''
     = Some \<lparr>row_latin = ''vulpes vulpes'', row_common = ''red fox'',
        line_parts = [''g4'', ''Mammalia'', ''Carnivora'', ''Canidae'', ''Vulpes'', ''vulpes'', ''red fox'']\<rparr>"
    using a4 unfolding c4 by (simp only: append.simps)
  have "latin_to_row (load (Some [''g4;Mammalia;Carnivora;Canidae;Vulpes;vulpes;red fox'', ''g3;Mammalia;Carnivora;Canidae;Vulpes;;fox''])) ''vulpes'' = Some \<lparr>row_latin = ''vulpes'', row_common = ''fox'',
        line_parts = [''g3'', ''Mammalia'', ''Carnivora'', ''Canidae'', ''Vulpes'', [], ''fox'']\<rparr>"
    by code_simp
  then have "\<lparr>row_latin = ''vulpes'', row_common = ''fox'',
        line_parts = [''g3'', ''Mammalia'', ''Carnivora'', ''Canidae'', ''Vulpes'', [], ''fox'']\<rparr> \<in> ran (latin_to_row (load (Some [''g4;Mammalia;Carnivora;Canidae;Vulpes;vulpes;red fox'', ''g3;Mammalia;Carnivora;Canidae;Vulpes;;fox''])))"
    by (rule ranI)
  then have m: "\<lparr>row_latin = ''vulpes'', row_common = ''fox'',
        line_parts = [''g3'', ''Mammalia'', ''Carnivora'', ''Canidae'', ''Vulpes'', [], ''fox'']\<rparr> \<in> ran (latin_to_row (load (Some [''g4;Mammalia;Carnivora;Canidae;Vulpes;vulpes;red fox'', ''g3;Mammalia;Carnivora;Canidae;Vulpes;;fox'']))) \<union> ran (common_to_row (load (Some [''g4;Mammalia;Carnivora;Canidae;Vulpes;vulpes;red fox'', ''g3;Mammalia;Carnivora;Canidae;Vulpes;;fox''])))"
    by (rule UnI1)
  have len: "length (line_parts \<lparr>row_latin = ''vulpes'', row_common = ''fox'',
        line_parts = [''g3'', ''Mammalia'', ''Carnivora'', ''Canidae'', ''Vulpes'', [], ''fox'']\<rparr>) \<ge> 7"
    using load_latin_name [THEN conjunct1, THEN mp, OF m, THEN conjunct2] by (rule conjunct1)
  have parts: "[''g9'', [], [], [], [], [], ''nothing''] = split_char CHR '';'' [] (strip ''g9;;;;;;nothing'')
      \<and> length [''g9'', [], [], [], [], [], ''nothing''] \<ge> 7
      \<and> [''g9'', [], [], [], [], [], ''nothing''] ! 1 = [] \<and> [''g9'', [], [], [], [], [], ''nothing''] ! 2 = []
      \<and> [''g9'', [], [], [], [], [], ''nothing''] ! 3 = [] \<and> [''g9'', [], [], [], [], [], ''nothing''] ! 4 = []
      \<and> [''g9'', [], [], [], [], [], ''nothing''] ! 5 = []"
    by code_simp
  have "load_lines (''g9;;;;;;nothing'' # []) empty_taxonomy = load_lines [] empty_taxonomy"
    using load_latin_name [THEN conjunct1, THEN mp, OF m, THEN conjunct2, THEN conjunct2,
        THEN conjunct2, THEN conjunct2, THEN conjunct2, THEN conjunct2, THEN conjunct2,
        THEN conjunct2, THEN conjunct2, THEN spec, THEN spec, THEN spec, THEN spec, THEN mp,
        OF parts] .
  then have skip: "load_lines [''g9;;;;;;nothing''] empty_taxonomy = empty_taxonomy"
    by (simp only: load_lines.simps)
  from r0 r1 r2 r3 r4 len skip show ?thesis by (intro conjI)
qed


section \<open>The hierarchical lookup returns the first hit\<close>

lemma lookup_species_Some_iff:
  "(lookup_species t g' s' = Some e) =
     (\<exists>gs ss. g' = Some gs \<and> s' = Some ss \<and> gs \<noteq> [] \<and> ss \<noteq> []
              \<and> get_by_latin t (gs @ '' '' @ ss) = Some e)"
  by (cases g'; cases s') (simp_all add: lookup_species_def)

lemma lookup_species_None_iff:
  "(lookup_species t g' s' = None) =
     (\<forall>gs ss. g' = Some gs \<and> s' = Some ss \<and> gs \<noteq> [] \<and> ss \<noteq> []
              \<longrightarrow> get_by_latin t (gs @ '' '' @ ss) = None)"
  by (cases g'; cases s') (simp_all add: lookup_species_def)

lemma lookup_rank_Some_iff:
  "(lookup_rank t v = Some e) = (\<exists>x. v = Some x \<and> x \<noteq> [] \<and> get_by_latin t x = Some e)"
  by (cases v) (simp_all add: lookup_rank_def)

lemma lookup_rank_None_iff:
  "(lookup_rank t v = None) = (\<forall>x. v = Some x \<and> x \<noteq> [] \<longrightarrow> get_by_latin t x = None)"
  by (cases v) (simp_all add: lookup_rank_def)

lemma walk_ranks_family:
  "lookup_species t g s = None \<Longrightarrow> lookup_rank t g = None \<Longrightarrow> lookup_rank t f = Some e \<Longrightarrow>
     walk_ranks t c ord f g s = (Some e, Some ''family'')"
  by (simp add: walk_ranks_def)

lemma walk_ranks_order:
  "lookup_species t g s = None \<Longrightarrow> lookup_rank t g = None \<Longrightarrow> lookup_rank t f = None \<Longrightarrow>
   lookup_rank t ord = Some e \<Longrightarrow> walk_ranks t c ord f g s = (Some e, Some ''order'')"
  by (simp add: walk_ranks_def)

lemma walk_ranks_class:
  "lookup_species t g s = None \<Longrightarrow> lookup_rank t g = None \<Longrightarrow> lookup_rank t f = None \<Longrightarrow>
   lookup_rank t ord = None \<Longrightarrow> lookup_rank t c = Some e \<Longrightarrow>
     walk_ranks t c ord f g s = (Some e, Some ''class'')"
  by (simp add: walk_ranks_def)

lemma walk_ranks_none:
  "lookup_species t g s = None \<Longrightarrow> lookup_rank t g = None \<Longrightarrow> lookup_rank t f = None \<Longrightarrow>
   lookup_rank t ord = None \<Longrightarrow> lookup_rank t c = None \<Longrightarrow>
     walk_ranks t c ord f g s = (None, None)"
  by (simp add: walk_ranks_def)

lemma norm_rank_JStr:
  "norm_rank (JStr x) = Inr (if x = [] then None else Some (strip (lower x)))"
  by (simp add: norm_rank_def)

lemma norm_rank_JNull: "norm_rank JNull = Inr None"
  by (simp add: norm_rank_def)

text \<open>
  Claim C1 says that a call which supplies a species never returns a genus-level match.
  \<open>get_by_hierarchy\<close> walks on to the genus after the lookup of \<open>"<genus> <species>"\<close> has
  missed: with the single row \<open>g2;Mammalia;Carnivora;Canidae;Vulpes;;fox\<close>, genus
  \<open>"Vulpes"\<close> and species \<open>"velox"\<close> give the genus entry at level \<open>genus\<close>.
\<close>

theorem hierarchy_counterexample:
  "get_by_hierarchy (load (Some [''g2;Mammalia;Carnivora;Canidae;Vulpes;;fox'']))
       JNull JNull JNull (JStr ''Vulpes'') (JStr ''velox'')
     = Inr (Some \<lparr>row_latin = ''vulpes'', row_common = ''fox'',
               line_parts = [''g2'', ''Mammalia'', ''Carnivora'', ''Canidae'', ''Vulpes'', [], ''fox'']\<rparr>,
            Some ''genus'')"
  by code_simp

text \<open>
  Claim C1, as amended. A rank field that is absent or empty is not tried; a string is
  lowercased and trimmed first. Let the five arguments normalise without an exception. The
  result is the first hit in the order species, genus, family, order, class:
  if genus and species are both non-empty and \<open>"<genus> <species>"\<close> is in the table, that
  entry at level \<open>species\<close>; if that lookup misses or is not tried and the genus is non-empty
  and in the table, the genus entry at level \<open>genus\<close>; failing that the family entry at level
  \<open>family\<close>, then the order entry at level \<open>order\<close>, then the class entry at level \<open>class\<close>,
  each returned whenever every finer lookup has missed; and \<open>(None, None)\<close> when no lookup
  hits. Conversely an entry returned at some level is the hit of that rank's lookup, and
  the lookups of all finer ranks have missed.
\<close>

theorem hierarchy_first_hit:
  assumes "norm_rank c = Inr c'" and "norm_rank ord = Inr o'" and "norm_rank f = Inr f'"
    and "norm_rank g = Inr g'" and "norm_rank s = Inr s'"
  shows
    "(\<forall>x. norm_rank (JStr x) = Inr (if x = [] then None else Some (strip (lower x))))
     \<and> norm_rank JNull = Inr None
     \<and> (\<forall>e. (\<exists>gs ss. g' = Some gs \<and> s' = Some ss \<and> gs \<noteq> [] \<and> ss \<noteq> []
              \<and> get_by_latin t (gs @ '' '' @ ss) = Some e)
        \<longrightarrow> get_by_hierarchy t c ord f g s = Inr (Some e, Some ''species''))
     \<and> (\<forall>e. (\<forall>gs ss. g' = Some gs \<and> s' = Some ss \<and> gs \<noteq> [] \<and> ss \<noteq> []
              \<longrightarrow> get_by_latin t (gs @ '' '' @ ss) = None)
          \<and> (\<exists>x. g' = Some x \<and> x \<noteq> [] \<and> get_by_latin t x = Some e)
        \<longrightarrow> get_by_hierarchy t c ord f g s = Inr (Some e, Some ''genus''))
     \<and> (\<forall>e. (\<forall>gs ss. g' = Some gs \<and> s' = Some ss \<and> gs \<noteq> [] \<and> ss \<noteq> []
              \<longrightarrow> get_by_latin t (gs @ '' '' @ ss) = None)
          \<and> (\<forall>x. g' = Some x \<and> x \<noteq> [] \<longrightarrow> get_by_latin t x = None)
          \<and> (\<exists>x. f' = Some x \<and> x \<noteq> [] \<and> get_by_latin t x = Some e)
        \<longrightarrow> get_by_hierarchy t c ord f g s = Inr (Some e, Some ''family''))
     \<and> (\<forall>e. (\<forall>gs ss. g' = Some gs \<and> s' = Some ss \<and> gs \<noteq> [] \<and> ss \<noteq> []
              \<longrightarrow> get_by_latin t (gs @ '' '' @ ss) = None)
          \<and> (\<forall>x. g' = Some x \<and> x \<noteq> [] \<longrightarrow> get_by_latin t x = None)
          \<and> (\<forall>x. f' = Some x \<and> x \<noteq> [] \<longrightarrow> get_by_latin t x = None)
          \<and> (\<exists>x. o' = Some x \<and> x \<noteq> [] \<and> get_by_latin t x = Some e)
        \<longrightarrow> get_by_hierarchy t c ord f g s = Inr (Some e, Some ''order''))
     \<and> (\<forall>e. (\<forall>gs ss. g' = Some gs \<and> s' = Some ss \<and> gs \<noteq> [] \<and> ss \<noteq> []
              \<longrightarrow> get_by_latin t (gs @ '' '' @ ss) = None)
          \<and> (\<forall>x. g' = Some x \<and> x \<noteq> [] \<longrightarrow> get_by_latin t x = None)
          \<and> (\<forall>x. f' = Some x \<and> x \<noteq> [] \<longrightarrow> get_by_latin t x = None)
          \<and> (\<forall>x. o' = Some x \<and> x \<noteq> [] \<longrightarrow> get_by_latin t x = None)
          \<and> (\<exists>x. c' = Some x \<and> x \<noteq> [] \<and> get_by_latin t x = Some e)
        \<longrightarrow> get_by_hierarchy t c ord f g s = Inr (Some e, Some ''class''))
     \<and> ((\<forall>gs ss. g' = Some gs \<and> s' = Some ss \<and> gs \<noteq> [] \<and> ss \<noteq> []
              \<longrightarrow> get_by_latin t (gs @ '' '' @ ss) = None)
          \<and> (\<forall>x. g' = Some x \<and> x \<noteq> [] \<longrightarrow> get_by_latin t x = None)
          \<and> (\<forall>x. f' = Some x \<and> x \<noteq> [] \<longrightarrow> get_by_latin t x = None)
          \<and> (\<forall>x. o' = Some x \<and> x \<noteq> [] \<longrightarrow> get_by_latin t x = None)
          \<and> (\<forall>x. c' = Some x \<and> x \<noteq> [] \<longrightarrow> get_by_latin t x = None)
        \<longrightarrow> get_by_hierarchy t c ord f g s = Inr (None, None))
     \<and> (\<forall>e lvl. get_by_hierarchy t c ord f g s = Inr (Some e, lvl) \<longrightarrow>
          (lvl = Some ''species'' \<and> (\<exists>gs ss. g' = Some gs \<and> s' = Some ss \<and> gs \<noteq> [] \<and> ss \<noteq> []
              \<and> get_by_latin t (gs @ '' '' @ ss) = Some e))
          \<or> (lvl = Some ''genus''
            \<and> (\<forall>gs ss. g' = Some gs \<and> s' = Some ss \<and> gs \<noteq> [] \<and> ss \<noteq> []
              \<longrightarrow> get_by_latin t (gs @ '' '' @ ss) = None)
            \<and> (\<exists>x. g' = Some x \<and> x \<noteq> [] \<and> get_by_latin t x = Some e))
          \<or> (lvl = Some ''family''
            \<and> (\<forall>gs ss. g' = Some gs \<and> s' = Some ss \<and> gs \<noteq> [] \<and> ss \<noteq> []
              \<longrightarrow> get_by_latin t (gs @ '' '' @ ss) = None)
            \<and> (\<forall>x. g' = Some x \<and> x \<noteq> [] \<longrightarrow> get_by_latin t x = None)
            \<and> (\<exists>x. f' = Some x \<and> x \<noteq> [] \<and> get_by_latin t x = Some e))
          \<or> (lvl = Some ''order''
            \<and> (\<forall>gs ss. g' = Some gs \<and> s' = Some ss \<and> gs \<noteq> [] \<and> ss \<noteq> []
              \<longrightarrow> get_by_latin t (gs @ '' '' @ ss) = None)
            \<and> (\<forall>x. g' = Some x \<and> x \<noteq> [] \<longrightarrow> get_by_latin t x = None)
            \<and> (\<forall>x. f' = Some x \<and> x \<noteq> [] \<longrightarrow> get_by_latin t x = None)
            \<and> (\<exists>x. o' = Some x \<and> x \<noteq> [] \<and> get_by_latin t x = Some e))
          \<or> (lvl = Some ''class''
            \<and> (\<forall>gs ss. g' = Some gs \<and> s' = Some ss \<and> gs \<noteq> [] \<and> ss \<noteq> []
              \<longrightarrow> get_by_latin t (gs @ '' '' @ ss) = None)
            \<and> (\<forall>x. g' = Some x \<and> x \<noteq> [] \<longrightarrow> get_by_latin t x = None)
            \<and> (\<forall>x. f' = Some x \<and> x \<noteq> [] \<longrightarrow> get_by_latin t x = None)
            \<and> (\<forall>x. o' = Some x \<and> x \<noteq> [] \<longrightarrow> get_by_latin t x = None)
            \<and> (\<exists>x. c' = Some x \<and> x \<noteq> [] \<and> get_by_latin t x = Some e)))"
proof -
  have eq: "get_by_hierarchy t c ord f g s = Inr (walk_ranks t c' o' f' g' s')"
    using assms by (rule get_by_hierarchy_norm)
  have n: "(\<forall>x. norm_rank (JStr x) = Inr (if x = [] then None else Some (strip (lower x))))
     \<and> norm_rank JNull = Inr None"
    by (simp add: norm_rank_JStr norm_rank_JNull)
  have 1: "(\<forall>e. (\<exists>gs ss. g' = Some gs \<and> s' = Some ss \<and> gs \<noteq> [] \<and> ss \<noteq> []
              \<and> get_by_latin t (gs @ '' '' @ ss) = Some e)
        \<longrightarrow> get_by_hierarchy t c ord f g s = Inr (Some e, Some ''species''))"
    unfolding eq lookup_species_Some_iff[symmetric]
    by (simp add: walk_ranks_species)
  have 2: "(\<forall>e. (\<forall>gs ss. g' = Some gs \<and> s' = Some ss \<and> gs \<noteq> [] \<and> ss \<noteq> []
              \<longrightarrow> get_by_latin t (gs @ '' '' @ ss) = None)
          \<and> (\<exists>x. g' = Some x \<and> x \<noteq> [] \<and> get_by_latin t x = Some e)
        \<longrightarrow> get_by_hierarchy t c ord f g s = Inr (Some e, Some ''genus''))"
    unfolding eq lookup_species_None_iff[symmetric] lookup_rank_None_iff[symmetric]
      lookup_rank_Some_iff[symmetric]
    by (simp add: walk_ranks_genus)
  have 3: "(\<forall>e. (\<forall>gs ss. g' = Some gs \<and> s' = Some ss \<and> gs \<noteq> [] \<and> ss \<noteq> []
              \<longrightarrow> get_by_latin t (gs @ '' '' @ ss) = None)
          \<and> (\<forall>x. g' = Some x \<and> x \<noteq> [] \<longrightarrow> get_by_latin t x = None)
          \<and> (\<exists>x. f' = Some x \<and> x \<noteq> [] \<and> get_by_latin t x = Some e)
        \<longrightarrow> get_by_hierarchy t c ord f g s = Inr (Some e, Some ''family''))"
    unfolding eq lookup_species_None_iff[symmetric] lookup_rank_None_iff[symmetric]
      lookup_rank_Some_iff[symmetric]
    by (simp add: walk_ranks_family)
  have 4: "(\<forall>e. (\<forall>gs ss. g' = Some gs \<and> s' = Some ss \<and> gs \<noteq> [] \<and> ss \<noteq> []
              \<longrightarrow> get_by_latin t (gs @ '' '' @ ss) = None)
          \<and> (\<forall>x. g' = Some x \<and> x \<noteq> [] \<longrightarrow> get_by_latin t x = None)
          \<and> (\<forall>x. f' = Some x \<and> x \<noteq> [] \<longrightarrow> get_by_latin t x = None)
          \<and> (\<exists>x. o' = Some x \<and> x \<noteq> [] \<and> get_by_latin t x = Some e)
        \<longrightarrow> get_by_hierarchy t c ord f g s = Inr (Some e, Some ''order''))"
    unfolding eq lookup_species_None_iff[symmetric] lookup_rank_None_iff[symmetric]
      lookup_rank_Some_iff[symmetric]
    by (simp add: walk_ranks_order)
  have 5: "(\<forall>e. (\<forall>gs ss. g' = Some gs \<and> s' = Some ss \<and> gs \<noteq> [] \<and> ss \<noteq> []
              \<longrightarrow> get_by_latin t (gs @ '' '' @ ss) = None)
          \<and> (\<forall>x. g' = Some x \<and> x \<noteq> [] \<longrightarrow> get_by_latin t x = None)
          \<and> (\<forall>x. f' = Some x \<and> x \<noteq> [] \<longrightarrow> get_by_latin t x = None)
          \<and> (\<forall>x. o' = Some x \<and> x \<noteq> [] \<longrightarrow> get_by_latin t x = None)
          \<and> (\<exists>x. c' = Some x \<and> x \<noteq> [] \<and> get_by_latin t x = Some e)
        \<longrightarrow> get_by_hierarchy t c ord f g s = Inr (Some e, Some ''class''))"
    unfolding eq lookup_species_None_iff[symmetric] lookup_rank_None_iff[symmetric]
      lookup_rank_Some_iff[symmetric]
    by (simp add: walk_ranks_class)
  have 6: "((\<forall>gs ss. g' = Some gs \<and> s' = Some ss \<and> gs \<noteq> [] \<and> ss \<noteq> []
              \<longrightarrow> get_by_latin t (gs @ '' '' @ ss) = None)
          \<and> (\<forall>x. g' = Some x \<and> x \<noteq> [] \<longrightarrow> get_by_latin t x = None)
          \<and> (\<forall>x. f' = Some x \<and> x \<noteq> [] \<longrightarrow> get_by_latin t x = None)
          \<and> (\<forall>x. o' = Some x \<and> x \<noteq> [] \<longrightarrow> get_by_latin t x = None)
          \<and> (\<forall>x. c' = Some x \<and> x \<noteq> [] \<longrightarrow> get_by_latin t x = None)
        \<longrightarrow> get_by_hierarchy t c ord f g s = Inr (None, None))"
    unfolding eq lookup_species_None_iff[symmetric] lookup_rank_None_iff[symmetric]
    by (simp add: walk_ranks_none)
  have 7: "(\<forall>e lvl. get_by_hierarchy t c ord f g s = Inr (Some e, lvl) \<longrightarrow>
          (lvl = Some ''species'' \<and> (\<exists>gs ss. g' = Some gs \<and> s' = Some ss \<and> gs \<noteq> [] \<and> ss \<noteq> []
              \<and> get_by_latin t (gs @ '' '' @ ss) = Some e))
          \<or> (lvl = Some ''genus''
            \<and> (\<forall>gs ss. g' = Some gs \<and> s' = Some ss \<and> gs \<noteq> [] \<and> ss \<noteq> []
              \<longrightarrow> get_by_latin t (gs @ '' '' @ ss) = None)
            \<and> (\<exists>x. g' = Some x \<and> x \<noteq> [] \<and> get_by_latin t x = Some e))
          \<or> (lvl = Some ''family''
            \<and> (\<forall>gs ss. g' = Some gs \<and> s' = Some ss \<and> gs \<noteq> [] \<and> ss \<noteq> []
              \<longrightarrow> get_by_latin t (gs @ '' '' @ ss) = None)
            \<and> (\<forall>x. g' = Some x \<and> x \<noteq> [] \<longrightarrow> get_by_latin t x = None)
            \<and> (\<exists>x. f' = Some x \<and> x \<noteq> [] \<and> get_by_latin t x = Some e))
          \<or> (lvl = Some ''order''
            \<and> (\<forall>gs ss. g' = Some gs \<and> s' = Some ss \<and> gs \<noteq> [] \<and> ss \<noteq> []
              \<longrightarrow> get_by_latin t (gs @ '' '' @ ss) = None)
            \<and> (\<forall>x. g' = Some x \<and> x \<noteq> [] \<longrightarrow> get_by_latin t x = None)
            \<and> (\<forall>x. f' = Some x \<and> x \<noteq> [] \<longrightarrow> get_by_latin t x = None)
            \<and> (\<exists>x. o' = Some x \<and> x \<noteq> [] \<and> get_by_latin t x = Some e))
          \<or> (lvl = Some ''class''
            \<and> (\<forall>gs ss. g' = Some gs \<and> s' = Some ss \<and> gs \<noteq> [] \<and> ss \<noteq> []
              \<longrightarrow> get_by_latin t (gs @ '' '' @ ss) = None)
            \<and> (\<forall>x. g' = Some x \<and> x \<noteq> [] \<longrightarrow> get_by_latin t x = None)
            \<and> (\<forall>x. f' = Some x \<and> x \<noteq> [] \<longrightarrow> get_by_latin t x = None)
            \<and> (\<forall>x. o' = Some x \<and> x \<noteq> [] \<longrightarrow> get_by_latin t x = None)
            \<and> (\<exists>x. c' = Some x \<and> x \<noteq> [] \<and> get_by_latin t x = Some e)))"
    unfolding eq lookup_species_None_iff[symmetric] lookup_rank_None_iff[symmetric]
      lookup_rank_Some_iff[symmetric] lookup_species_Some_iff[symmetric]
    using walk_ranks_Some[of t c' o' f' g' s'] by simp
  show ?thesis
    by (rule conjI [OF n [THEN conjunct1] conjI [OF n [THEN conjunct2] conjI [OF 1 conjI [OF 2
        conjI [OF 3 conjI [OF 4 conjI [OF 5 conjI [OF 6 7]]]]]]]])
qed

theorem hierarchy_first_hit_witness:
  "get_by_hierarchy (load (Some [''g0;Mammalia;;;;;mammals'',
        ''g1;Mammalia;Carnivora;;;;carnivores'',
        ''g2;Mammalia;Carnivora;Canidae;;;canids'',
        ''g3;Mammalia;Carnivora;Canidae;Vulpes;;fox'',
        ''g4;Mammalia;Carnivora;Canidae;Vulpes;vulpes;red fox''])) (JStr ''Mammalia'') (JStr ''Carnivora'') (JStr ''Canidae'') (JStr '' Vulpes'') (JStr ''Vulpes '')
     = Inr (Some 
       \<lparr>row_latin = ''vulpes vulpes'', row_common = ''red fox'',
         line_parts = [''g4'', ''Mammalia'', ''Carnivora'', ''Canidae'', ''Vulpes'', ''vulpes'', ''red fox'']\<rparr>, Some ''species'')
   \<and> get_by_hierarchy (load (Some [''g0;Mammalia;;;;;mammals'',
        ''g1;Mammalia;Carnivora;;;;carnivores'',
        ''g2;Mammalia;Carnivora;Canidae;;;canids'',
        ''g3;Mammalia;Carnivora;Canidae;Vulpes;;fox'',
        ''g4;Mammalia;Carnivora;Canidae;Vulpes;vulpes;red fox''])) (JStr ''Mammalia'') (JStr ''Carnivora'') (JStr ''Canidae'') (JStr '' Vulpes'') (JStr ''zerda'')
     = Inr (Some 
       \<lparr>row_latin = ''vulpes'', row_common = ''fox'',
         line_parts = [''g3'', ''Mammalia'', ''Carnivora'', ''Canidae'', ''Vulpes'', [], ''fox'']\<rparr>, Some ''genus'')
   \<and> get_by_hierarchy (load (Some [''g0;Mammalia;;;;;mammals'',
        ''g1;Mammalia;Carnivora;;;;carnivores'',
        ''g2;Mammalia;Carnivora;Canidae;;;canids'',
        ''g3;Mammalia;Carnivora;Canidae;Vulpes;;fox'',
        ''g4;Mammalia;Carnivora;Canidae;Vulpes;vulpes;red fox''])) (JStr ''Mammalia'') (JStr ''Carnivora'') (JStr ''Canidae'') (JStr ''Lycalopex'') (JStr ''culpaeus'')
     = Inr (Some 
       \<lparr>row_latin = ''canidae'', row_common = ''canids'',
         line_parts = [''g2'', ''Mammalia'', ''Carnivora'', ''Canidae'', [], [], ''canids'']\<rparr>, Some ''family'')
   \<and> get_by_hierarchy (load (Some [''g0;Mammalia;;;;;mammals'',
        ''g1;Mammalia;Carnivora;;;;carnivores'',
        ''g2;Mammalia;Carnivora;Canidae;;;canids'',
        ''g3;Mammalia;Carnivora;Canidae;Vulpes;;fox'',
        ''g4;Mammalia;Carnivora;Canidae;Vulpes;vulpes;red fox''])) (JStr ''Mammalia'') (JStr ''Carnivora'') (JStr ''Felidae'') (JStr ''Felis'') (JStr ''catus'')
     = Inr (Some 
       \<lparr>row_latin = ''carnivora'', row_common = ''carnivores'',
         line_parts = [''g1'', ''Mammalia'', ''Carnivora'', [], [], [], ''carnivores'']\<rparr>, Some ''order'')
   \<and> get_by_hierarchy (load (Some [''g0;Mammalia;;;;;mammals'',
        ''g1;Mammalia;Carnivora;;;;carnivores'',
        ''g2;Mammalia;Carnivora;Canidae;;;canids'',
        ''g3;Mammalia;Carnivora;Canidae;Vulpes;;fox'',
        ''g4;Mammalia;Carnivora;Canidae;Vulpes;vulpes;red fox''])) (JStr ''Mammalia'') (JStr ''Rodentia'') (JStr ''Muridae'') JNull (JStr ''musculus'')
     = Inr (Some 
       \<lparr>row_latin = ''mammalia'', row_common = ''mammals'',
         line_parts = [''g0'', ''Mammalia'', [], [], [], [], ''mammals'']\<rparr>, Some ''class'')
   \<and> get_by_hierarchy (load (Some [''g0;Mammalia;;;;;mammals'',
        ''g1;Mammalia;Carnivora;;;;carnivores'',
        ''g2;Mammalia;Carnivora;Canidae;;;canids'',
        ''g3;Mammalia;Carnivora;Canidae;Vulpes;;fox'',
        ''g4;Mammalia;Carnivora;Canidae;Vulpes;vulpes;red fox''])) (JStr ''Aves'') JNull (JStr ''Corvidae'') (JStr ''Corvus'') (JStr ''corax'')
     = Inr (None, None)"
proof -
  define t where "t = load (Some [''g0;Mammalia;;;;;mammals'',
        ''g1;Mammalia;Carnivora;;;;carnivores'',
        ''g2;Mammalia;Carnivora;Canidae;;;canids'',
        ''g3;Mammalia;Carnivora;Canidae;Vulpes;;fox'',
        ''g4;Mammalia;Carnivora;Canidae;Vulpes;vulpes;red fox''])"
  define e0 where "e0 = \<lparr>row_latin = ''mammalia'', row_common = ''mammals'',
         line_parts = [''g0'', ''Mammalia'', [], [], [], [], ''mammals'']\<rparr>"
  define e1 where "e1 = \<lparr>row_latin = ''carnivora'', row_common = ''carnivores'',
         line_parts = [''g1'', ''Mammalia'', ''Carnivora'', [], [], [], ''carnivores'']\<rparr>"
  define e2 where "e2 = \<lparr>row_latin = ''canidae'', row_common = ''canids'',
         line_parts = [''g2'', ''Mammalia'', ''Carnivora'', ''Canidae'', [], [], ''canids'']\<rparr>"
  define e3 where "e3 = \<lparr>row_latin = ''vulpes'', row_common = ''fox'',
         line_parts = [''g3'', ''Mammalia'', ''Carnivora'', ''Canidae'', ''Vulpes'', [], ''fox'']\<rparr>"
  define e4 where "e4 = \<lparr>row_latin = ''vulpes vulpes'', row_common = ''red fox'',
         line_parts = [''g4'', ''Mammalia'', ''Carnivora'', ''Canidae'', ''Vulpes'', ''vulpes'', ''red fox'']\<rparr>"
  have n0: "norm_rank (JStr ''Mammalia'') = Inr (Some ''mammalia'')" by code_simp
  have n1: "norm_rank (JStr ''Carnivora'') = Inr (Some ''carnivora'')" by code_simp
  have n2: "norm_rank (JStr ''Canidae'') = Inr (Some ''canidae'')" by code_simp
  have n3: "norm_rank (JStr '' Vulpes'') = Inr (Some ''vulpes'')" by code_simp
  have n4: "norm_rank (JStr ''Vulpes '') = Inr (Some ''vulpes'')" by code_simp
  have n5: "norm_rank (JStr ''zerda'') = Inr (Some ''zerda'')" by code_simp
  have n6: "norm_rank (JStr ''Lycalopex'') = Inr (Some ''lycalopex'')" by code_simp
  have n7: "norm_rank (JStr ''culpaeus'') = Inr (Some ''culpaeus'')" by code_simp
  have n8: "norm_rank (JStr ''Felidae'') = Inr (Some ''felidae'')" by code_simp
  have n9: "norm_rank (JStr ''Felis'') = Inr (Some ''felis'')" by code_simp
  have n10: "norm_rank (JStr ''catus'') = Inr (Some ''catus'')" by code_simp
  have n11: "norm_rank (JStr ''Rodentia'') = Inr (Some ''rodentia'')" by code_simp
  have n12: "norm_rank (JStr ''Muridae'') = Inr (Some ''muridae'')" by code_simp
  have n13: "norm_rank JNull = Inr None" by code_simp
  have n14: "norm_rank (JStr ''musculus'') = Inr (Some ''musculus'')" by code_simp
  have n15: "norm_rank (JStr ''Aves'') = Inr (Some ''aves'')" by code_simp
  have n16: "norm_rank (JStr ''Corvidae'') = Inr (Some ''corvidae'')" by code_simp
  have n17: "norm_rank (JStr ''Corvus'') = Inr (Some ''corvus'')" by code_simp
  have n18: "norm_rank (JStr ''corax'') = Inr (Some ''corax'')" by code_simp
  have k0_sp: "get_by_latin t ''vulpes vulpes'' = Some e4" unfolding t_def e4_def by code_simp
  have h0: "(\<exists>gs ss. (Some ''vulpes'') = Some gs \<and> (Some ''vulpes'') = Some ss \<and> gs \<noteq> [] \<and> ss \<noteq> []
              \<and> get_by_latin t (gs @ '' '' @ ss) = Some e4)"
    by (simp add: k0_sp)
  have r0: "get_by_hierarchy t (JStr ''Mammalia'') (JStr ''Carnivora'') (JStr ''Canidae'') (JStr '' Vulpes'') (JStr ''Vulpes '')
     = Inr (Some e4, Some ''species'')"
    using hierarchy_first_hit [OF n0 n1 n2 n3 n4, of t, THEN conjunct2, THEN conjunct2, THEN conjunct1, THEN spec, THEN mp, OF h0] .
  have k1_sp: "get_by_latin t ''vulpes zerda'' = None" unfolding t_def by code_simp
  have k1_0: "get_by_latin t ''vulpes'' = Some e3" unfolding t_def e3_def by code_simp
  have h1: "(\<forall>gs ss. (Some ''vulpes'') = Some gs \<and> (Some ''zerda'') = Some ss \<and> gs \<noteq> [] \<and> ss \<noteq> []
              \<longrightarrow> get_by_latin t (gs @ '' '' @ ss) = None)
        \<and> (\<exists>x. (Some ''vulpes'') = Some x \<and> x \<noteq> [] \<and> get_by_latin t x = Some e3)"
    by (simp add: k1_sp k1_0)
  have r1: "get_by_hierarchy t (JStr ''Mammalia'') (JStr ''Carnivora'') (JStr ''Canidae'') (JStr '' Vulpes'') (JStr ''zerda'')
     = Inr (Some e3, Some ''genus'')"
    using hierarchy_first_hit [OF n0 n1 n2 n3 n5, of t, THEN conjunct2, THEN conjunct2, THEN conjunct2, THEN conjunct1, THEN spec, THEN mp, OF h1] .
  have k2_sp: "get_by_latin t ''lycalopex culpaeus'' = None" unfolding t_def by code_simp
  have k2_0: "get_by_latin t ''lycalopex'' = None" unfolding t_def by code_simp
  have k2_1: "get_by_latin t ''canidae'' = Some e2" unfolding t_def e2_def by code_simp
  have h2: "(\<forall>gs ss. (Some ''lycalopex'') = Some gs \<and> (Some ''culpaeus'') = Some ss \<and> gs \<noteq> [] \<and> ss \<noteq> []
              \<longrightarrow> get_by_latin t (gs @ '' '' @ ss) = None)
        \<and> (\<forall>x. (Some ''lycalopex'') = Some x \<and> x \<noteq> [] \<longrightarrow> get_by_latin t x = None)
        \<and> (\<exists>x. (Some ''canidae'') = Some x \<and> x \<noteq> [] \<and> get_by_latin t x = Some e2)"
    by (simp add: k2_sp k2_0 k2_1)
  have r2: "get_by_hierarchy t (JStr ''Mammalia'') (JStr ''Carnivora'') (JStr ''Canidae'') (JStr ''Lycalopex'') (JStr ''culpaeus'')
     = Inr (Some e2, Some ''family'')"
    using hierarchy_first_hit [OF n0 n1 n2 n6 n7, of t, THEN conjunct2, THEN conjunct2, THEN conjunct2, THEN conjunct2, THEN conjunct1, THEN spec, THEN mp, OF h2] .
  have k3_sp: "get_by_latin t ''felis catus'' = None" unfolding t_def by code_simp
  have k3_0: "get_by_latin t ''felis'' = None" unfolding t_def by code_simp
  have k3_1: "get_by_latin t ''felidae'' = None" unfolding t_def by code_simp
  have k3_2: "get_by_latin t ''carnivora'' = Some e1" unfolding t_def e1_def by code_simp
  have h3: "(\<forall>gs ss. (Some ''felis'') = Some gs \<and> (Some ''catus'') = Some ss \<and> gs \<noteq> [] \<and> ss \<noteq> []
              \<longrightarrow> get_by_latin t (gs @ '' '' @ ss) = None)
        \<and> (\<forall>x. (Some ''felis'') = Some x \<and> x \<noteq> [] \<longrightarrow> get_by_latin t x = None)
        \<and> (\<forall>x. (Some ''felidae'') = Some x \<and> x \<noteq> [] \<longrightarrow> get_by_latin t x = None)
        \<and> (\<exists>x. (Some ''carnivora'') = Some x \<and> x \<noteq> [] \<and> get_by_latin t x = Some e1)"
    by (simp add: k3_sp k3_0 k3_1 k3_2)
  have r3: "get_by_hierarchy t (JStr ''Mammalia'') (JStr ''Carnivora'') (JStr ''Felidae'') (JStr ''Felis'') (JStr ''catus'')
     = Inr (Some e1, Some ''order'')"
    using hierarchy_first_hit [OF n0 n1 n8 n9 n10, of t, THEN conjunct2, THEN conjunct2, THEN conjunct2, THEN conjunct2, THEN conjunct2, THEN conjunct1, THEN spec, THEN mp, OF h3] .
  have k4_1: "get_by_latin t ''muridae'' = None" unfolding t_def by code_simp
  have k4_2: "get_by_latin t ''rodentia'' = None" unfolding t_def by code_simp
  have k4_3: "get_by_latin t ''mammalia'' = Some e0" unfolding t_def e0_def by code_simp
  have h4: "(\<forall>gs ss. None = Some gs \<and> (Some ''musculus'') = Some ss \<and> gs \<noteq> [] \<and> ss \<noteq> []
              \<longrightarrow> get_by_latin t (gs @ '' '' @ ss) = None)
        \<and> (\<forall>x. None = Some x \<and> x \<noteq> [] \<longrightarrow> get_by_latin t x = None)
        \<and> (\<forall>x. (Some ''muridae'') = Some x \<and> x \<noteq> [] \<longrightarrow> get_by_latin t x = None)
        \<and> (\<forall>x. (Some ''rodentia'') = Some x \<and> x \<noteq> [] \<longrightarrow> get_by_latin t x = None)
        \<and> (\<exists>x. (Some ''mammalia'') = Some x \<and> x \<noteq> [] \<and> get_by_latin t x = Some e0)"
    by (simp add: k4_1 k4_2 k4_3)
  have r4: "get_by_hierarchy t (JStr ''Mammalia'') (JStr ''Rodentia'') (JStr ''Muridae'') JNull (JStr ''musculus'')
     = Inr (Some e0, Some ''class'')"
    using hierarchy_first_hit [OF n0 n11 n12 n13 n14, of t, THEN conjunct2, THEN conjunct2, THEN conjunct2, THEN conjunct2, THEN conjunct2, THEN conjunct2, THEN conjunct1, THEN spec, THEN mp, OF h4] .
  have k5_sp: "get_by_latin t ''corvus corax'' = None" unfolding t_def by code_simp
  have k5_0: "get_by_latin t ''corvus'' = None" unfolding t_def by code_simp
  have k5_1: "get_by_latin t ''corvidae'' = None" unfolding t_def by code_simp
  have k5_3: "get_by_latin t ''aves'' = None" unfolding t_def by code_simp
  have h5: "(\<forall>gs ss. (Some ''corvus'') = Some gs \<and> (Some ''corax'') = Some ss \<and> gs \<noteq> [] \<and> ss \<noteq> []
              \<longrightarrow> get_by_latin t (gs @ '' '' @ ss) = None)
        \<and> (\<forall>x. (Some ''corvus'') = Some x \<and> x \<noteq> [] \<longrightarrow> get_by_latin t x = None)
        \<and> (\<forall>x. (Some ''corvidae'') = Some x \<and> x \<noteq> [] \<longrightarrow> get_by_latin t x = None)
        \<and> (\<forall>x. None = Some x \<and> x \<noteq> [] \<longrightarrow> get_by_latin t x = None)
        \<and> (\<forall>x. (Some ''aves'') = Some x \<and> x \<noteq> [] \<longrightarrow> get_by_latin t x = None)"
    by (simp add: k5_sp k5_0 k5_1 k5_3)
  have r5: "get_by_hierarchy t (JStr ''Aves'') JNull (JStr ''Corvidae'') (JStr ''Corvus'') (JStr ''corax'')
     = Inr (None, None)"
    using hierarchy_first_hit [OF n15 n13 n16 n17 n18, of t, THEN conjunct2, THEN conjunct2, THEN conjunct2, THEN conjunct2, THEN conjunct2, THEN conjunct2, THEN conjunct2, THEN conjunct1, THEN mp, OF h5] .
  from r0 r1 r2 r3 r4 r5 show ?thesis
    unfolding t_def e0_def e1_def e2_def e3_def e4_def by (intro conjI)
qed

end
